(* ===== verification/Prelude.thy ===== *)
theory Prelude
  imports Complex_Main "HOL-Library.Sublist"
begin

text \<open>
  Shared vocabulary of the development: the Python exceptions the scripts can raise,
  the Python string primitives they use (\<open>in\<close>, \<open>str.split\<close> with an index,
  \<open>str.strip\<close>, \<open>str.replace\<close> by the empty string), the list statistics
  (\<open>sum/len\<close>, \<open>max\<close>, \<open>min\<close>) and the generic lemmas about them that the
  component theories use.  Python strings are modelled as \<open>string\<close> (lists of 8-bit
  characters, i.e. the UTF-8 bytes); all markers the code searches for are ASCII, so
  byte-level and code-point-level substring search agree on them.
\<close>

named_theorems py_simps "evaluation and characterisation rules of the Python primitives"

section \<open>Python exceptions and results\<close>

datatype py_error = IndexError | ValueError | KeyError | RequestError | ZeroDivisionError
  | TypeError | AttributeError | OSError

type_synonym 'a py_result = "py_error + 'a"

text \<open>Sequencing of statements that may raise: the first exception propagates.\<close>

definition py_bind :: "'a py_result \<Rightarrow> ('a \<Rightarrow> 'b py_result) \<Rightarrow> 'b py_result" where
  "py_bind r f = (case r of Inl e \<Rightarrow> Inl e | Inr x \<Rightarrow> f x)"

lemma py_bind_simps [simp]:
  "py_bind (Inl e) f = Inl e"
  "py_bind (Inr x) f = f x"
  by (simp_all add: py_bind_def)

section \<open>Substring test: \<open>needle in haystack\<close>\<close>

text \<open>Python's \<open>in\<close> on strings, written as the naive left-to-right scan.\<close>

fun py_in :: "string \<Rightarrow> string \<Rightarrow> bool" where
  "py_in needle [] \<longleftrightarrow> needle = []"
| "py_in needle (c # cs) \<longleftrightarrow> prefix needle (c # cs) \<or> py_in needle cs"

lemma py_in_iff_sublist [py_simps]: "py_in n h \<longleftrightarrow> sublist n h"
  by (induction h) (auto simp: sublist_Cons_right)

lemma py_in_Nil [simp]: "py_in [] h"
  by (simp add: py_in_iff_sublist)

section \<open>Splitting at the first occurrence of a separator\<close>

text \<open>
  \<open>split_first sep s\<close> is the pair (text before, text after) of the first occurrence of
  \<open>sep\<close> in \<open>s\<close>, or \<open>None\<close> if \<open>sep\<close> does not occur.  It is the building block of
  \<open>str.split\<close>.
\<close>

fun split_first :: "string \<Rightarrow> string \<Rightarrow> (string \<times> string) option" where
  "split_first sep [] = (if sep = [] then Some ([], []) else None)"
| "split_first sep (c # cs) =
     (if prefix sep (c # cs) then Some ([], drop (length sep) (c # cs))
      else map_option (\<lambda>(b, a). (c # b, a)) (split_first sep cs))"

lemma split_first_None [py_simps]: "split_first sep s = None \<longleftrightarrow> \<not> sublist sep s"
  by (induction s) (auto simp: sublist_Cons_right)

lemma split_first_Some_eq:
  "split_first sep s = Some (b, a) \<Longrightarrow> s = b @ sep @ a"
proof (induction s arbitrary: b)
  case Nil
  then show ?case by (simp split: if_splits)
next
  case (Cons c cs)
  show ?case
  proof (cases "prefix sep (c # cs)")
    case True
    with Cons.prems show ?thesis by (auto simp: prefix_def)
  next
    case False
    with Cons.prems obtain b' where "split_first sep cs = Some (b', a)" "b = c # b'"
      by auto
    with Cons.IH show ?thesis by simp
  qed
qed

lemma split_first_Some_length:
  "split_first sep s = Some (b, a) \<Longrightarrow> sep \<noteq> [] \<Longrightarrow> length a < length s"
  by (drule split_first_Some_eq) simp

text \<open>
  The first occurrence of a separator whose first character does not occur again in it
  (every marker of the program: \<open><answer>\<close>, \<open></answer>\<close>, ...) is found after any
  prefix that does not contain the separator.
\<close>

definition lead_unique :: "string \<Rightarrow> bool" where
  "lead_unique sep \<longleftrightarrow> sep \<noteq> [] \<and> hd sep \<notin> set (tl sep)"

lemma lead_unique_no_overlap:
  assumes u: "lead_unique sep" and ne: "b \<noteq> []" and nb: "\<not> sublist sep b"
  shows "\<not> prefix sep (b @ hd sep # t)"
proof
  assume p: "prefix sep (b @ hd sep # t)"
  show False
  proof (cases "length sep \<le> length b")
    case True
    with p have "prefix sep b" by (metis prefix_length_prefix prefix_append prefix_order.refl)
    with nb show False by (auto dest: prefix_imp_sublist)
  next
    case False
    from p have "sep = take (length sep) (b @ hd sep # t)" by (metis prefix_def append_eq_conv_conj)
    then have "sep ! length b = (b @ hd sep # t) ! length b" using False
      by (metis nth_take not_le)
    also have "\<dots> = hd sep" by (simp add: nth_append)
    finally have "hd sep = sep ! length b" ..
    moreover have "sep ! length b \<in> set (tl sep)"
    proof -
      from ne have pos: "0 < length b" by simp
      have "length b - 1 < length (tl sep)" using False pos by (simp only: length_tl)
      moreover from pos False have "sep ! length b = tl sep ! (length b - 1)"
        by (cases sep) (simp_all add: nth_Cons')
      ultimately show ?thesis by simp
    qed
    ultimately show False using u by (simp add: lead_unique_def)
  qed
qed

lemma split_first_no_lead:
  "sep \<noteq> [] \<Longrightarrow> hd sep \<notin> set w \<Longrightarrow> split_first sep (w @ t) = map_option (\<lambda>(x, y). (w @ x, y)) (split_first sep t)"
proof (induction w)
  case Nil
  then show ?case by (simp add: option.map_ident case_prod_unfold)
next
  case (Cons c w)
  then have "\<not> prefix sep (c # w @ t)" by (cases sep) auto
  with Cons show ?case by (simp add: option.map_comp case_prod_unfold comp_def)
qed

lemma split_first_skip:
  assumes u: "lead_unique sep" and nb: "\<not> sublist sep b"
  shows "split_first sep (b @ hd sep # t) = map_option (\<lambda>(x, y). (b @ x, y)) (split_first sep (hd sep # t))"
  using nb
proof (induction b)
  case Nil
  then show ?case by (simp add: option.map_ident case_prod_unfold)
next
  case (Cons c b)
  from u obtain d ds where sep: "sep = d # ds" by (cases sep) (auto simp: lead_unique_def)
  have "\<not> prefix sep (c # b @ hd sep # t)"
    using lead_unique_no_overlap [OF u _ Cons.prems] by simp
  moreover have "\<not> sublist sep b" using Cons.prems by (auto intro: sublist_Cons_right [THEN iffD2])
  ultimately show ?case using Cons.IH by (simp add: option.map_comp case_prod_unfold comp_def)
qed

lemma split_first_append [py_simps]:
  assumes u: "lead_unique sep" and nb: "\<not> sublist sep b"
  shows "split_first sep (b @ sep @ a) = Some (b, a)"
proof -
  from u obtain d ds where sep: "sep = d # ds" by (cases sep) (auto simp: lead_unique_def)
  have "split_first sep (hd sep # ds @ a) = Some ([], a)" by (simp add: sep)
  with split_first_skip [OF u nb, of "ds @ a"] show ?thesis by (simp add: sep)
qed

lemma split_first_Some_first:
  "split_first sep s = Some (b, a) \<Longrightarrow> sep \<noteq> [] \<Longrightarrow> \<not> sublist sep b"
proof (induction s arbitrary: b)
  case Nil
  then show ?case by (simp split: if_splits)
next
  case (Cons c cs)
  show ?case
  proof (cases "prefix sep (c # cs)")
    case True
    with Cons.prems show ?thesis by auto
  next
    case False
    with Cons.prems obtain b' where b': "split_first sep cs = Some (b', a)" "b = c # b'"
      by auto
    with Cons.IH Cons.prems have "\<not> sublist sep b'" by blast
    moreover have "\<not> prefix sep (c # b')"
      using False split_first_Some_eq [OF b'(1)] by (metis append_Cons prefix_append prefix_order.order_trans)
    ultimately show ?thesis using b'(2) by (simp add: sublist_Cons_right)
  qed
qed

text \<open>\<open>s.split(sep)[0]\<close>: the text before the first occurrence, all of \<open>s\<close> if none.\<close>

definition take_before :: "string \<Rightarrow> string \<Rightarrow> string" where
  "take_before sep s = (case split_first sep s of None \<Rightarrow> s | Some (b, a) \<Rightarrow> b)"

lemma take_before_no_lead [py_simps]:
  "sep \<noteq> [] \<Longrightarrow> hd sep \<notin> set w \<Longrightarrow> take_before sep (w @ t) = w @ take_before sep t"
  by (simp add: take_before_def split_first_no_lead split: option.splits)

lemma take_before_skip [py_simps]:
  "lead_unique sep \<Longrightarrow> \<not> sublist sep b \<Longrightarrow> take_before sep (b @ hd sep # t) = b @ take_before sep (hd sep # t)"
  by (simp add: take_before_def split_first_skip split: option.splits)

lemma take_before_append [py_simps]:
  "lead_unique sep \<Longrightarrow> \<not> sublist sep b \<Longrightarrow> take_before sep (b @ sep @ a) = b"
  by (simp add: take_before_def split_first_append)

section \<open>\<open>str.split\<close> and indexing\<close>

function py_split_aux :: "string \<Rightarrow> string \<Rightarrow> string list" where
  "py_split_aux sep s =
     (if sep = [] then [s]
      else case split_first sep s of
             None \<Rightarrow> [s]
           | Some (b, a) \<Rightarrow> b # py_split_aux sep a)"
  by pat_completeness auto
termination
  by (relation "measure (\<lambda>(sep, s). length s)") (auto dest: split_first_Some_length)

declare py_split_aux.simps [simp del]

text \<open>\<open>s.split(sep)\<close>: \<open>ValueError\<close> for an empty separator.\<close>

definition py_split :: "string \<Rightarrow> string \<Rightarrow> string list py_result" where
  "py_split s sep = (if sep = [] then Inl ValueError else Inr (py_split_aux sep s))"

text \<open>\<open>xs[i]\<close> for a non-negative literal index, \<open>IndexError\<close> out of range.\<close>

definition py_index :: "'a list \<Rightarrow> nat \<Rightarrow> 'a py_result" where
  "py_index xs i = (if i < length xs then Inr (xs ! i) else Inl IndexError)"

lemma py_split_aux_absent [py_simps]:
  "\<not> sublist sep s \<Longrightarrow> py_split_aux sep s = [s]"
  by (subst py_split_aux.simps) (simp add: split_first_None [symmetric])

lemma py_split_aux_first [py_simps]:
  "sep \<noteq> [] \<Longrightarrow> split_first sep s = Some (b, a) \<Longrightarrow> py_split_aux sep s = b # py_split_aux sep a"
  by (subst py_split_aux.simps) simp

lemma py_split_aux_nonempty: "py_split_aux sep s \<noteq> []"
  by (subst py_split_aux.simps) (auto split: option.splits)

lemma py_split_aux_hd [py_simps]: "sep \<noteq> [] \<Longrightarrow> hd (py_split_aux sep s) = take_before sep s"
  by (subst py_split_aux.simps) (auto simp: take_before_def split: option.splits)

lemma py_split_aux_present:
  "sep \<noteq> [] \<Longrightarrow> sublist sep s \<Longrightarrow> 2 \<le> length (py_split_aux sep s)"
proof -
  assume ne: "sep \<noteq> []" and occ: "sublist sep s"
  then obtain b a where sf: "split_first sep s = Some (b, a)"
    by (cases "split_first sep s") (auto simp: split_first_None)
  with ne have "py_split_aux sep s = b # py_split_aux sep a" by (rule py_split_aux_first)
  with py_split_aux_nonempty [of sep a] show ?thesis by (cases "py_split_aux sep a") auto
qed

section \<open>\<open>str.strip\<close> and \<open>str.replace(c, "")\<close>\<close>

text \<open>
  \<open>str.isspace\<close> on the ASCII range: space, \<open>\t \n \v \f \r\<close> and the separators
  \<open>\x1c\<close>--\<open>\x1f\<close>.  Non-ASCII Unicode spaces are not modelled (see the header).
\<close>

definition is_py_space :: "char \<Rightarrow> bool" where
  "is_py_space c \<longleftrightarrow>
     (let n = (of_char c :: nat) in n = 32 \<or> (9 \<le> n \<and> n \<le> 13) \<or> (28 \<le> n \<and> n \<le> 31))"

definition py_strip :: "string \<Rightarrow> string" where
  "py_strip s = rev (dropWhile is_py_space (rev (dropWhile is_py_space s)))"

definition py_remove_char :: "char \<Rightarrow> string \<Rightarrow> string" where
  "py_remove_char c s = filter (\<lambda>x. x \<noteq> c) s"

lemma dropWhile_fixed: "xs = [] \<or> \<not> P (hd xs) \<Longrightarrow> dropWhile P xs = xs"
  by (cases xs) auto

lemma dropWhile_nonspace: "dropWhile P xs = [] \<or> \<not> P (hd (dropWhile P xs))"
  using hd_dropWhile by blast

lemma rev_dropWhile_rev_hd:
  assumes "xs = [] \<or> \<not> P (hd xs)"
  shows "rev (dropWhile P (rev xs)) = [] \<or> \<not> P (hd (rev (dropWhile P (rev xs))))"
proof -
  define y where "y = rev (dropWhile P (rev xs))"
  have "xs = y @ rev (takeWhile P (rev xs))"
    unfolding y_def by (metis rev_append rev_rev_ident takeWhile_dropWhile_id)
  then have "y \<noteq> [] \<Longrightarrow> hd y = hd xs" by (metis hd_append2)
  moreover have "xs = [] \<Longrightarrow> y = []" by (simp add: y_def)
  ultimately show ?thesis using assms unfolding y_def [symmetric] by (cases "y = []") auto
qed

lemma py_strip_idem [py_simps]: "py_strip (py_strip s) = py_strip s"
proof -
  let ?D = "dropWhile is_py_space"
  define u where "u = rev (?D (rev (?D s)))"
  have u_front: "?D u = u"
    unfolding u_def by (rule dropWhile_fixed [OF rev_dropWhile_rev_hd [OF dropWhile_nonspace]])
  have u_back: "rev (?D (rev u)) = u"
    unfolding u_def by (simp add: dropWhile_fixed [OF dropWhile_nonspace])
  show ?thesis
    unfolding py_strip_def u_def [symmetric] using u_front u_back by simp
qed

lemma py_strip_no_space [py_simps]:
  "xs \<noteq> [] \<Longrightarrow> \<not> is_py_space (hd xs) \<Longrightarrow> \<not> is_py_space (last xs) \<Longrightarrow> py_strip xs = xs"
proof -
  assume ne: "xs \<noteq> []" and h: "\<not> is_py_space (hd xs)" and l: "\<not> is_py_space (last xs)"
  from ne h have "dropWhile is_py_space xs = xs" by (cases xs) auto
  moreover from ne l have "dropWhile is_py_space (rev xs) = rev xs"
    by (cases "rev xs") (auto simp: last_rev [symmetric])
  ultimately show ?thesis by (simp add: py_strip_def)
qed

lemma py_remove_char_idem [py_simps]:
  "py_remove_char c (py_remove_char c s) = py_remove_char c s"
  by (simp add: py_remove_char_def)

lemma py_remove_char_commute:
  "py_remove_char c (py_remove_char d s) = py_remove_char d (py_remove_char c s)"
  by (simp add: py_remove_char_def conj_commute)

section \<open>True division\<close>

text \<open>Python's \<open>x / y\<close> on numbers: \<open>ZeroDivisionError\<close> for a zero divisor
  (HOL's own \<open>x / 0\<close> is 0, which would hide a missing guard).\<close>

definition py_truediv :: "real \<Rightarrow> real \<Rightarrow> real py_result" where
  "py_truediv x y = (if y = 0 then Inl ZeroDivisionError else Inr (x / y))"

lemma py_truediv_nonzero [simp]: "y \<noteq> 0 \<Longrightarrow> py_truediv x y = Inr (x / y)"
  by (simp add: py_truediv_def)

section \<open>Floor division and \<open>range\<close>\<close>

text \<open>\<open>a // b\<close> on ints rounds towards minus infinity, as HOL's \<open>div\<close> does.\<close>

definition py_floordiv :: "int \<Rightarrow> int \<Rightarrow> int py_result" where
  "py_floordiv a b = (if b = 0 then Inl ZeroDivisionError else Inr (a div b))"

function py_range_up :: "int \<Rightarrow> int \<Rightarrow> int \<Rightarrow> int list" where
  "py_range_up start stop step =
     (if 0 < step \<and> start < stop then start # py_range_up (start + step) stop step else [])"
  by pat_completeness auto
termination
  by (relation "measure (\<lambda>(start, stop, step). nat (stop - start))") auto

function py_range_down :: "int \<Rightarrow> int \<Rightarrow> int \<Rightarrow> int list" where
  "py_range_down start stop step =
     (if step < 0 \<and> stop < start then start # py_range_down (start + step) stop step else [])"
  by pat_completeness auto
termination
  by (relation "measure (\<lambda>(start, stop, step). nat (start - stop))") auto

declare py_range_up.simps [simp del] py_range_down.simps [simp del]

text \<open>\<open>list(range(start, stop, step))\<close>: \<open>ValueError\<close> for a zero step.\<close>

definition py_range :: "int \<Rightarrow> int \<Rightarrow> int \<Rightarrow> int list py_result" where
  "py_range start stop step =
     (if step = 0 then Inl ValueError
      else if 0 < step then Inr (py_range_up start stop step)
      else Inr (py_range_down start stop step))"

lemma py_floordiv_pos [simp]: "b \<noteq> 0 \<Longrightarrow> py_floordiv a b = Inr (a div b)"
  by (simp add: py_floordiv_def)

lemma py_range_up_step:
  "0 < step \<Longrightarrow> start < stop \<Longrightarrow> py_range_up start stop step = start # py_range_up (start + step) stop step"
  by (subst py_range_up.simps) simp

lemma py_range_up_stop:
  "\<not> start < stop \<Longrightarrow> py_range_up start stop step = []"
  by (subst py_range_up.simps) simp

section \<open>List statistics: \<open>sum(xs)/len(xs)\<close>, \<open>max\<close>, \<open>min\<close>\<close>

definition py_mean :: "int list \<Rightarrow> real" where
  "py_mean xs = real_of_int (sum_list xs) / real (length xs)"

fun py_max :: "int list \<Rightarrow> int py_result" where
  "py_max [] = Inl ValueError"
| "py_max (x # xs) = Inr (fold max xs x)"

fun py_min :: "int list \<Rightarrow> int py_result" where
  "py_min [] = Inl ValueError"
| "py_min (x # xs) = Inr (fold min xs x)"

lemma fold_max_eq_Max: "fold max xs x = Max (set (x # xs))"
  by (simp only: Max.set_eq_fold)

lemma fold_min_eq_Min: "fold min xs x = Min (set (x # xs))"
  by (simp only: Min.set_eq_fold)

lemma py_max_Max [py_simps]: "xs \<noteq> [] \<Longrightarrow> py_max xs = Inr (Max (set xs))"
  by (cases xs) (simp_all add: fold_max_eq_Max)

lemma py_min_Min [py_simps]: "xs \<noteq> [] \<Longrightarrow> py_min xs = Inr (Min (set xs))"
  by (cases xs) (simp_all add: fold_min_eq_Min)

section \<open>Slices and percentages\<close>

text \<open>\<open>xs[a:b]\<close> for non-negative bounds.\<close>

definition py_slice :: "'a list \<Rightarrow> nat \<Rightarrow> nat \<Rightarrow> 'a list" where
  "py_slice xs a b = take (b - a) (drop a xs)"

lemma py_slice_length [simp]: "length (py_slice xs a b) = min (b - a) (length xs - a)"
  by (simp add: py_slice_def)

lemma percent_bounds:
  "c \<le> n \<Longrightarrow> 0 \<le> real c / real n * 100 \<and> real c / real n * 100 \<le> (100::real)"
  by (cases "n = 0") (simp_all add: divide_le_eq)

section \<open>Mean and median\<close>

text \<open>
  \<open>np.median\<close>: the middle of the sorted list, or the mean of the two middle elements.
  The scripts call it only on non-empty lists.
\<close>

definition py_median :: "int list \<Rightarrow> real" where
  "py_median xs =
     (let ys = sort xs; n = length ys
      in if even n then (real_of_int (ys ! (n div 2 - 1)) + real_of_int (ys ! (n div 2))) / 2
         else real_of_int (ys ! (n div 2)))"

lemma sum_list_lower:
  "(\<forall>x \<in> set xs. a \<le> x) \<Longrightarrow> int (length xs) * a \<le> sum_list xs"
  by (induction xs) (auto simp: algebra_simps)

lemma sum_list_upper:
  "(\<forall>x \<in> set xs. x \<le> b) \<Longrightarrow> sum_list xs \<le> int (length xs) * b"
  by (induction xs) (auto simp: algebra_simps)

lemma py_mean_bounds:
  assumes "xs \<noteq> []"
  shows "real_of_int (Min (set xs)) \<le> py_mean xs \<and> py_mean xs \<le> real_of_int (Max (set xs))"
proof -
  have n: "0 < real (length xs)" using assms by simp
  have lo: "int (length xs) * Min (set xs) \<le> sum_list xs"
    by (rule sum_list_lower) simp
  have hi: "sum_list xs \<le> int (length xs) * Max (set xs)"
    by (rule sum_list_upper) simp
  from lo have "real (length xs) * real_of_int (Min (set xs)) \<le> real_of_int (sum_list xs)"
    by (metis of_int_le_iff of_int_mult of_int_of_nat_eq)
  moreover from hi have "real_of_int (sum_list xs) \<le> real (length xs) * real_of_int (Max (set xs))"
    by (metis of_int_le_iff of_int_mult of_int_of_nat_eq)
  ultimately show ?thesis
    using n by (simp add: py_mean_def pos_le_divide_eq pos_divide_le_eq mult.commute)
qed

lemma sort_nth_bounds:
  assumes "i < length xs"
  shows "Min (set xs) \<le> sort xs ! i \<and> sort xs ! i \<le> Max (set xs)"
proof -
  have "sort xs ! i \<in> set xs" using assms by (metis length_sort nth_mem set_sort)
  then show ?thesis by simp
qed

lemma py_median_bounds:
  assumes "xs \<noteq> []"
  shows "real_of_int (Min (set xs)) \<le> py_median xs \<and> py_median xs \<le> real_of_int (Max (set xs))"
proof (cases "even (length xs)")
  case True
  with assms have "0 < length xs div 2" by (cases xs) auto
  then have i: "length xs div 2 - 1 < length xs" "length xs div 2 < length xs" by auto
  from sort_nth_bounds [OF i(1)] sort_nth_bounds [OF i(2)] True show ?thesis
    by (simp add: py_median_def Let_def field_simps)
next
  case False
  with assms have "length xs div 2 < length xs" by (cases xs) auto
  from sort_nth_bounds [OF this] False show ?thesis
    by (simp add: py_median_def Let_def)
qed

section \<open>Mapping a raising function over a list; case and characters of strings\<close>

text \<open>A list comprehension whose element expression may raise: the first exception wins.\<close>

fun py_map_list :: "('a \<Rightarrow> 'b py_result) \<Rightarrow> 'a list \<Rightarrow> 'b list py_result" where
  "py_map_list f [] = Inr []"
| "py_map_list f (x # xs) = py_bind (f x) (\<lambda>y. py_bind (py_map_list f xs) (\<lambda>ys. Inr (y # ys)))"

lemma py_map_list_Inr:
  "(\<And>x. x \<in> set xs \<Longrightarrow> f x = Inr (h x)) \<Longrightarrow> py_map_list f xs = Inr (map h xs)"
  by (induction xs) simp_all

text \<open>\<open>str.lower()\<close> on ASCII letters and \<open>str.replace(a, b)\<close> of one character by another.\<close>

definition py_lower :: "string \<Rightarrow> string" where
  "py_lower s = map (\<lambda>c. let n = (of_char c :: nat) in if 65 \<le> n \<and> n \<le> 90 then char_of (n + 32) else c) s"

definition py_replace_char :: "char \<Rightarrow> char \<Rightarrow> string \<Rightarrow> string" where
  "py_replace_char a b s = map (\<lambda>c. if c = a then b else c) s"

end
