(* ===== verification/Classifier.thy ===== *)
theory Classifier
  imports Prelude
begin

text \<open>
  The marker-tag mini-format of the model's responses and the response classifier of
  \<open>src/math/process3.py\<close> (the \<open>response_type\<close> field of each iteration record,
  line 176): the first of \<open><think>\<close>, \<open><summary>\<close>, \<open><answer>\<close> that occurs
  decides the type, \<open>other\<close> if none does.
\<close>

section \<open>Marker tags\<close>

definition think_tag :: string where "think_tag = ''<think>''"
definition summary_tag :: string where "summary_tag = ''<summary>''"
definition answer_open :: string where "answer_open = ''<answer>''"
definition answer_close :: string where "answer_close = ''</answer>''"

lemmas tag_defs = think_tag_def summary_tag_def answer_open_def answer_close_def

lemma tags_lead_unique [py_simps]:
  "lead_unique think_tag" "lead_unique summary_tag"
  "lead_unique answer_open" "lead_unique answer_close"
  by (simp_all add: lead_unique_def tag_defs)

lemma tags_nonempty [simp]:
  "think_tag \<noteq> []" "summary_tag \<noteq> []" "answer_open \<noteq> []" "answer_close \<noteq> []"
  by (simp_all add: tag_defs)

section \<open>Response types\<close>

datatype response_type = Thinking | Summary | Answer | Other

text \<open>
  The four types are a finite enumeration, so that properties quantified over every
  response type are decided by evaluation.
\<close>

lemma UNIV_response_type: "UNIV = {Thinking, Summary, Answer, Other}"
  using response_type.exhaust by auto

instantiation response_type :: enum
begin

definition "enum_response_type = [Thinking, Summary, Answer, Other]"

definition "enum_all_response_type P \<longleftrightarrow> P Thinking \<and> P Summary \<and> P Answer \<and> P Other"

definition "enum_ex_response_type P \<longleftrightarrow> P Thinking \<or> P Summary \<or> P Answer \<or> P Other"

instance
proof
  show "UNIV = set (enum_class.enum :: response_type list)"
    by (simp add: UNIV_response_type enum_response_type_def)
  show "distinct (enum_class.enum :: response_type list)"
    by (simp add: enum_response_type_def)
  show "\<And>P. (enum_class.enum_all :: (response_type \<Rightarrow> bool) \<Rightarrow> bool) P = Ball UNIV P"
    by (simp add: UNIV_response_type enum_all_response_type_def)
  show "\<And>P. (enum_class.enum_ex :: (response_type \<Rightarrow> bool) \<Rightarrow> bool) P = Bex UNIV P"
    by (simp add: UNIV_response_type enum_ex_response_type_def)
qed

end

text \<open>The strings stored in the JSON report.\<close>

fun response_type_name :: "response_type \<Rightarrow> string" where
  "response_type_name Thinking = ''thinking''"
| "response_type_name Summary = ''summary''"
| "response_type_name Answer = ''answer''"
| "response_type_name Other = ''other''"

text \<open>
  \<^verbatim>\<open>"thinking" if "<think>" in response else ("summary" if "<summary>" in response
   else ("answer" if "<answer>" in response else "other"))\<close>
\<close>

definition classify_response :: "string \<Rightarrow> response_type" where
  "classify_response response =
     (if py_in think_tag response then Thinking
      else if py_in summary_tag response then Summary
      else if py_in answer_open response then Answer
      else Other)"

section \<open>Properties\<close>

lemma response_type_name_inj [simp]:
  "response_type_name t = response_type_name t' \<longleftrightarrow> t = t'"
  by (cases t; cases t') simp_all

lemma classify_response_cases:
  "classify_response r = Thinking \<longleftrightarrow> sublist think_tag r"
  "classify_response r = Summary \<longleftrightarrow> \<not> sublist think_tag r \<and> sublist summary_tag r"
  "classify_response r = Answer \<longleftrightarrow>
     \<not> sublist think_tag r \<and> \<not> sublist summary_tag r \<and> sublist answer_open r"
  "classify_response r = Other \<longleftrightarrow>
     \<not> sublist think_tag r \<and> \<not> sublist summary_tag r \<and> \<not> sublist answer_open r"
  by (simp_all add: classify_response_def py_in_iff_sublist)

end
