(* ===== verification/Extract.thy ===== *)
theory Extract
  imports Classifier
begin

text \<open>
  Extraction of the final answer from a model response, in the three forms the
  scripts use:
  \<^item> \<open>answer_of_response\<close>: \<open>response.split("<answer>")[1].split("</answer>")[0].strip()\<close>,
    the extraction the iteration driver performs (\<open>src/math/process3.py\<close> line 198,
    \<open>src/math/process.py\<close> line 128);
  \<^item> \<open>regex_answer\<close>: \<open>re.search(r"<answer>(.*?)</answer>", s, re.DOTALL)\<close>, the
    leftmost match with the shortest group;
  \<^item> \<open>extract_final_answer\<close> of \<open>process3.py\<close> (lines 225--234, raw text when no
    match) and \<open>extract_final_answer_single\<close> of \<open>test3.py\<close> (lines 105--112,
    \<open>None\<close> when no match).
\<close>

section \<open>Split-based extraction\<close>

definition answer_of_response :: "string \<Rightarrow> string py_result" where
  "answer_of_response response =
     py_bind (py_split response answer_open) (\<lambda>parts.
     py_bind (py_index parts 1) (\<lambda>after.
     py_bind (py_split after answer_close) (\<lambda>parts2.
     py_bind (py_index parts2 0) (\<lambda>inner. Inr (py_strip inner)))))"

section \<open>Regex-based extraction\<close>

text \<open>
  Leftmost start position at which \<open><answer>\<close> begins and a \<open></answer>\<close> follows;
  the lazy group \<open>(.*?)\<close> ends at the first \<open></answer>\<close> after the opening tag.
\<close>

fun regex_answer :: "string \<Rightarrow> string option" where
  "regex_answer [] = None"
| "regex_answer (c # cs) =
     (if prefix answer_open (c # cs) then
        (case split_first answer_close (drop (length answer_open) (c # cs)) of
           Some (inner, _) \<Rightarrow> Some inner
         | None \<Rightarrow> regex_answer cs)
      else regex_answer cs)"

definition extract_final_answer :: "string option \<Rightarrow> string option" where
  "extract_final_answer response_content =
     (case response_content of
        None \<Rightarrow> None
      | Some s \<Rightarrow> (case regex_answer s of Some g \<Rightarrow> Some (py_strip g) | None \<Rightarrow> Some s))"

definition extract_final_answer_single :: "string \<Rightarrow> string option" where
  "extract_final_answer_single response_content =
     map_option py_strip (regex_answer response_content)"

section \<open>Lemmas on the split-based extraction\<close>

lemma answer_of_response_eq:
  "sublist answer_open r \<Longrightarrow>
   answer_of_response r =
     Inr (py_strip (take_before answer_close (hd (tl (py_split_aux answer_open r)))))"
proof -
  assume occ: "sublist answer_open r"
  have two: "2 \<le> length (py_split_aux answer_open r)"
    using py_split_aux_present [OF _ occ] by simp
  then have "py_split_aux answer_open r ! 1 = hd (tl (py_split_aux answer_open r))"
    by (cases "py_split_aux answer_open r"; cases "tl (py_split_aux answer_open r)") auto
  moreover have "py_split_aux answer_close s ! 0 = take_before answer_close s" for s
    using py_split_aux_nonempty [of answer_close s] py_split_aux_hd [of answer_close s]
    by (simp add: hd_conv_nth)
  ultimately show ?thesis
    using two py_split_aux_nonempty [of answer_close]
    by (simp add: answer_of_response_def py_split_def py_index_def)
qed

text \<open>The split extraction raises IndexError on a response without <answer>.\<close>

lemma answer_of_response_absent:
  "\<not> sublist answer_open r \<Longrightarrow> answer_of_response r = Inl IndexError"
  by (simp add: answer_of_response_def py_split_def py_index_def py_split_aux_absent)

lemma tl_py_split_aux:
  "sep \<noteq> [] \<Longrightarrow> split_first sep s = Some (b, a) \<Longrightarrow> tl (py_split_aux sep s) = py_split_aux sep a"
  by (simp add: py_split_aux_first)

lemma take_before_open_after_close:
  "take_before answer_open (answer_close @ q) = answer_close @ take_before answer_open q"
proof -
  have "hd answer_open \<notin> set (tl answer_close)" by (simp add: tag_defs)
  then have "take_before answer_open (tl answer_close @ q) = tl answer_close @ take_before answer_open q"
    by (simp add: take_before_no_lead)
  moreover have "take_before answer_open (answer_close @ q) =
      hd answer_close # take_before answer_open (tl answer_close @ q)"
    by (simp add: take_before_def tag_defs split: option.splits)
  ultimately show ?thesis by (simp add: tag_defs)
qed

text \<open>C6: Extracting with split('<answer>')[1].split('</answer>')[0].strip() from a response that renders x between the answer tags, after text free of the opening tag, gives back strip(x).\<close>

lemma answer_of_response_render:
  assumes np: "\<not> sublist answer_open p" and nx: "\<not> sublist answer_open x"
    and nc: "\<not> sublist answer_close x"
  shows "answer_of_response (p @ answer_open @ x @ answer_close @ q) = Inr (py_strip x)"
proof -
  let ?rest = "x @ answer_close @ q"
  have sf: "split_first answer_open (p @ answer_open @ ?rest) = Some (p, ?rest)"
    using np by (simp add: split_first_append tags_lead_unique)
  have occ: "sublist answer_open (p @ answer_open @ ?rest)" by (auto simp: sublist_def)
  have hd_close: "answer_close @ q = hd answer_open # (tl answer_close @ q)"
    by (simp add: tag_defs)
  have "take_before answer_open ?rest = x @ take_before answer_open (answer_close @ q)"
    unfolding hd_close by (rule take_before_skip [OF tags_lead_unique(3) nx])
  also have "\<dots> = x @ answer_close @ take_before answer_open q"
    by (simp add: take_before_open_after_close)
  finally have after: "take_before answer_open ?rest = x @ answer_close @ take_before answer_open q" .
  have "hd (tl (py_split_aux answer_open (p @ answer_open @ ?rest))) = take_before answer_open ?rest"
    using tl_py_split_aux [OF _ sf] py_split_aux_hd [of answer_open ?rest] by simp
  with after answer_of_response_eq [OF occ] show ?thesis
    by (simp add: take_before_append [OF tags_lead_unique(4) nc])
qed

section \<open>Witnesses\<close>

lemma no_answer_tags_example:
  "\<not> sublist answer_open ''I think ''" "\<not> sublist answer_open '' 42 ''" "\<not> sublist answer_close '' 42 ''"
  by (simp_all add: py_in_iff_sublist [symmetric] tag_defs)

theorem answer_of_response_render_witness:
  "answer_of_response (''I think '' @ answer_open @ '' 42 '' @ answer_close @ ''.'') = Inr (py_strip '' 42 '')"
  by (rule answer_of_response_render [OF no_answer_tags_example])

theorem answer_of_response_absent_witness:
  "answer_of_response ''<think>no tag</think>'' = Inl IndexError"
proof -
  have "\<not> sublist answer_open ''<think>no tag</think>''"
    by (simp add: py_in_iff_sublist [symmetric] tag_defs)
  then show ?thesis by (rule answer_of_response_absent)
qed

end
