(* ===== verification/Driver.thy ===== *)
theory Driver
  imports Extract
begin

text \<open>
  The iteration driver \<open>solve_problem_with_agents\<close> of \<open>src/math/process3.py\<close>
  (lines 61--223) with its helpers \<open>_get_response\<close>, \<open>_generate_prompt\<close> and
  \<open>_get_user_prompt\<close>.  The remote chat-completion endpoint is a parameter \<open>api\<close>
  of type \<open>llm\<close>: given the 0-based iteration number, the system prompt and the user
  prompt it returns the outcome of one HTTP round trip.  Nothing is assumed about it, so
  every theorem holds for every behaviour of the model and the network.
\<close>

section \<open>Data\<close>

record usage =
  prompt_tokens :: int
  completion_tokens :: int
  total_tokens :: int

text \<open>
  The system prompts the scripts send.  \<open>_generate_prompt\<close> of \<open>process3.py\<close>
  interpolates four literal limits (623, 142, 623, 50) into a fixed template, that of
  \<open>process.py\<close> three (300, 100, 100); the template text itself is not modelled, only
  the numbers it states.
\<close>

datatype sys_prompt =
    Agent_prompt nat nat nat nat
  | Legacy_agent_prompt nat nat nat
  | Eval_prompt
  | Single_prompt

text \<open>
  One call of \<open>requests.post\<close>: a response (its \<open>choices[0].message.content\<close>, its
  \<open>usage\<close>, its latency), a \<open>RequestException\<close> (connection error, timeout, or the
  \<open>HTTPError\<close> of \<open>raise_for_status\<close>), or another exception such as a
  \<open>KeyError\<close> on a malformed body.
\<close>

datatype api_outcome =
    Api_ok string usage real
  | Api_request_error
  | Api_raised py_error

type_synonym llm = "nat \<Rightarrow> sys_prompt \<Rightarrow> string \<Rightarrow> api_outcome"

record iteration_info =
  info_iteration :: nat
  info_prompt_tokens :: int
  info_completion_tokens :: int
  info_total_tokens :: int
  info_latency :: real
  info_response_type :: response_type

record solve_state =
  last_response :: string
  total_usage :: usage
  total_latency :: real
  total_cost :: real
  flops :: int
  iterations_count :: nat
  iteration_details :: "iteration_info list"
  iteration_completion_tokens :: "int list"

record solve_result =
  final_answer :: "string option"
  res_usage :: usage
  res_latency :: real
  res_cost :: real
  res_flops :: int
  res_iterations :: nat
  avg_completion_tokens_per_iteration :: real
  max_completion_tokens_per_iteration :: int
  min_completion_tokens_per_iteration :: int
  res_details :: "iteration_info list"

datatype step = Continue solve_state | Finished string solve_state

section \<open>Operations\<close>

text \<open>\<open>_get_response\<close>: the content is stripped.\<close>

definition get_response :: "llm \<Rightarrow> nat \<Rightarrow> sys_prompt \<Rightarrow> string \<Rightarrow> api_outcome" where
  "get_response api i sp user_prompt =
     (case api i sp user_prompt of
        Api_ok content u lat \<Rightarrow> Api_ok (py_strip content) u lat
      | other \<Rightarrow> other)"

definition generate_prompt :: "nat \<Rightarrow> nat \<Rightarrow> nat \<Rightarrow> sys_prompt" where
  "generate_prompt thought_token_limit summary_token_limit answer_token_limit =
     Agent_prompt 623 142 623 50"

definition get_user_prompt :: "string \<Rightarrow> string \<Rightarrow> string" where
  "get_user_prompt question last_resp =
     (if last_resp = [] then question else question @ CHR 0x0A # last_resp)"

definition add_usage :: "usage \<Rightarrow> usage \<Rightarrow> usage" where
  "add_usage a b =
     \<lparr>prompt_tokens = prompt_tokens a + prompt_tokens b,
      completion_tokens = completion_tokens a + completion_tokens b,
      total_tokens = total_tokens a + total_tokens b\<rparr>"

definition zero_usage :: usage where
  "zero_usage = \<lparr>prompt_tokens = 0, completion_tokens = 0, total_tokens = 0\<rparr>"

text \<open>DeepSeek pricing: \$2 per million input tokens, \$8 per million output tokens.\<close>

definition call_cost :: "int \<Rightarrow> int \<Rightarrow> real" where
  "call_cost p c = real_of_int p * 2 / 1000000 + real_of_int c * 8 / 1000000"

text \<open>The compute estimate of one call: the loop index decides the offset.\<close>

definition flops_term :: "nat \<Rightarrow> int \<Rightarrow> int" where
  "flops_term iteration t = (if iteration = 0 then t ^ 2 else (t - 370) ^ 2)"

definition solve_init :: solve_state where
  "solve_init =
     \<lparr>last_response = [], total_usage = zero_usage, total_latency = 0, total_cost = 0,
      flops = 0, iterations_count = 0, iteration_details = [], iteration_completion_tokens = []\<rparr>"

text \<open>One pass of the \<open>for iteration in range(max_iterations)\<close> body (lines 164--214).\<close>

definition solve_iteration ::
  "llm \<Rightarrow> sys_prompt \<Rightarrow> string \<Rightarrow> nat \<Rightarrow> solve_state \<Rightarrow> step py_result" where
  "solve_iteration api sp question iteration st0 =
     (let st = st0\<lparr>iterations_count := Suc (iterations_count st0)\<rparr>;
          user_prompt = get_user_prompt question (last_response st)
      in case get_response api iteration sp user_prompt of
           Api_request_error \<Rightarrow> Inr (Continue st)
         | Api_raised e \<Rightarrow> Inl e
         | Api_ok response u lat \<Rightarrow>
             (let info = \<lparr>info_iteration = Suc iteration, info_prompt_tokens = prompt_tokens u,
                          info_completion_tokens = completion_tokens u,
                          info_total_tokens = total_tokens u, info_latency = lat,
                          info_response_type = classify_response response\<rparr>;
                  st' = st\<lparr>iteration_details := iteration_details st @ [info],
                      iteration_completion_tokens := iteration_completion_tokens st @ [completion_tokens u],
                      total_usage := add_usage (total_usage st) u,
                      total_latency := total_latency st + lat,
                      total_cost := total_cost st + call_cost (prompt_tokens u) (completion_tokens u),
                      flops := flops st + flops_term iteration (total_tokens u)\<rparr>
              in if py_in answer_open response
                 then py_bind (answer_of_response response) (\<lambda>a. Inr (Finished a st'))
                 else Inr (Continue (st'\<lparr>last_response := response\<rparr>))))"

fun solve_loop ::
  "llm \<Rightarrow> sys_prompt \<Rightarrow> string \<Rightarrow> nat \<Rightarrow> nat \<Rightarrow> solve_state \<Rightarrow> (string option \<times> solve_state) py_result" where
  "solve_loop api sp question iteration 0 st = Inr (None, st)"
| "solve_loop api sp question iteration (Suc n) st =
     (case solve_iteration api sp question iteration st of
        Inl e \<Rightarrow> Inl e
      | Inr (Finished a st') \<Rightarrow> Inr (Some a, st')
      | Inr (Continue st') \<Rightarrow> solve_loop api sp question (Suc iteration) n st')"

text \<open>The statistics and the returned tuple (lines 202--208 and 217--223).\<close>

definition make_result :: "string option \<Rightarrow> solve_state \<Rightarrow> solve_result" where
  "make_result a st =
     (let cs = iteration_completion_tokens st
      in \<lparr>final_answer = a, res_usage = total_usage st, res_latency = total_latency st,
          res_cost = total_cost st, res_flops = flops st, res_iterations = iterations_count st,
          avg_completion_tokens_per_iteration = (if cs = [] then 0 else py_mean cs),
          max_completion_tokens_per_iteration = (case py_max cs of Inl _ \<Rightarrow> 0 | Inr m \<Rightarrow> m),
          min_completion_tokens_per_iteration = (case py_min cs of Inl _ \<Rightarrow> 0 | Inr m \<Rightarrow> m),
          res_details = iteration_details st\<rparr>)"

definition solve_problem_with_agents ::
  "llm \<Rightarrow> string \<Rightarrow> int \<Rightarrow> nat \<Rightarrow> nat \<Rightarrow> nat \<Rightarrow> solve_result py_result" where
  "solve_problem_with_agents api question max_iterations thought_token_limit
     summary_token_limit answer_token_limit =
     (let sp = generate_prompt thought_token_limit summary_token_limit answer_token_limit
      in case solve_loop api sp question 0 (nat max_iterations) solve_init of
           Inl e \<Rightarrow> Inl e
         | Inr (a, st) \<Rightarrow> Inr (make_result a st))"

text \<open>The call of \<open>process_difficulty_level\<close>: the defaults 22, 200, 50, 50.\<close>

definition solve_default :: "llm \<Rightarrow> string \<Rightarrow> solve_result py_result" where
  "solve_default api question = solve_problem_with_agents api question 22 200 50 50"

section \<open>Invariant of the driver state\<close>

text \<open>
  The accumulators of the state are the sums of the iteration records, the recorded
  completion tokens are those of the records, and the records carry strictly increasing
  1-based iteration numbers bounded by the number of attempts so far.
\<close>

definition usage_sum :: "iteration_info list \<Rightarrow> usage" where
  "usage_sum ds =
     \<lparr>prompt_tokens = sum_list (map info_prompt_tokens ds),
      completion_tokens = sum_list (map info_completion_tokens ds),
      total_tokens = sum_list (map info_total_tokens ds)\<rparr>"

definition flops_sum :: "iteration_info list \<Rightarrow> int" where
  "flops_sum ds = sum_list (map (\<lambda>d. flops_term (info_iteration d - 1) (info_total_tokens d)) ds)"

definition cost_sum :: "iteration_info list \<Rightarrow> real" where
  "cost_sum ds = sum_list (map (\<lambda>d. call_cost (info_prompt_tokens d) (info_completion_tokens d)) ds)"

definition solve_inv :: "solve_state \<Rightarrow> bool" where
  "solve_inv st \<longleftrightarrow>
     (let ds = iteration_details st in
      total_usage st = usage_sum ds \<and> flops st = flops_sum ds \<and> total_cost st = cost_sum ds \<and>
      total_latency st = sum_list (map info_latency ds) \<and>
      iteration_completion_tokens st = map info_completion_tokens ds \<and>
      sorted_wrt (<) (map info_iteration ds) \<and>
      (\<forall>d \<in> set ds. 0 < info_iteration d \<and> info_iteration d \<le> iterations_count st))"

fun step_state :: "step \<Rightarrow> solve_state" where
  "step_state (Continue st) = st"
| "step_state (Finished a st) = st"

section \<open>Lemmas\<close>

lemma solve_inv_init: "solve_inv solve_init"
  by (simp add: solve_inv_def solve_init_def usage_sum_def zero_usage_def flops_sum_def cost_sum_def)

lemma usage_sum_snoc:
  "usage_sum (ds @ [d]) = add_usage (usage_sum ds)
     \<lparr>prompt_tokens = info_prompt_tokens d, completion_tokens = info_completion_tokens d,
      total_tokens = info_total_tokens d\<rparr>"
  by (simp add: usage_sum_def add_usage_def)

lemma add_usage_fields [simp]:
  "add_usage a \<lparr>prompt_tokens = prompt_tokens u, completion_tokens = completion_tokens u,
     total_tokens = total_tokens u\<rparr> = add_usage a u"
  by (simp add: add_usage_def)

lemma answer_of_response_Inr:
  "sublist answer_open r \<Longrightarrow> \<exists>a. answer_of_response r = Inr a"
  using answer_of_response_eq by blast

lemma solve_inv_tick:
  assumes "solve_inv st"
  shows "solve_inv (st\<lparr>iterations_count := Suc (iterations_count st)\<rparr>)"
proof -
  have "\<forall>d \<in> set (iteration_details st). info_iteration d \<le> Suc (iterations_count st)"
    using assms by (simp add: solve_inv_def Let_def le_SucI)
  with assms show ?thesis by (simp add: solve_inv_def Let_def)
qed

lemma solve_iteration_inv:
  assumes it: "solve_iteration api sp q i st = Inr r"
    and inv: "solve_inv st" and cnt: "iterations_count st = i"
  shows "solve_inv (step_state r) \<and> iterations_count (step_state r) = Suc i"
proof (cases "get_response api i sp (get_user_prompt q (last_response st))")
  case (Api_ok resp u lat)
  have lt: "\<forall>d \<in> set (iteration_details st). info_iteration d < Suc i"
    using inv cnt by (auto simp: solve_inv_def Let_def)
  then have le: "\<forall>d \<in> set (iteration_details st). info_iteration d \<le> Suc i" by auto
  with lt it inv cnt Api_ok show ?thesis
    by (auto simp: solve_iteration_def solve_inv_def Let_def usage_sum_snoc flops_sum_def cost_sum_def
        sorted_wrt_append py_bind_def split: if_splits sum.splits)
next
  case Api_request_error
  with it solve_inv_tick [OF inv] cnt show ?thesis by (auto simp: solve_iteration_def Let_def)
next
  case (Api_raised e)
  with it show ?thesis by (simp add: solve_iteration_def Let_def)
qed

lemma solve_loop_inv:
  "solve_loop api sp q i n st = Inr (a, st') \<Longrightarrow> solve_inv st \<Longrightarrow> iterations_count st = i \<Longrightarrow>
   solve_inv st' \<and> iterations_count st' \<le> i + n \<and>
   (a = None \<longrightarrow> iterations_count st' = i + n) \<and> (a \<noteq> None \<longrightarrow> i < iterations_count st')"
proof (induction n arbitrary: i st)
  case 0
  then show ?case by simp
next
  case (Suc n)
  then obtain r where r: "solve_iteration api sp q i st = Inr r"
    by (cases "solve_iteration api sp q i st") auto
  from solve_iteration_inv [OF r Suc.prems(2,3)]
  have inv': "solve_inv (step_state r)" and cnt': "iterations_count (step_state r) = Suc i" by auto
  show ?case
  proof (cases r)
    case (Continue st1)
    with Suc.prems(1) r have "solve_loop api sp q (Suc i) n st1 = Inr (a, st')" by simp
    from Suc.IH [OF this] inv' cnt' Continue show ?thesis by auto
  next
    case (Finished x st1)
    with Suc.prems(1) r inv' cnt' show ?thesis by auto
  qed
qed

lemma solve_iteration_Inl:
  "solve_iteration api sp q i st = Inl e \<Longrightarrow> \<exists>up. api i sp up = Api_raised e"
proof (cases "get_response api i sp (get_user_prompt q (last_response st))")
  case (Api_ok resp u lat)
  assume it: "solve_iteration api sp q i st = Inl e"
  show ?thesis
  proof (cases "py_in answer_open resp")
    case True
    then obtain a where "answer_of_response resp = Inr a"
      using answer_of_response_Inr by (auto simp: py_in_iff_sublist)
    with it Api_ok True show ?thesis by (simp add: solve_iteration_def Let_def)
  next
    case False
    with it Api_ok show ?thesis by (simp add: solve_iteration_def Let_def)
  qed
next
  case Api_request_error
  then show "solve_iteration api sp q i st = Inl e \<Longrightarrow> ?thesis"
    by (simp add: solve_iteration_def Let_def)
next
  case (Api_raised e')
  then show "solve_iteration api sp q i st = Inl e \<Longrightarrow> ?thesis"
    by (auto simp: solve_iteration_def Let_def get_response_def split: api_outcome.splits)
qed

lemma solve_loop_Inl:
  "solve_loop api sp q i n st = Inl e \<Longrightarrow> \<exists>j up. api j sp up = Api_raised e"
proof (induction n arbitrary: i st)
  case 0
  then show ?case by simp
next
  case (Suc n)
  show ?case
  proof (cases "solve_iteration api sp q i st")
    case (Inl e')
    with Suc.prems have "solve_iteration api sp q i st = Inl e" by simp
    then show ?thesis by (blast dest: solve_iteration_Inl)
  next
    case (Inr r)
    with Suc show ?thesis by (cases r) auto
  qed
qed

lemma solve_problem_with_agents_Inr:
  assumes "solve_problem_with_agents api q m t s a = Inr r"
  obtains ans st where "solve_loop api (Agent_prompt 623 142 623 50) q 0 (nat m) solve_init = Inr (ans, st)"
    and "r = make_result ans st"
  using assms by (auto simp: solve_problem_with_agents_def generate_prompt_def split: sum.splits)

text \<open>C2: The returned iteration count never exceeds max_iterations, and equals it when no answer was found.\<close>

theorem solve_iterations_bounded:
  assumes "solve_problem_with_agents api q m t s a = Inr r"
  shows "res_iterations r \<le> nat m \<and> (final_answer r = None \<longrightarrow> res_iterations r = nat m)"
proof -
  obtain ans st where run: "solve_loop api (Agent_prompt 623 142 623 50) q 0 (nat m) solve_init = Inr (ans, st)"
    and r: "r = make_result ans st"
    using assms by (rule solve_problem_with_agents_Inr)
  from solve_loop_inv [OF run solve_inv_init] have
    "iterations_count st \<le> nat m \<and> (ans = None \<longrightarrow> iterations_count st = nat m)"
    by (simp add: solve_init_def)
  with r show ?thesis by (simp add: make_result_def Let_def)
qed

text \<open>C1: solve_problem_with_agents returns a result for every question and every iteration limit whenever the model call raises nothing but request errors: the loop over range(max_iterations) always ends.\<close>

theorem solve_returns:
  assumes "\<forall>i p up e. api i p up \<noteq> Api_raised e"
  shows "\<exists>r. solve_problem_with_agents api q m t s a = Inr r"
proof (cases "solve_loop api (generate_prompt t s a) q 0 (nat m) solve_init")
  case (Inl e)
  with solve_loop_Inl [OF this] assms show ?thesis by blast
next
  case (Inr x)
  then show ?thesis by (auto simp: solve_problem_with_agents_def split: prod.splits)
qed

lemma solve_problem_inv:
  assumes "solve_problem_with_agents api q m t s a = Inr r"
  obtains ans st where "solve_inv st" "r = make_result ans st"
proof -
  obtain ans st where run: "solve_loop api (Agent_prompt 623 142 623 50) q 0 (nat m) solve_init = Inr (ans, st)"
    and r: "r = make_result ans st"
    using assms by (rule solve_problem_with_agents_Inr)
  from solve_loop_inv [OF run solve_inv_init] have "solve_inv st" by (simp add: solve_init_def)
  then show ?thesis using r by (rule that)
qed

text \<open>C3: The total usage (prompt, completion and total tokens) returned by solve_problem_with_agents is the sum of the usages recorded in its iteration details.\<close>

theorem solve_token_additivity:
  assumes "solve_problem_with_agents api q m t s a = Inr r"
  shows "res_usage r = usage_sum (res_details r)"
proof -
  obtain ans st where "solve_inv st" "r = make_result ans st"
    using assms by (rule solve_problem_inv)
  then show ?thesis by (simp add: solve_inv_def make_result_def Let_def)
qed

text \<open>C10: The returned flops are the sum over the recorded calls of total_tokens^2 for the call at loop index 0 and (total_tokens - 370)^2 for later ones.\<close>

theorem solve_flops_sum:
  assumes "solve_problem_with_agents api q m t s a = Inr r"
  shows "res_flops r = sum_list (map (\<lambda>d. flops_term (info_iteration d - 1) (info_total_tokens d)) (res_details r))"
proof -
  obtain ans st where "solve_inv st" "r = make_result ans st"
    using assms by (rule solve_problem_inv)
  then show ?thesis by (simp add: solve_inv_def make_result_def Let_def flops_sum_def)
qed

lemma strict_bounded_length:
  "sorted_wrt (<) xs \<Longrightarrow> \<forall>x \<in> set xs. 0 < x \<and> x \<le> (n::nat) \<Longrightarrow> length xs \<le> n"
proof -
  assume s: "sorted_wrt (<) xs" and b: "\<forall>x \<in> set xs. 0 < x \<and> x \<le> n"
  from s have "distinct xs" by (simp add: strict_sorted_iff)
  then have "length xs = card (set xs)" by (simp add: distinct_card)
  also from b have "card (set xs) \<le> card {1..n}" by (intro card_mono) auto
  finally show ?thesis by simp
qed

text \<open>C9: The iteration records returned have strictly increasing 1-based iteration numbers bounded by the returned iteration count, and there are no more records than iterations.\<close>

theorem solve_details_bounded:
  assumes "solve_problem_with_agents api q m t s a = Inr r"
  shows "sorted_wrt (<) (map info_iteration (res_details r)) \<and>
    (\<forall>d \<in> set (res_details r). 0 < info_iteration d \<and> info_iteration d \<le> res_iterations r) \<and>
    length (res_details r) \<le> res_iterations r"
proof -
  obtain ans st where inv: "solve_inv st" and r: "r = make_result ans st"
    using assms by (rule solve_problem_inv)
  then have s: "sorted_wrt (<) (map info_iteration (res_details r))"
    and b: "\<forall>d \<in> set (res_details r). 0 < info_iteration d \<and> info_iteration d \<le> res_iterations r"
    by (simp_all add: solve_inv_def make_result_def Let_def)
  from b have "\<forall>x \<in> set (map info_iteration (res_details r)). 0 < x \<and> x \<le> res_iterations r" by auto
  from strict_bounded_length [OF s this] s b show ?thesis by simp
qed

text \<open>C15: The average, maximum and minimum completion tokens per iteration are the mean, Max and Min of the recorded completion tokens, and 0 when no call succeeded.\<close>

theorem solve_completion_stats:
  assumes "solve_problem_with_agents api q m t s a = Inr r"
  shows "(let cs = map info_completion_tokens (res_details r) in
     if cs = [] then avg_completion_tokens_per_iteration r = 0 \<and> max_completion_tokens_per_iteration r = 0 \<and>
                    min_completion_tokens_per_iteration r = 0
     else avg_completion_tokens_per_iteration r = real_of_int (sum_list cs) / real (length cs) \<and>
          max_completion_tokens_per_iteration r = Max (set cs) \<and>
          min_completion_tokens_per_iteration r = Min (set cs))"
proof -
  obtain ans st where inv: "solve_inv st" and r: "r = make_result ans st"
    using assms by (rule solve_problem_inv)
  then have cs: "iteration_completion_tokens st = map info_completion_tokens (iteration_details st)"
    by (simp add: solve_inv_def Let_def)
  show ?thesis
    using r cs by (cases "iteration_details st")
      (simp_all add: make_result_def Let_def py_mean_def fold_max_eq_Max fold_min_eq_Min)
qed

lemma solve_loop_numeral:
  "solve_loop api sp q i (numeral k) st =
     (case solve_iteration api sp q i st of
        Inl e \<Rightarrow> Inl e
      | Inr (Finished a st') \<Rightarrow> Inr (Some a, st')
      | Inr (Continue st') \<Rightarrow> solve_loop api sp q (Suc i) (pred_numeral k) st')"
  by (simp add: numeral_eq_Suc)

lemma solve_loop_one:
  "solve_loop api sp q i 1 st =
     (case solve_iteration api sp q i st of
        Inl e \<Rightarrow> Inl e
      | Inr (Finished a st') \<Rightarrow> Inr (Some a, st')
      | Inr (Continue st') \<Rightarrow> Inr (None, st'))"
  by (simp add: One_nat_def split: sum.splits step.splits)

lemmas solve_eval_simps = solve_default_def solve_problem_with_agents_def solve_loop_numeral
  solve_iteration_def Let_def get_response_def tag_defs py_strip_def is_py_space_def make_result_def
  solve_init_def zero_usage_def add_usage_def get_user_prompt_def generate_prompt_def solve_loop_one

text \<open>With the default limits, a model answering <think>, <summary>, then <answer>42</answer> yields the answer 42 after 3 iterations and 230 total tokens.\<close>

theorem solve_spec_example:
  "\<exists>r. solve_default
      (\<lambda>i _ _. if i = 0 then Api_ok ''<think>x</think>'' \<lparr>prompt_tokens = 60, completion_tokens = 40, total_tokens = 100\<rparr> 1
               else if i = 1 then Api_ok ''<summary>y</summary>'' \<lparr>prompt_tokens = 30, completion_tokens = 20, total_tokens = 50\<rparr> 1
               else Api_ok ''<answer>42</answer>'' \<lparr>prompt_tokens = 50, completion_tokens = 30, total_tokens = 80\<rparr> 1)
      ''Q'' = Inr r \<and>
    final_answer r = Some ''42'' \<and> res_iterations r = 3 \<and> total_tokens (res_usage r) = 230"
proof -
  have ans: "answer_of_response ''<answer>42</answer>'' = Inr ''42''" by code_simp
  show ?thesis
    by (simp add: solve_default_def solve_problem_with_agents_def solve_loop_numeral solve_iteration_def
        Let_def get_response_def ans tag_defs py_strip_def is_py_space_def make_result_def
        solve_init_def zero_usage_def add_usage_def get_user_prompt_def
        cong: sum.case_cong_weak step.case_cong_weak api_outcome.case_cong_weak)
qed

section \<open>Witnesses\<close>

theorem solve_iterations_bounded_witness:
  "\<exists>r. solve_problem_with_agents (\<lambda>_ _ _. Api_request_error) ''Q'' 2 0 0 0 = Inr r \<and>
     res_iterations r \<le> nat 2 \<and> (final_answer r = None \<longrightarrow> res_iterations r = nat 2)"
proof -
  have "\<exists>r. solve_problem_with_agents (\<lambda>_ _ _. Api_request_error) ''Q'' 2 0 0 0 = Inr r"
    by (simp add: solve_eval_simps cong: sum.case_cong_weak step.case_cong_weak api_outcome.case_cong_weak)
  then obtain r where run: "solve_problem_with_agents (\<lambda>_ _ _. Api_request_error) ''Q'' 2 0 0 0 = Inr r" ..
  show ?thesis by (rule exI [of _ r], rule conjI [OF run solve_iterations_bounded [OF run]])
qed

theorem solve_returns_witness:
  "\<exists>r. solve_problem_with_agents (\<lambda>_ _ _. Api_request_error) ''Q'' 5 0 0 0 = Inr r"
proof -
  have "\<forall>i p up e. (\<lambda>_ _ _. Api_request_error) i p up \<noteq> Api_raised e" by simp
  then show ?thesis by (rule solve_returns)
qed

theorem solve_token_additivity_witness:
  "\<exists>r. solve_problem_with_agents
      (\<lambda>_ _ _. Api_ok ''<answer>7</answer>'' \<lparr>prompt_tokens = 1, completion_tokens = 2, total_tokens = 3\<rparr> 1)
      ''Q'' 1 0 0 0 = Inr r \<and> res_usage r = usage_sum (res_details r)"
proof -
  let ?api = "\<lambda>_ _ _. Api_ok ''<answer>7</answer>'' \<lparr>prompt_tokens = 1, completion_tokens = 2, total_tokens = 3\<rparr> 1"
  have ans: "answer_of_response ''<answer>7</answer>'' = Inr ''7''" by code_simp
  have "\<exists>r. solve_problem_with_agents ?api ''Q'' 1 0 0 0 = Inr r"
    by (simp add: solve_eval_simps ans cong: sum.case_cong_weak step.case_cong_weak api_outcome.case_cong_weak)
  then obtain r where run: "solve_problem_with_agents ?api ''Q'' 1 0 0 0 = Inr r" ..
  show ?thesis by (rule exI [of _ r], rule conjI [OF run solve_token_additivity [OF run]])
qed

theorem solve_flops_sum_witness:
  "\<exists>r. solve_problem_with_agents (\<lambda>_ _ _. Api_request_error) ''Q'' 1 0 0 0 = Inr r \<and>
     res_flops r = sum_list (map (\<lambda>d. flops_term (info_iteration d - 1) (info_total_tokens d)) (res_details r))"
proof -
  have "\<exists>r. solve_problem_with_agents (\<lambda>_ _ _. Api_request_error) ''Q'' 1 0 0 0 = Inr r"
    by (simp add: solve_eval_simps cong: sum.case_cong_weak step.case_cong_weak api_outcome.case_cong_weak)
  then obtain r where run: "solve_problem_with_agents (\<lambda>_ _ _. Api_request_error) ''Q'' 1 0 0 0 = Inr r" ..
  show ?thesis by (rule exI [of _ r], rule conjI [OF run solve_flops_sum [OF run]])
qed

theorem solve_details_bounded_witness:
  "\<exists>r. solve_problem_with_agents (\<lambda>_ _ _. Api_request_error) ''Q'' 3 0 0 0 = Inr r \<and>
     sorted_wrt (<) (map info_iteration (res_details r)) \<and>
     (\<forall>d \<in> set (res_details r). 0 < info_iteration d \<and> info_iteration d \<le> res_iterations r) \<and>
     length (res_details r) \<le> res_iterations r"
proof -
  have "\<exists>r. solve_problem_with_agents (\<lambda>_ _ _. Api_request_error) ''Q'' 3 0 0 0 = Inr r"
    by (simp add: solve_eval_simps cong: sum.case_cong_weak step.case_cong_weak api_outcome.case_cong_weak)
  then obtain r where run: "solve_problem_with_agents (\<lambda>_ _ _. Api_request_error) ''Q'' 3 0 0 0 = Inr r" ..
  show ?thesis by (rule exI [of _ r], rule conjI [OF run solve_details_bounded [OF run]])
qed

theorem solve_completion_stats_witness:
  "\<exists>r. solve_problem_with_agents (\<lambda>_ _ _. Api_request_error) ''Q'' 2 0 0 0 = Inr r \<and>
     (let cs = map info_completion_tokens (res_details r) in
      if cs = [] then avg_completion_tokens_per_iteration r = 0 \<and> max_completion_tokens_per_iteration r = 0 \<and>
                     min_completion_tokens_per_iteration r = 0
      else avg_completion_tokens_per_iteration r = real_of_int (sum_list cs) / real (length cs) \<and>
           max_completion_tokens_per_iteration r = Max (set cs) \<and>
           min_completion_tokens_per_iteration r = Min (set cs))"
proof -
  have "\<exists>r. solve_problem_with_agents (\<lambda>_ _ _. Api_request_error) ''Q'' 2 0 0 0 = Inr r"
    by (simp add: solve_eval_simps cong: sum.case_cong_weak step.case_cong_weak api_outcome.case_cong_weak)
  then obtain r where run: "solve_problem_with_agents (\<lambda>_ _ _. Api_request_error) ''Q'' 2 0 0 0 = Inr r" ..
  show ?thesis by (rule exI [of _ r], rule conjI [OF run solve_completion_stats [OF run]])
qed

end
