(* ===== verification/Comparator.thy ===== *)
theory Comparator
  imports Driver
begin

text \<open>
  The three ways the scripts decide whether a model answer is correct:
  \<^item> \<open>compare_answers\<close> of \<open>src/math/process3.py\<close> (lines 236--246): equality after
    deleting spaces and newlines, \<open>False\<close> when either side is \<open>None\<close>;
  \<^item> \<open>compare_answers\<close> of \<open>src/math/process.py\<close> (lines 152--162): the same
    normalisation, then \<open>final_answer in correct_answer\<close>;
  \<^item> \<open>evaluate_answers_ai\<close> of \<open>src/math/process3.py\<close> (lines 248--255) and
    \<open>src/math/test3.py\<close> (lines 123--129): a second model call with the judge prompt,
    \<open>True\<close> on \<open>[[YES]]\<close>, \<open>False\<close> on \<open>[[NO]]\<close>, and Python's implicit
    \<open>None\<close> otherwise.
  Python's \<open>None\<close> is \<open>None\<close> of an option; \<open>str(None)\<close> is the text
  \<open>None\<close>.
\<close>

section \<open>String comparison\<close>

definition normalize_answer :: "string \<Rightarrow> string" where
  "normalize_answer s = py_remove_char CHR 0x0A (py_remove_char CHR '' '' s)"

definition compare_answers :: "string option \<Rightarrow> string option \<Rightarrow> bool" where
  "compare_answers model_answer correct_answer =
     (case (model_answer, correct_answer) of
        (Some f, Some c) \<Rightarrow> normalize_answer f = normalize_answer c
      | _ \<Rightarrow> False)"

definition compare_answers_contains :: "string option \<Rightarrow> string option \<Rightarrow> bool" where
  "compare_answers_contains model_answer correct_answer =
     (case (model_answer, correct_answer) of
        (Some f, Some c) \<Rightarrow> py_in (normalize_answer f) (normalize_answer c)
      | _ \<Rightarrow> False)"

section \<open>The equivalence judge\<close>

definition yes_sentinel :: string where "yes_sentinel = ''[[YES]]''"
definition no_sentinel :: string where "no_sentinel = ''[[NO]]''"

definition py_str_option :: "string option \<Rightarrow> string" where
  "py_str_option x = (case x of None \<Rightarrow> ''None'' | Some s \<Rightarrow> s)"

definition judge_prompt :: "string \<Rightarrow> string option \<Rightarrow> string \<Rightarrow> string" where
  "judge_prompt problem answer1 answer2 =
     ''Problem: '' @ problem @ CHR 0x0A # ''Answer 1: '' @ py_str_option answer1 @
     CHR 0x0A # ''Answer 2: '' @ answer2"

text \<open>
  The judge's verdict on a response: \<open>Some True\<close>, \<open>Some False\<close>, or \<open>None\<close>
  (the function falls off its end).
\<close>

definition judge_verdict :: "string \<Rightarrow> bool option" where
  "judge_verdict response =
     (if py_in yes_sentinel response then Some True
      else if py_in no_sentinel response then Some False
      else None)"

text \<open>
  \<open>evaluate_answers_ai\<close>: one call of \<open>_get_response\<close> with the judge prompt; a
  request failure is not caught here and propagates as an exception.
\<close>

definition evaluate_answers_ai ::
  "(sys_prompt \<Rightarrow> string \<Rightarrow> api_outcome) \<Rightarrow> string \<Rightarrow> string option \<Rightarrow> string \<Rightarrow> bool option py_result" where
  "evaluate_answers_ai api problem answer1 answer2 =
     (case api Eval_prompt (judge_prompt problem answer1 answer2) of
        Api_ok content u lat \<Rightarrow> Inr (judge_verdict (py_strip content))
      | Api_request_error \<Rightarrow> Inl RequestError
      | Api_raised e \<Rightarrow> Inl e)"

section \<open>Lemmas\<close>

lemma normalize_answer_idem [simp]: "normalize_answer (normalize_answer s) = normalize_answer s"
  by (induction s) (auto simp: normalize_answer_def py_remove_char_def)

lemma normalize_answer_no_blanks:
  "CHR '' '' \<notin> set (normalize_answer s) \<and> CHR 0x0A \<notin> set (normalize_answer s)"
  by (simp add: normalize_answer_def py_remove_char_def)

lemma normalize_answer_append:
  "normalize_answer (a @ b) = normalize_answer a @ normalize_answer b"
  by (simp add: normalize_answer_def py_remove_char_def)

text \<open>C17: Inserting a space or a newline anywhere in either answer does not change the verdict of compare_answers.\<close>

theorem compare_answers_blank_insensitive:
  "compare_answers (Some (a @ CHR '' '' # b)) c = compare_answers (Some (a @ b)) c \<and>
   compare_answers (Some (a @ CHR 0x0A # b)) c = compare_answers (Some (a @ b)) c \<and>
   compare_answers c (Some (a @ CHR '' '' # b)) = compare_answers c (Some (a @ b)) \<and>
   compare_answers c (Some (a @ CHR 0x0A # b)) = compare_answers c (Some (a @ b))"
  by (simp add: compare_answers_def normalize_answer_append split: option.splits)
    (simp add: normalize_answer_def py_remove_char_def)

text \<open>C16: compare_answers of process3.py is reflexive on present answers, false when either answer is None, symmetric and transitive.\<close>

theorem compare_answers_equivalence:
  "compare_answers (Some a) (Some a) \<and> compare_answers None x = False \<and> compare_answers x None = False \<and>
   (compare_answers x y \<longrightarrow> compare_answers y x) \<and>
   (compare_answers x y \<longrightarrow> compare_answers y z \<longrightarrow> compare_answers x z)"
  by (auto simp: compare_answers_def split: option.splits)

theorem compare_answers_equivalence_witness:
  "compare_answers (Some ''1 2'') (Some ''1 2'') \<and> \<not> compare_answers None (Some ''1 2'') \<and>
   \<not> compare_answers (Some ''1 2'') None \<and>
   compare_answers (Some ''12'') (Some ''1 2'') \<and> compare_answers (Some ''1 2'') (Some ''12 '')"
proof -
  have e1: "compare_answers (Some ''1 2'') (Some ''12'')"
    and e2: "compare_answers (Some ''12'') (Some ''12 '')"
    by (simp_all add: compare_answers_def normalize_answer_def py_remove_char_def)
  from compare_answers_equivalence [of "''1 2''" "Some ''1 2''" "Some ''12''" "Some ''12 ''"] e1 e2
  show ?thesis by blast
qed

text \<open>compare_answers of process.py accepts exactly when the normalized model answer is a substring of the normalized correct answer.\<close>

theorem compare_answers_contains_direction:
  "compare_answers_contains (Some a) (Some c) \<longleftrightarrow> sublist (normalize_answer a) (normalize_answer c)"
  by (simp add: compare_answers_contains_def py_in_iff_sublist)

text \<open>C18: The containment comparator of process.py accepts a blank model answer for every correct answer and '1' for '12', but rejects '12' for '1'.\<close>

theorem compare_answers_contains_blank_accepted:
  "compare_answers_contains (Some '' '') (Some c) \<and>
   compare_answers_contains (Some ''1'') (Some ''12'') \<and> \<not> compare_answers_contains (Some ''12'') (Some ''1'')"
  by (simp add: compare_answers_contains_def normalize_answer_def py_remove_char_def)

end
