(* ===== verification/Aggregate.thy ===== *)
theory Aggregate
  imports Comparator
begin

text \<open>
  Aggregation of per-problem results into per-difficulty metrics and a run summary:
  \<open>process_difficulty_level\<close> (\<open>src/math/process3.py\<close> lines 258--399) and the
  summary part of \<open>main\<close> (lines 402--484).  Loading the dataset file is not
  modelled: the problems arrive as a list, \<open>None\<close> when the file is missing (the early
  \<open>return None\<close>).  The model calls of problem \<open>i\<close> (1-based, as \<open>enumerate(problems, 1)\<close>)
  are \<open>apis i\<close> for the solver and \<open>judges i\<close> for the equivalence judge.
  Console output and the JSON file written by \<open>main\<close> are not modelled.
\<close>

section \<open>Data\<close>

record problem =
  problem_text :: string
  problem_answer :: string

text \<open>One entry of \<open>problem_details\<close>: the full record, or the error record of the
  \<open>except Exception\<close> branch.\<close>

datatype problem_detail =
    Detail string "string option" string "bool option" solve_result
  | Detail_error string py_error

record tier_metrics =
  difficulty :: nat
  m_total_problems :: nat
  m_total_tokens :: int
  m_prompt_tokens :: int
  m_completion_tokens :: int
  m_total_cost :: real
  m_total_latency :: real
  m_correct_count :: nat
  m_processed_problems :: nat
  m_problem_details :: "problem_detail list"
  m_total_flops :: int
  m_total_iterations :: nat
  m_total_avg_completion :: real
  m_total_max_completion :: int
  m_overall_max_completion :: int

record tier_averages =
  accuracy :: real
  avg_latency :: real
  avg_total_tokens :: real
  avg_prompt_tokens :: real
  avg_completion_tokens :: real
  avg_iterations :: real
  avg_flops :: real
  avg_cost_per_problem :: real
  avg_avg_completion :: real
  avg_max_completion :: real

type_synonym judge_api = "sys_prompt \<Rightarrow> string \<Rightarrow> api_outcome"

section \<open>One difficulty level\<close>

definition tier_init :: "nat \<Rightarrow> nat \<Rightarrow> tier_metrics" where
  "tier_init d n =
     \<lparr>difficulty = d, m_total_problems = n, m_total_tokens = 0, m_prompt_tokens = 0,
      m_completion_tokens = 0, m_total_cost = 0, m_total_latency = 0, m_correct_count = 0,
      m_processed_problems = 0, m_problem_details = [], m_total_flops = 0, m_total_iterations = 0,
      m_total_avg_completion = 0, m_total_max_completion = 0, m_overall_max_completion = 0\<rparr>"

text \<open>The counters updated right after the solver returns (lines 304--319).\<close>

definition add_solve_result :: "tier_metrics \<Rightarrow> solve_result \<Rightarrow> tier_metrics" where
  "add_solve_result m r =
     m\<lparr>m_total_tokens := m_total_tokens m + total_tokens (res_usage r),
       m_prompt_tokens := m_prompt_tokens m + prompt_tokens (res_usage r),
       m_completion_tokens := m_completion_tokens m + completion_tokens (res_usage r),
       m_total_latency := m_total_latency m + res_latency r,
       m_total_cost := m_total_cost m + res_cost r,
       m_processed_problems := Suc (m_processed_problems m),
       m_total_flops := m_total_flops m + res_flops r,
       m_total_iterations := m_total_iterations m + res_iterations r,
       m_total_avg_completion := m_total_avg_completion m + avg_completion_tokens_per_iteration r,
       m_total_max_completion := m_total_max_completion m + max_completion_tokens_per_iteration r,
       m_overall_max_completion :=
         max (m_overall_max_completion m) (max_completion_tokens_per_iteration r)\<rparr>"

definition add_detail :: "tier_metrics \<Rightarrow> problem_detail \<Rightarrow> tier_metrics" where
  "add_detail m d = m\<lparr>m_problem_details := m_problem_details m @ [d]\<rparr>"

text \<open>The body of \<open>for i, problem in enumerate(problems, 1)\<close> (lines 295--360).\<close>

definition process_problem :: "llm \<Rightarrow> judge_api \<Rightarrow> tier_metrics \<Rightarrow> problem \<Rightarrow> tier_metrics" where
  "process_problem api judge m p =
     (let user_prompt = problem_text p; correct_answer = problem_answer p
      in case solve_default api user_prompt of
           Inl e \<Rightarrow> add_detail m (Detail_error user_prompt e)
         | Inr r \<Rightarrow>
             (let m1 = add_solve_result m r
              in case evaluate_answers_ai judge user_prompt (final_answer r) correct_answer of
                   Inl e \<Rightarrow> add_detail m1 (Detail_error user_prompt e)
                 | Inr is_correct \<Rightarrow>
                     add_detail (m1\<lparr>m_correct_count := m_correct_count m1 +
                                      (if is_correct = Some True then 1 else 0)\<rparr>)
                       (Detail user_prompt (final_answer r) correct_answer is_correct r)))"

fun process_problems ::
  "(nat \<Rightarrow> llm) \<Rightarrow> (nat \<Rightarrow> judge_api) \<Rightarrow> nat \<Rightarrow> tier_metrics \<Rightarrow> problem list \<Rightarrow> tier_metrics" where
  "process_problems apis judges i m [] = m"
| "process_problems apis judges i m (p # ps) =
     process_problems apis judges (Suc i) (process_problem (apis i) (judges i) m p) ps"

text \<open>\<open>x / n if n > 0 else 0\<close>, the guarded quotient of the run summary.\<close>

definition per_problem :: "nat \<Rightarrow> real \<Rightarrow> real py_result" where
  "per_problem n x = (if 0 < n then py_truediv x (real n) else Inr 0)"

text \<open>Accuracy and averages of one level (lines 363--386), all guarded by one
  \<open>if metrics["processed_problems"] > 0\<close>.\<close>

definition tier_finalize :: "tier_metrics \<Rightarrow> tier_averages py_result" where
  "tier_finalize m =
     (let n = real (m_processed_problems m)
      in if 0 < m_processed_problems m then
           py_bind (py_truediv (real (m_correct_count m)) n) (\<lambda>acc.
           py_bind (py_truediv (m_total_latency m) n) (\<lambda>lat.
           py_bind (py_truediv (real_of_int (m_total_tokens m)) n) (\<lambda>tok.
           py_bind (py_truediv (real_of_int (m_prompt_tokens m)) n) (\<lambda>ptok.
           py_bind (py_truediv (real_of_int (m_completion_tokens m)) n) (\<lambda>ctok.
           py_bind (py_truediv (real (m_total_iterations m)) n) (\<lambda>its.
           py_bind (py_truediv (real_of_int (m_total_flops m)) n) (\<lambda>fl.
           py_bind (py_truediv (m_total_cost m) n) (\<lambda>cost.
           py_bind (py_truediv (m_total_avg_completion m) n) (\<lambda>aac.
           py_bind (py_truediv (real_of_int (m_total_max_completion m)) n) (\<lambda>amc.
             Inr \<lparr>accuracy = acc * 100, avg_latency = lat, avg_total_tokens = tok,
                  avg_prompt_tokens = ptok, avg_completion_tokens = ctok, avg_iterations = its,
                  avg_flops = fl, avg_cost_per_problem = cost, avg_avg_completion = aac,
                  avg_max_completion = amc\<rparr>))))))))))
         else
           Inr \<lparr>accuracy = 0, avg_latency = 0, avg_total_tokens = 0, avg_prompt_tokens = 0,
                avg_completion_tokens = 0, avg_iterations = 0, avg_flops = 0, avg_cost_per_problem = 0,
                avg_avg_completion = 0, avg_max_completion = 0\<rparr>)"

definition process_difficulty_level ::
  "(nat \<Rightarrow> llm) \<Rightarrow> (nat \<Rightarrow> judge_api) \<Rightarrow> nat \<Rightarrow> problem list option \<Rightarrow>
   (tier_metrics \<times> tier_averages) option py_result" where
  "process_difficulty_level apis judges d problems_file =
     (case problems_file of
        None \<Rightarrow> Inr None
      | Some problems \<Rightarrow>
          (let m = process_problems apis judges 1 (tier_init d (length problems)) problems
           in py_bind (tier_finalize m) (\<lambda>a. Inr (Some (m, a)))))"

section \<open>The run summary of \<open>main\<close>\<close>

record run_summary =
  s_total_problems :: nat
  s_processed_problems :: nat
  s_correct_answers :: nat
  s_overall_accuracy :: real
  s_total_tokens :: int
  s_total_prompt_tokens :: int
  s_total_completion_tokens :: int
  s_total_iterations :: nat
  s_total_flops :: int
  s_total_cost :: real
  s_total_latency :: real
  s_avg_latency_per_problem :: real
  s_avg_cost_per_problem :: real
  s_avg_total_tokens_per_problem :: real
  s_avg_prompt_tokens_per_problem :: real
  s_avg_completion_tokens_per_problem :: real
  s_avg_iterations_per_problem :: real
  s_avg_flops_per_problem :: real
  s_overall_avg_completion :: real
  s_overall_avg_max_completion :: real
  s_global_max_completion :: int

text \<open>\<open>for diff in all_results["difficulty_results"].values()\<close>: the sums (lines 423--457).\<close>

definition summary_init :: run_summary where
  "summary_init =
     \<lparr>s_total_problems = 0, s_processed_problems = 0, s_correct_answers = 0, s_overall_accuracy = 0,
      s_total_tokens = 0, s_total_prompt_tokens = 0, s_total_completion_tokens = 0,
      s_total_iterations = 0, s_total_flops = 0, s_total_cost = 0, s_total_latency = 0,
      s_avg_latency_per_problem = 0, s_avg_cost_per_problem = 0, s_avg_total_tokens_per_problem = 0,
      s_avg_prompt_tokens_per_problem = 0, s_avg_completion_tokens_per_problem = 0,
      s_avg_iterations_per_problem = 0, s_avg_flops_per_problem = 0, s_overall_avg_completion = 0,
      s_overall_avg_max_completion = 0, s_global_max_completion = 0\<rparr>"

definition summary_add :: "run_summary \<Rightarrow> tier_metrics \<Rightarrow> run_summary" where
  "summary_add s m =
     s\<lparr>s_total_problems := s_total_problems s + m_total_problems m,
       s_processed_problems := s_processed_problems s + m_processed_problems m,
       s_correct_answers := s_correct_answers s + m_correct_count m,
       s_total_tokens := s_total_tokens s + m_total_tokens m,
       s_total_prompt_tokens := s_total_prompt_tokens s + m_prompt_tokens m,
       s_total_completion_tokens := s_total_completion_tokens s + m_completion_tokens m,
       s_total_iterations := s_total_iterations s + m_total_iterations m,
       s_total_flops := s_total_flops s + m_total_flops m,
       s_total_cost := s_total_cost s + m_total_cost m,
       s_total_latency := s_total_latency s + m_total_latency m,
       s_overall_avg_completion := s_overall_avg_completion s + m_total_avg_completion m,
       s_overall_avg_max_completion :=
         s_overall_avg_max_completion s + real_of_int (m_total_max_completion m),
       s_global_max_completion := max (s_global_max_completion s) (m_overall_max_completion m)\<rparr>"

text \<open>The derived fields of \<open>all_results["summary"]\<close> (lines 460--484).\<close>

definition summary_finalize :: "run_summary \<Rightarrow> run_summary py_result" where
  "summary_finalize s =
     (let n = s_processed_problems s
      in py_bind (if 0 < n then py_bind (py_truediv (real (s_correct_answers s)) (real n)) (\<lambda>q. Inr (q * 100))
                  else Inr 0) (\<lambda>acc.
         py_bind (per_problem n (s_total_latency s)) (\<lambda>lat.
         py_bind (per_problem n (s_total_cost s)) (\<lambda>cost.
         py_bind (per_problem n (real_of_int (s_total_tokens s))) (\<lambda>tok.
         py_bind (per_problem n (real_of_int (s_total_prompt_tokens s))) (\<lambda>ptok.
         py_bind (per_problem n (real_of_int (s_total_completion_tokens s))) (\<lambda>ctok.
         py_bind (per_problem n (real (s_total_iterations s))) (\<lambda>its.
         py_bind (per_problem n (real_of_int (s_total_flops s))) (\<lambda>fl.
         py_bind (per_problem n (s_overall_avg_completion s)) (\<lambda>aac.
         py_bind (per_problem n (s_overall_avg_max_completion s)) (\<lambda>amc.
           Inr (s\<lparr>s_overall_accuracy := acc, s_avg_latency_per_problem := lat,
                  s_avg_cost_per_problem := cost, s_avg_total_tokens_per_problem := tok,
                  s_avg_prompt_tokens_per_problem := ptok, s_avg_completion_tokens_per_problem := ctok,
                  s_avg_iterations_per_problem := its, s_avg_flops_per_problem := fl,
                  s_overall_avg_completion := aac, s_overall_avg_max_completion := amc\<rparr>))))))))))))"

text \<open>
  \<open>main\<close>: the difficulty levels processed in order (the script runs \<open>range(5, 6)\<close>),
  the missing ones skipped, then the summary.  The level's data are given per level.
\<close>

fun collect_levels ::
  "(nat \<Rightarrow> nat \<Rightarrow> llm) \<Rightarrow> (nat \<Rightarrow> nat \<Rightarrow> judge_api) \<Rightarrow> (nat \<Rightarrow> problem list option) \<Rightarrow> nat list \<Rightarrow>
   (tier_metrics \<times> tier_averages) list py_result" where
  "collect_levels apis judges data [] = Inr []"
| "collect_levels apis judges data (d # ds) =
     py_bind (process_difficulty_level (apis d) (judges d) d (data d)) (\<lambda>t.
     py_bind (collect_levels apis judges data ds) (\<lambda>ts.
       Inr (case t of None \<Rightarrow> ts | Some x \<Rightarrow> x # ts)))"

definition run_main ::
  "(nat \<Rightarrow> nat \<Rightarrow> llm) \<Rightarrow> (nat \<Rightarrow> nat \<Rightarrow> judge_api) \<Rightarrow> (nat \<Rightarrow> problem list option) \<Rightarrow> nat list \<Rightarrow>
   ((tier_metrics \<times> tier_averages) list \<times> run_summary) py_result" where
  "run_main apis judges data levels =
     py_bind (collect_levels apis judges data levels) (\<lambda>tiers.
     py_bind (summary_finalize (foldl (\<lambda>s t. summary_add s (fst t)) summary_init tiers)) (\<lambda>s.
       Inr (tiers, s)))"

section \<open>Specification helpers\<close>

text \<open>The per-level invariant, the tokens a problem contributes (those of the driver's
  result, 0 when the solver raised), and the all-zero averages.\<close>

definition tier_inv :: "tier_metrics \<Rightarrow> bool" where
  "tier_inv m \<longleftrightarrow> m_correct_count m \<le> m_processed_problems m \<and>
     m_processed_problems m \<le> length (m_problem_details m)"

definition solved_tokens :: "llm \<Rightarrow> problem \<Rightarrow> int" where
  "solved_tokens api p = (case solve_default api (problem_text p) of Inl _ \<Rightarrow> 0 | Inr r \<Rightarrow> total_tokens (res_usage r))"

definition tier_zero :: tier_averages where
  "tier_zero = \<lparr>accuracy = 0, avg_latency = 0, avg_total_tokens = 0, avg_prompt_tokens = 0,
                avg_completion_tokens = 0, avg_iterations = 0, avg_flops = 0, avg_cost_per_problem = 0,
                avg_avg_completion = 0, avg_max_completion = 0\<rparr>"

text \<open>Whether the solver of a problem returned (the judge call is not looked at), and
  whether the judge then answered \<open>True\<close>.\<close>

definition solver_returns :: "llm \<Rightarrow> problem \<Rightarrow> bool" where
  "solver_returns api p = (case solve_default api (problem_text p) of Inl _ \<Rightarrow> False | Inr _ \<Rightarrow> True)"

definition judged_correct :: "llm \<Rightarrow> judge_api \<Rightarrow> problem \<Rightarrow> bool" where
  "judged_correct api judge p =
     (case solve_default api (problem_text p) of
        Inl _ \<Rightarrow> False
      | Inr r \<Rightarrow> evaluate_answers_ai judge (problem_text p) (final_answer r) (problem_answer p) = Inr (Some True))"

definition summary_tokens :: "(tier_metrics \<times> tier_averages) list \<Rightarrow> int" where
  "summary_tokens ts = sum_list (map (\<lambda>t. m_total_tokens (fst t)) ts)"

definition summary_fold :: "(tier_metrics \<times> tier_averages) list \<Rightarrow> run_summary" where
  "summary_fold ts = foldl (\<lambda>s t. summary_add s (fst t)) summary_init ts"

section \<open>Lemmas\<close>

lemma process_problem_inv:
  assumes "tier_inv m"
  shows "tier_inv (process_problem api judge m p) \<and>
    length (m_problem_details (process_problem api judge m p)) = Suc (length (m_problem_details m)) \<and>
    m_total_problems (process_problem api judge m p) = m_total_problems m \<and>
    m_total_tokens (process_problem api judge m p) = m_total_tokens m + solved_tokens api p"
  using assms
  by (auto simp: process_problem_def Let_def add_detail_def add_solve_result_def tier_inv_def solved_tokens_def
      split: sum.splits)

lemma process_problems_inv:
  "tier_inv m \<Longrightarrow> tier_inv (process_problems apis judges i m ps) \<and>
    length (m_problem_details (process_problems apis judges i m ps)) = length (m_problem_details m) + length ps \<and>
    m_total_problems (process_problems apis judges i m ps) = m_total_problems m \<and>
    m_total_tokens (process_problems apis judges i m ps) =
      m_total_tokens m + sum_list (map (\<lambda>(j, p). solved_tokens (apis j) p) (zip [i..<i + length ps] ps))"
proof (induction ps arbitrary: i m)
  case Nil
  then show ?case by simp
next
  case (Cons p ps)
  from process_problem_inv [OF Cons.prems, of "apis i" "judges i" p]
  have step: "tier_inv (process_problem (apis i) (judges i) m p)" and
    "length (m_problem_details (process_problem (apis i) (judges i) m p)) = Suc (length (m_problem_details m))"
    "m_total_problems (process_problem (apis i) (judges i) m p) = m_total_problems m"
    "m_total_tokens (process_problem (apis i) (judges i) m p) = m_total_tokens m + solved_tokens (apis i) p"
    by auto
  with Cons.IH [OF step, of "Suc i"] show ?case by (simp add: upt_rec)
qed

lemma process_problem_counts:
  "m_processed_problems (process_problem api judge m p) =
     m_processed_problems m + (if solver_returns api p then 1 else 0) \<and>
   m_correct_count (process_problem api judge m p) =
     m_correct_count m + (if judged_correct api judge p then 1 else 0)"
  by (simp add: process_problem_def Let_def add_detail_def add_solve_result_def solver_returns_def
      judged_correct_def split: sum.split)

lemma process_problems_counts:
  "m_processed_problems (process_problems apis judges i m ps) =
     m_processed_problems m + length (filter (\<lambda>(j, p). solver_returns (apis j) p) (zip [i..<i + length ps] ps)) \<and>
   m_correct_count (process_problems apis judges i m ps) =
     m_correct_count m + length (filter (\<lambda>(j, p). judged_correct (apis j) (judges j) p) (zip [i..<i + length ps] ps))"
proof (induction ps arbitrary: i m)
  case Nil
  then show ?case by simp
next
  case (Cons p ps)
  have u: "[i..<i + length (p # ps)] = i # [Suc i..<Suc i + length ps]"
    using upt_conv_Cons [of i "i + length (p # ps)"] by simp
  from Cons.IH [of "Suc i" "process_problem (apis i) (judges i) m p"]
    process_problem_counts [of "apis i" "judges i" m p]
  show ?case unfolding u by simp
qed

lemma tier_finalize_safe:
  "\<exists>a. tier_finalize m = Inr a"
  by (simp add: tier_finalize_def Let_def)

lemma tier_finalize_zero:
  "m_processed_problems m = 0 \<Longrightarrow> tier_finalize m = Inr tier_zero"
  by (simp add: tier_finalize_def tier_zero_def)

lemma tier_finalize_accuracy:
  assumes "tier_finalize m = Inr a" and "m_correct_count m \<le> m_processed_problems m"
  shows "0 \<le> accuracy a \<and> accuracy a \<le> 100"
proof (cases "0 < m_processed_problems m")
  case True
  define q where "q = real (m_correct_count m) / real (m_processed_problems m)"
  from True assms(1) have acc: "accuracy a = q * 100"
    by (auto simp: tier_finalize_def Let_def q_def)
  have "q \<le> 1" using assms(2) True by (simp add: q_def divide_le_eq)
  moreover have "0 \<le> q" by (simp add: q_def)
  ultimately show ?thesis using acc by linarith
next
  case False
  with assms(1) have "a = tier_zero" by (simp add: tier_finalize_def tier_zero_def)
  then show ?thesis by (simp add: tier_zero_def)
qed

lemma process_difficulty_level_Some:
  "\<exists>m a. process_difficulty_level apis judges d (Some ps) = Inr (Some (m, a)) \<and>
     m = process_problems apis judges 1 (tier_init d (length ps)) ps \<and> tier_finalize m = Inr a"
  using tier_finalize_safe [of "process_problems apis judges 1 (tier_init d (length ps)) ps"]
  by (auto simp: process_difficulty_level_def)

lemma tier_inv_init: "tier_inv (tier_init d n)"
  by (simp add: tier_inv_def tier_init_def)

lemma summary_add_fold:
  "s_total_tokens (foldl (\<lambda>s t. summary_add s (fst t)) s0 ts) = s_total_tokens s0 + summary_tokens ts \<and>
   s_correct_answers (foldl (\<lambda>s t. summary_add s (fst t)) s0 ts) =
     s_correct_answers s0 + sum_list (map (\<lambda>t. m_correct_count (fst t)) ts) \<and>
   s_processed_problems (foldl (\<lambda>s t. summary_add s (fst t)) s0 ts) =
     s_processed_problems s0 + sum_list (map (\<lambda>t. m_processed_problems (fst t)) ts)"
  by (induction ts arbitrary: s0) (auto simp: summary_add_def summary_tokens_def)

lemma sum_list_mono_nat:
  "(\<And>x. x \<in> set xs \<Longrightarrow> f x \<le> g x) \<Longrightarrow> sum_list (map f xs) \<le> (sum_list (map g xs) :: nat)"
  by (induction xs) (auto intro: add_mono)

lemma collect_levels_inv:
  "\<exists>ts. collect_levels apis judges data ds = Inr ts \<and>
     (\<forall>t \<in> set ts. m_correct_count (fst t) \<le> m_processed_problems (fst t))"
proof (induction ds)
  case Nil
  then show ?case by simp
next
  case (Cons d ds)
  then obtain ts where ts: "collect_levels apis judges data ds = Inr ts"
    and inv: "\<forall>t \<in> set ts. m_correct_count (fst t) \<le> m_processed_problems (fst t)" by blast
  show ?case
  proof (cases "data d")
    case None
    with ts inv show ?thesis by (simp add: process_difficulty_level_def)
  next
    case (Some ps)
    obtain m a where lvl: "process_difficulty_level (apis d) (judges d) d (Some ps) = Inr (Some (m, a))"
      and m: "m = process_problems (apis d) (judges d) 1 (tier_init d (length ps)) ps"
      using process_difficulty_level_Some by blast
    from m process_problems_inv [OF tier_inv_init] have "m_correct_count m \<le> m_processed_problems m"
      by (simp add: tier_inv_def)
    with lvl Some ts inv show ?thesis by simp
  qed
qed

lemma summary_finalize_Inr:
  "\<exists>s'. summary_finalize s = Inr s' \<and> s_total_tokens s' = s_total_tokens s \<and>
     s_processed_problems s' = s_processed_problems s \<and> s_correct_answers s' = s_correct_answers s \<and>
     (s_correct_answers s \<le> s_processed_problems s \<longrightarrow> 0 \<le> s_overall_accuracy s' \<and> s_overall_accuracy s' \<le> 100)"
proof (cases "0 < s_processed_problems s")
  case True
  define q where "q = real (s_correct_answers s) / real (s_processed_problems s)"
  have "s_correct_answers s \<le> s_processed_problems s \<Longrightarrow> q \<le> 1"
    using True by (simp add: q_def divide_le_eq)
  moreover have "0 \<le> q" by (simp add: q_def)
  ultimately have "s_correct_answers s \<le> s_processed_problems s \<longrightarrow> 0 \<le> q * 100 \<and> q * 100 \<le> 100"
    by linarith
  with True show ?thesis
    by (simp add: summary_finalize_def per_problem_def Let_def q_def)
next
  case False
  then show ?thesis by (simp add: summary_finalize_def per_problem_def Let_def)
qed

lemma per_problem_Inr: "\<exists>q. per_problem n x = Inr q"
  by (simp add: per_problem_def)

lemma per_problem_percent:
  "c \<le> n \<Longrightarrow> \<exists>q. per_problem n (real c) = Inr q \<and> 0 \<le> q * 100 \<and> q * 100 \<le> 100"
  using percent_bounds [of c n] by (simp add: per_problem_def)

section \<open>Properties\<close>

text \<open>C4: process_difficulty_level on a problem file returns metrics with one detail record per problem, correct_count <= processed_problems <= total_problems, and an accuracy between 0 and 100.\<close>

theorem tier_metrics_consistent:
  "\<exists>m a. process_difficulty_level apis judges d (Some ps) = Inr (Some (m, a)) \<and>
     m_total_problems m = length ps \<and> length (m_problem_details m) = length ps \<and>
     m_correct_count m \<le> m_processed_problems m \<and> m_processed_problems m \<le> length ps \<and>
     0 \<le> accuracy a \<and> accuracy a \<le> 100"
proof -
  obtain m a where lvl: "process_difficulty_level apis judges d (Some ps) = Inr (Some (m, a))"
    and m: "m = process_problems apis judges 1 (tier_init d (length ps)) ps" and fin: "tier_finalize m = Inr a"
    using process_difficulty_level_Some by blast
  from m process_problems_inv [OF tier_inv_init]
  have inv: "tier_inv m" and len: "length (m_problem_details m) = length ps"
    and tot: "m_total_problems m = length ps"
    by (simp_all add: tier_init_def)
  then have cnt: "m_correct_count m \<le> m_processed_problems m" "m_processed_problems m \<le> length ps"
    by (simp_all add: tier_inv_def)
  from tier_finalize_accuracy [OF fin cnt(1)] lvl len tot cnt show ?thesis by blast
qed

text \<open>C22: The total tokens of a difficulty level are the sum of the tokens reported by the solver for each problem, 0 for a problem whose solver raised.\<close>

theorem tier_tokens_sum:
  "\<exists>m a. process_difficulty_level apis judges d (Some ps) = Inr (Some (m, a)) \<and>
     m_total_tokens m = sum_list (map (\<lambda>(j, p). solved_tokens (apis j) p) (zip [1..<Suc (length ps)] ps))"
proof -
  obtain m a where lvl: "process_difficulty_level apis judges d (Some ps) = Inr (Some (m, a))"
    and m: "m = process_problems apis judges 1 (tier_init d (length ps)) ps"
    using process_difficulty_level_Some by blast
  from m process_problems_inv [OF tier_inv_init]
  have "m_total_tokens m = sum_list (map (\<lambda>(j, p). solved_tokens (apis j) p) (zip [1..<Suc (length ps)] ps))"
    by (simp add: tier_init_def)
  with lvl show ?thesis by blast
qed

text \<open>C5: The averages of a difficulty level never raise ZeroDivisionError, and a level with no processed problem gets all-zero averages.\<close>

theorem tier_finalize_zero_guard:
  "(\<exists>a. tier_finalize m = Inr a) \<and> (m_processed_problems m = 0 \<longrightarrow> tier_finalize m = Inr tier_zero)"
  using tier_finalize_safe tier_finalize_zero by blast

theorem tier_finalize_zero_guard_witness:
  "(\<exists>a. tier_finalize (tier_init 5 3) = Inr a) \<and> tier_finalize (tier_init 5 3) = Inr tier_zero"
proof -
  have "m_processed_problems (tier_init 5 3) = 0" by (simp add: tier_init_def)
  with tier_finalize_zero_guard [of "tier_init 5 3"] show ?thesis by blast
qed

text \<open>C24: main's summary adds up the levels' tokens, processed and correct counts, and its overall accuracy lies between 0 and 100.\<close>

theorem run_main_summary:
  "\<exists>tiers s. run_main apis judges data levels = Inr (tiers, s) \<and>
     s_total_tokens s = summary_tokens tiers \<and>
     s_processed_problems s = sum_list (map (\<lambda>t. m_processed_problems (fst t)) tiers) \<and>
     s_correct_answers s = sum_list (map (\<lambda>t. m_correct_count (fst t)) tiers) \<and>
     0 \<le> s_overall_accuracy s \<and> s_overall_accuracy s \<le> 100"
proof -
  obtain ts where ts: "collect_levels apis judges data levels = Inr ts"
    and inv: "\<forall>t \<in> set ts. m_correct_count (fst t) \<le> m_processed_problems (fst t)"
    using collect_levels_inv by blast
  let ?s = "foldl (\<lambda>s t. summary_add s (fst t)) summary_init ts"
  have sums: "s_total_tokens ?s = summary_tokens ts"
    "s_correct_answers ?s = sum_list (map (\<lambda>t. m_correct_count (fst t)) ts)"
    "s_processed_problems ?s = sum_list (map (\<lambda>t. m_processed_problems (fst t)) ts)"
    using summary_add_fold [of summary_init ts] by (simp_all add: summary_init_def)
  with inv have le: "s_correct_answers ?s \<le> s_processed_problems ?s"
    by (simp add: sum_list_mono_nat)
  obtain s' where fin: "summary_finalize ?s = Inr s'" and same: "s_total_tokens s' = s_total_tokens ?s"
    "s_processed_problems s' = s_processed_problems ?s" "s_correct_answers s' = s_correct_answers ?s"
    and acc: "0 \<le> s_overall_accuracy s' \<and> s_overall_accuracy s' \<le> 100"
    using summary_finalize_Inr [of ?s] le by blast
  have "run_main apis judges data levels = Inr (ts, s')" by (simp add: run_main_def ts fin)
  with sums same acc show ?thesis by auto
qed

text \<open>C31: The processed count of a level is the number of problems whose solver returned, a judge call that raised included, and its correct count is the number of those whose judge answered True: a judge failure or a reply with neither [[YES]] nor [[NO]] counts as processed and incorrect.\<close>

theorem tier_counts_exact:
  "\<exists>m a. process_difficulty_level apis judges d (Some ps) = Inr (Some (m, a)) \<and>
     m_processed_problems m = length (filter (\<lambda>(j, p). solver_returns (apis j) p) (zip [1..<Suc (length ps)] ps)) \<and>
     m_correct_count m = length (filter (\<lambda>(j, p). judged_correct (apis j) (judges j) p) (zip [1..<Suc (length ps)] ps))"
proof -
  obtain m a where lvl: "process_difficulty_level apis judges d (Some ps) = Inr (Some (m, a))"
    and m: "m = process_problems apis judges 1 (tier_init d (length ps)) ps"
    using process_difficulty_level_Some by blast
  from m process_problems_counts [of apis judges 1 "tier_init d (length ps)" ps]
  have "m_processed_problems m = length (filter (\<lambda>(j, p). solver_returns (apis j) p) (zip [1..<Suc (length ps)] ps)) \<and>
     m_correct_count m = length (filter (\<lambda>(j, p). judged_correct (apis j) (judges j) p) (zip [1..<Suc (length ps)] ps))"
    by (simp add: tier_init_def)
  with lvl show ?thesis by blast
qed

end
