(* ===== verification/Binning.thy ===== *)
theory Binning
  imports Prelude
begin

text \<open>
  The histogram binning of the offline analysis scripts: \<open>create_bins\<close> and
  \<open>count_frequency\<close> of \<open>src/getdata.py\<close> (lines 65--98; the same code is in
  \<open>src/completion_tokens_analysis.py\<close>, lines 96--129, with bin width 50) and the older
  \<open>count_frequency\<close> of \<open>src/math/getdata.py\<close> (lines 55--70), which folds every value
  at or above the last boundary into the last bin.  The frequency table, a
  \<open>defaultdict(int)\<close> keyed by \<open>(lower, upper)\<close>, is a map whose domain is the set of
  keys that were incremented.
\<close>

section \<open>Definitions\<close>

type_synonym bin = "int \<times> int"
type_synonym frequency = "bin \<rightharpoonup> nat"

definition create_bins :: "int list \<Rightarrow> int \<Rightarrow> int list py_result" where
  "create_bins iteration_steps bin_width =
     (if iteration_steps = [] then Inr []
      else
        py_bind (py_min iteration_steps) (\<lambda>min_step.
        py_bind (py_max iteration_steps) (\<lambda>max_step.
        py_bind (py_floordiv min_step bin_width) (\<lambda>qmin.
        py_bind (py_floordiv max_step bin_width) (\<lambda>qmax.
          (let start_bin = qmin * bin_width; end_bin = (qmax + 1) * bin_width
           in py_range start_bin (end_bin + bin_width) bin_width))))))"

text \<open>The inner \<open>for i in range(len(bins) - 1)\<close> with its \<open>break\<close>.\<close>

fun find_bin :: "int list \<Rightarrow> int \<Rightarrow> bin option" where
  "find_bin (a # b # rest) v = (if a \<le> v \<and> v < b then Some (a, b) else find_bin (b # rest) v)"
| "find_bin _ v = None"

text \<open>\<open>frequency[key] += 1\<close> on a \<open>defaultdict(int)\<close>.\<close>

definition bump :: "frequency \<Rightarrow> bin \<Rightarrow> frequency" where
  "bump freq k = freq(k \<mapsto> (case freq k of None \<Rightarrow> 1 | Some c \<Rightarrow> Suc c))"

text \<open>\<open>src/getdata.py\<close>: the \<open>else\<close> of the \<open>for\<close> folds a value equal to the last
  boundary into the last bin, when there are at least two boundaries.\<close>

definition count_step :: "int list \<Rightarrow> frequency \<Rightarrow> int \<Rightarrow> frequency" where
  "count_step bins freq step =
     (case find_bin bins step of
        Some k \<Rightarrow> bump freq k
      | None \<Rightarrow> if 2 \<le> length bins \<and> step = last bins
                then bump freq (bins ! (length bins - 2), last bins) else freq)"

definition count_frequency :: "int list \<Rightarrow> int list \<Rightarrow> frequency" where
  "count_frequency iteration_steps bins = foldl (count_step bins) Map.empty iteration_steps"

text \<open>\<open>src/math/getdata.py\<close>: the fold takes every value at or above \<open>bins[-1]\<close>;
  \<open>bins[-1]\<close> and \<open>bins[-2]\<close> raise \<open>IndexError\<close> on too short a list.\<close>

definition count_step_legacy :: "int list \<Rightarrow> frequency \<Rightarrow> int \<Rightarrow> frequency py_result" where
  "count_step_legacy bins freq step =
     (case find_bin bins step of
        Some k \<Rightarrow> Inr (bump freq k)
      | None \<Rightarrow>
          if bins = [] then Inl IndexError
          else if last bins \<le> step then
            (if length bins < 2 then Inl IndexError
             else Inr (bump freq (bins ! (length bins - 2), last bins)))
          else Inr freq)"

fun count_frequency_legacy_from :: "int list \<Rightarrow> frequency \<Rightarrow> int list \<Rightarrow> frequency py_result" where
  "count_frequency_legacy_from bins freq [] = Inr freq"
| "count_frequency_legacy_from bins freq (s # ss) =
     py_bind (count_step_legacy bins freq s) (\<lambda>freq'. count_frequency_legacy_from bins freq' ss)"

definition count_frequency_legacy :: "int list \<Rightarrow> int list \<Rightarrow> frequency py_result" where
  "count_frequency_legacy iteration_steps bins = count_frequency_legacy_from bins Map.empty iteration_steps"

text \<open>
  The copies in \<open>src/completion_tokens_analysis.py\<close> (lines 95--129), which
  \<open>analyze_and_plot\<close> calls with bin width 50: the same code over the completion tokens.
\<close>

definition create_bins_tokens :: "int list \<Rightarrow> int \<Rightarrow> int list py_result" where
  "create_bins_tokens completion_tokens_list bin_width =
     (if completion_tokens_list = [] then Inr []
      else
        py_bind (py_min completion_tokens_list) (\<lambda>min_tokens.
        py_bind (py_max completion_tokens_list) (\<lambda>max_tokens.
        py_bind (py_floordiv min_tokens bin_width) (\<lambda>qmin.
        py_bind (py_floordiv max_tokens bin_width) (\<lambda>qmax.
          (let start_bin = qmin * bin_width; end_bin = (qmax + 1) * bin_width
           in py_range start_bin (end_bin + bin_width) bin_width))))))"

definition count_step_tokens :: "int list \<Rightarrow> frequency \<Rightarrow> int \<Rightarrow> frequency" where
  "count_step_tokens bins freq tokens =
     (case find_bin bins tokens of
        Some k \<Rightarrow> bump freq k
      | None \<Rightarrow> if 2 \<le> length bins \<and> tokens = last bins
                then bump freq (bins ! (length bins - 2), last bins) else freq)"

definition count_frequency_tokens :: "int list \<Rightarrow> int list \<Rightarrow> frequency" where
  "count_frequency_tokens completion_tokens_list bins =
     foldl (count_step_tokens bins) Map.empty completion_tokens_list"

text \<open>
  \<open>create_bins\<close> of \<open>src/math/getdata.py\<close> (lines 37--53) returns the pair
  \<open>[], []\<close> on an empty list and a list otherwise: its Python value is one of the two.
  Its \<open>count_frequency\<close> (lines 55--70) on the pair compares an integer with a list,
  \<open>TypeError\<close>, as soon as there is a value to count.
\<close>

datatype bins_value = Bin_list "int list" | Bin_pair "int list" "int list"

definition create_bins_legacy :: "int list \<Rightarrow> int \<Rightarrow> bins_value py_result" where
  "create_bins_legacy iteration_steps bin_width =
     (if iteration_steps = [] then Inr (Bin_pair [] [])
      else
        py_bind (py_min iteration_steps) (\<lambda>min_step.
        py_bind (py_max iteration_steps) (\<lambda>max_step.
        py_bind (py_floordiv min_step bin_width) (\<lambda>qmin.
        py_bind (py_floordiv max_step bin_width) (\<lambda>qmax.
          (let start_bin = qmin * bin_width; end_bin = (qmax + 1) * bin_width
           in py_bind (py_range start_bin (end_bin + bin_width) bin_width) (\<lambda>bins. Inr (Bin_list bins))))))))"

definition count_frequency_legacy_value :: "int list \<Rightarrow> bins_value \<Rightarrow> frequency py_result" where
  "count_frequency_legacy_value iteration_steps bins =
     (case bins of
        Bin_list bs \<Rightarrow> count_frequency_legacy iteration_steps bs
      | Bin_pair _ _ \<Rightarrow> if iteration_steps = [] then Inr Map.empty else Inl TypeError)"

section \<open>Reference specification\<close>

text \<open>The bin of a value for width \<open>w\<close>: \<open>[w * (v // w), w * (v // w) + w)\<close>; and
  the direct count of the values in each bin.\<close>

definition bin_of :: "int \<Rightarrow> int \<Rightarrow> bin" where
  "bin_of w v = (w * (v div w), w * (v div w) + w)"

definition bin_counts :: "int \<Rightarrow> int list \<Rightarrow> frequency" where
  "bin_counts w vs k = (let c = length (filter (\<lambda>v. bin_of w v = k) vs) in if c = 0 then None else Some c)"

section \<open>Lemmas\<close>

text \<open>The copies of completion_tokens_analysis.py are the functions of getdata.py.\<close>

lemma create_bins_tokens_eq [simp]: "create_bins_tokens = create_bins"
  by (simp add: fun_eq_iff create_bins_tokens_def create_bins_def)

lemma count_step_tokens_eq: "count_step_tokens = count_step"
  by (simp add: fun_eq_iff count_step_tokens_def count_step_def)

lemma count_frequency_tokens_eq [simp]: "count_frequency_tokens = count_frequency"
  by (simp add: fun_eq_iff count_frequency_tokens_def count_frequency_def count_step_tokens_eq)

lemma create_bins_legacy_eq:
  "create_bins_legacy vs w = (if vs = [] then Inr (Bin_pair [] []) else map_sum id Bin_list (create_bins vs w))"
  by (simp add: create_bins_legacy_def create_bins_def py_bind_def Let_def split: sum.split)

lemma div_minus_self: "(0::int) < w \<Longrightarrow> (x - w) div w = x div w - 1"
proof -
  assume w: "0 < w"
  have "(x - w + w) div w = (x - w) div w + 1" by (rule div_add_self2) (use w in simp)
  then show ?thesis by simp
qed

lemma find_bin_range:
  assumes "0 < w" "a \<le> v" "v + w < stop"
  shows "find_bin (py_range_up a stop w) v = Some (a + w * ((v - a) div w), a + w * ((v - a) div w) + w)"
  using assms
proof (induction a stop w rule: py_range_up.induct)
  case (1 a stop w)
  have aw: "a + w < stop" using "1.prems" by linarith
  have next_list: "py_range_up (a + w) stop w = (a + w) # py_range_up (a + w + w) stop w"
    using py_range_up_step [OF "1.prems"(1) aw] .
  have a_lt: "a < stop" using "1.prems" by linarith
  have L: "py_range_up a stop w = a # (a + w) # py_range_up (a + w + w) stop w"
    using py_range_up_step [OF "1.prems"(1) a_lt] next_list by (simp only:)
  show ?case
  proof (cases "v < a + w")
    case True
    then have "(v - a) div w = 0" using "1.prems" by (simp add: div_pos_pos_trivial)
    with L True "1.prems" show ?thesis by simp
  next
    case False
    have "find_bin (py_range_up a stop w) v = find_bin (py_range_up (a + w) stop w) v"
      using L next_list False by simp
    also have "\<dots> = Some (a + w + w * ((v - (a + w)) div w), a + w + w * ((v - (a + w)) div w) + w)"
      using "1.IH" "1.prems" False aw by simp
    also have "(v - (a + w)) div w = (v - a) div w - 1"
      using div_minus_self [OF "1.prems"(1), of "v - a"] by (simp add: algebra_simps)
    finally show ?thesis by (simp add: algebra_simps)
  qed
qed

lemma create_bins_eq:
  "0 < w \<Longrightarrow> vs \<noteq> [] \<Longrightarrow>
   create_bins vs w = Inr (py_range_up (Min (set vs) div w * w) ((Max (set vs) div w + 1) * w + w) w)"
  by (simp add: create_bins_def py_min_Min py_max_Max py_range_def)

lemma div_mult_le_self: "(0::int) < w \<Longrightarrow> x div w * w \<le> x"
  by (simp add: minus_mod_eq_div_mult [symmetric] pos_mod_sign)

lemma lt_next_multiple: "(0::int) < w \<Longrightarrow> x < (x div w + 1) * w"
proof -
  assume w: "0 < w"
  have e: "x div w * w + x mod w = x" by (rule div_mult_mod_eq)
  have b: "x mod w < w" using w by (rule pos_mod_bound)
  have "(x div w + 1) * w = x div w * w + w" by (simp add: distrib_right)
  with e b show ?thesis by linarith
qed

lemma floor_bin_shift:
  "(0::int) < w \<Longrightarrow> k * w + w * ((v - k * w) div w) = w * (v div w)"
proof -
  assume w: "0 < w"
  have "(v + (- k) * w) div w = - k + v div w" using w by (simp only: div_mult_self1)
  then have d: "(v - k * w) div w = v div w - k" by simp
  show ?thesis unfolding d by (simp add: right_diff_distrib mult.commute)
qed

lemma create_bins_find_bin_aux:
  assumes w: "0 < w" and cb: "create_bins vs w = Inr bins" and v: "v \<in> set vs"
  shows "find_bin bins v = Some (bin_of w v)"
proof -
  have ne: "vs \<noteq> []" using v by auto
  define mn where "mn = Min (set vs)"
  define mx where "mx = Max (set vs)"
  have bins: "bins = py_range_up (mn div w * w) ((mx div w + 1) * w + w) w"
    using create_bins_eq [OF w ne] cb by (simp add: mn_def mx_def)
  have "mn \<le> v" "v \<le> mx" using v by (simp_all add: mn_def mx_def)
  then have lo: "mn div w * w \<le> v" and hi: "v + w < (mx div w + 1) * w + w"
    using div_mult_le_self [OF w, of mn] lt_next_multiple [OF w, of mx] by linarith+
  show ?thesis
    using find_bin_range [OF w lo hi] bins floor_bin_shift [OF w, of "mn div w" v]
    by (simp add: bin_of_def)
qed

lemma bump_fold_counts:
  "foldl (\<lambda>f v. bump f (g v)) m vs k =
     (let c = length (filter (\<lambda>v. g v = k) vs) in
      case m k of None \<Rightarrow> (if c = 0 then None else Some c) | Some c0 \<Rightarrow> Some (c0 + c))"
  by (induction vs arbitrary: m) (auto simp: bump_def Let_def split: option.splits)

lemma count_frequency_reference_aux:
  assumes "\<forall>v \<in> set vs. find_bin bins v = Some (bin_of w v)"
  shows "count_frequency vs bins = bin_counts w vs"
proof -
  have "foldl (count_step bins) m vs = foldl (\<lambda>f v. bump f (bin_of w v)) m vs" for m
    using assms by (induction vs arbitrary: m) (simp_all add: count_step_def)
  then show ?thesis
    by (simp add: count_frequency_def fun_eq_iff bump_fold_counts bin_counts_def Let_def)
qed

lemma count_frequency_legacy_agrees:
  "\<forall>v \<in> set vs. find_bin bins v \<noteq> None \<Longrightarrow> count_frequency_legacy_from bins m vs = Inr (foldl (count_step bins) m vs)"
  by (induction vs arbitrary: m) (auto simp: count_step_legacy_def count_step_def split: option.splits)

section \<open>Properties\<close>

text \<open>C19: For a positive width, the scan of count_frequency finds every input value in the boundaries of create_bins, in its floor bin [w*(v//w), w*(v//w)+w); so the fold into the last bin is never reached.\<close>

theorem create_bins_find_bin:
  assumes "0 < w" and "create_bins vs w = Inr bins" and "v \<in> set vs"
  shows "find_bin bins v = Some (bin_of w v)"
  using create_bins_find_bin_aux [OF assms] .

theorem create_bins_find_bin_witness:
  "find_bin [0, 5, 10, 15, 20] 15 = Some (bin_of 5 15)"
proof -
  have "create_bins [3, 7, 12, 15] 5 = Inr [0, 5, 10, 15, 20]" by code_simp
  then show ?thesis by (rule create_bins_find_bin [of 5, rotated]) simp_all
qed

text \<open>C20: On the boundaries of create_bins, count_frequency of src/getdata.py equals the direct count of the values in each floor bin.\<close>

theorem count_frequency_reference:
  assumes "0 < w" and "create_bins vs w = Inr bins"
  shows "count_frequency vs bins = bin_counts w vs"
  using assms create_bins_find_bin_aux by (blast intro: count_frequency_reference_aux)

theorem count_frequency_reference_witness:
  "count_frequency [3, 7, 12, 15] [0, 5, 10, 15, 20] = bin_counts 5 [3, 7, 12, 15]"
proof -
  have "create_bins [3, 7, 12, 15] 5 = Inr [0, 5, 10, 15, 20]" by code_simp
  then show ?thesis by (rule count_frequency_reference [rotated]) simp
qed

text \<open>C21: On the boundaries of create_bins, count_frequency of src/math/getdata.py raises nothing and agrees with that of src/getdata.py.\<close>

theorem count_frequency_legacy_equiv:
  assumes "0 < w" and "create_bins vs w = Inr bins"
  shows "count_frequency_legacy vs bins = Inr (count_frequency vs bins)"
proof -
  have "\<forall>v \<in> set vs. find_bin bins v \<noteq> None" using create_bins_find_bin_aux [OF assms] by blast
  then show ?thesis by (simp add: count_frequency_legacy_def count_frequency_def count_frequency_legacy_agrees)
qed

theorem count_frequency_legacy_equiv_witness:
  "count_frequency_legacy [3, 7, 12, 15] [0, 5, 10, 15, 20] = Inr (count_frequency [3, 7, 12, 15] [0, 5, 10, 15, 20])"
proof -
  have "create_bins [3, 7, 12, 15] 5 = Inr [0, 5, 10, 15, 20]" by code_simp
  then show ?thesis by (rule count_frequency_legacy_equiv [rotated]) simp
qed

text \<open>create_bins with bin width 0 on a non-empty list raises ZeroDivisionError.\<close>

theorem create_bins_zero_width:
  "iteration_steps \<noteq> [] \<Longrightarrow> create_bins iteration_steps 0 = Inl ZeroDivisionError"
  by (cases iteration_steps) (simp_all add: create_bins_def py_floordiv_def)

theorem create_bins_zero_width_witness:
  "create_bins [3, 7] 0 = Inl ZeroDivisionError"
  by (rule create_bins_zero_width) simp

text \<open>create_bins [3, 7, 12, 15] 5 gives the boundaries 0, 5, 10, 15, 20 and count_frequency puts one value in each of the four bins.\<close>

theorem binning_spec_example:
  "create_bins [3, 7, 12, 15] 5 = Inr [0, 5, 10, 15, 20] \<and>
   count_frequency [3, 7, 12, 15] [0, 5, 10, 15, 20] =
     [(0, 5) \<mapsto> 1, (5, 10) \<mapsto> 1, (10, 15) \<mapsto> 1, (15, 20) \<mapsto> 1]"
proof
  show "create_bins [3, 7, 12, 15] 5 = Inr [0, 5, 10, 15, 20]" by code_simp
  show "count_frequency [3, 7, 12, 15] [0, 5, 10, 15, 20] =
      [(0, 5) \<mapsto> 1, (5, 10) \<mapsto> 1, (10, 15) \<mapsto> 1, (15, 20) \<mapsto> 1]"
    by (simp add: count_frequency_def count_step_def bump_def)
qed

end
