(* ===== verification/Legacy.thy ===== *)
theory Legacy
  imports Driver
begin

text \<open>
  The older versions of the iteration loop: the driver \<open>solve_problem_with_agents\<close> of
  \<open>src/math/process.py\<close> (lines 99--139), which keeps only the totals, and the two
  single-problem probe scripts \<open>src/math/test1 copy.py\<close> and
  \<open>src/math/test1 copy 2.py\<close>, whose \<open>while True\<close> loops call the model through
  \<open>_request_llm_for_trans\<close>.
\<close>

section \<open>The driver of process.py\<close>

definition generate_prompt_legacy :: "nat \<Rightarrow> nat \<Rightarrow> nat \<Rightarrow> sys_prompt" where
  "generate_prompt_legacy thought_token_limit summary_token_limit answer_token_limit =
     Legacy_agent_prompt 300 100 100"

text \<open>
  \<open>process.py\<close> has its own \<open>_get_user_prompt\<close> (lines 92--97), called by its loop,
  and its own \<open>extract_final_answer\<close> (lines 141--150), never called.
\<close>

definition get_user_prompt_legacy :: "string \<Rightarrow> string \<Rightarrow> string" where
  "get_user_prompt_legacy question last_resp =
     (if last_resp = [] then question else question @ CHR 0x0A # last_resp)"

definition extract_final_answer_legacy :: "string option \<Rightarrow> string option" where
  "extract_final_answer_legacy response_content =
     (case response_content of
        None \<Rightarrow> None
      | Some s \<Rightarrow> (case regex_answer s of Some g \<Rightarrow> Some (py_strip g) | None \<Rightarrow> Some s))"

record legacy_state =
  l_last_response :: string
  l_total_usage :: usage
  l_total_latency :: real
  l_total_cost :: real

definition legacy_init :: legacy_state where
  "legacy_init = \<lparr>l_last_response = [], l_total_usage = zero_usage, l_total_latency = 0, l_total_cost = 0\<rparr>"

text \<open>
  The \<open>for iteration in range(max_iterations)\<close> loop (lines 110--136): a
  \<open>RequestException\<close> is logged and the next iteration starts; any other exception
  leaves the function.
\<close>

fun solve_loop_legacy ::
  "llm \<Rightarrow> sys_prompt \<Rightarrow> string \<Rightarrow> nat \<Rightarrow> nat \<Rightarrow> legacy_state \<Rightarrow> (string option \<times> legacy_state) py_result" where
  "solve_loop_legacy api sp question iteration 0 st = Inr (None, st)"
| "solve_loop_legacy api sp question iteration (Suc n) st =
     (let user_prompt = get_user_prompt_legacy question (l_last_response st)
      in case get_response api iteration sp user_prompt of
           Api_request_error \<Rightarrow> solve_loop_legacy api sp question (Suc iteration) n st
         | Api_raised e \<Rightarrow> Inl e
         | Api_ok response u lat \<Rightarrow>
             (let st' = st\<lparr>l_total_usage := add_usage (l_total_usage st) u,
                          l_total_latency := l_total_latency st + lat,
                          l_total_cost := l_total_cost st + call_cost (prompt_tokens u) (completion_tokens u)\<rparr>
              in if py_in answer_open response
                 then py_bind (answer_of_response response) (\<lambda>a. Inr (Some a, st'))
                 else solve_loop_legacy api sp question (Suc iteration) n (st'\<lparr>l_last_response := response\<rparr>)))"

definition solve_problem_with_agents_legacy ::
  "llm \<Rightarrow> string \<Rightarrow> int \<Rightarrow> nat \<Rightarrow> nat \<Rightarrow> nat \<Rightarrow> (string option \<times> usage \<times> real \<times> real) py_result" where
  "solve_problem_with_agents_legacy api question max_iterations thought_token_limit
     summary_token_limit answer_token_limit =
     (let sp = generate_prompt_legacy thought_token_limit summary_token_limit answer_token_limit
      in case solve_loop_legacy api sp question 0 (nat max_iterations) legacy_init of
           Inl e \<Rightarrow> Inl e
         | Inr (a, st) \<Rightarrow> Inr (a, l_total_usage st, l_total_latency st, l_total_cost st))"

text \<open>The abstraction of the \<open>process3.py\<close> state to the \<open>process.py\<close> state.\<close>

definition legacy_abs :: "solve_state \<Rightarrow> legacy_state" where
  "legacy_abs st =
     \<lparr>l_last_response = last_response st, l_total_usage = total_usage st,
      l_total_latency = total_latency st, l_total_cost = total_cost st\<rparr>"

section \<open>The probe scripts\<close>

text \<open>
  \<open>_request_llm_for_trans\<close>: the remote model given the 1-based step number and the
  prompt; \<open>None\<close> is any exception of the request or of the JSON access, which the
  scripts catch and answer with \<open>break\<close>.  The content is stripped, the completion
  tokens are returned with it.
\<close>

type_synonym chat = "nat \<Rightarrow> string \<Rightarrow> (string \<times> int) option"

definition request_llm_for_trans :: "chat \<Rightarrow> nat \<Rightarrow> string \<Rightarrow> (string \<times> int) option" where
  "request_llm_for_trans api step user_prompt =
     map_option (\<lambda>(content, tokens). (py_strip content, tokens)) (api step user_prompt)"

text \<open>
  \<open>test1 copy.py\<close>, lines 53--76: the step limit is checked after every iteration that
  did not \<open>break\<close>.  The result is the final answer (if any) and \<open>num_steps\<close>.
\<close>

function probe_loop :: "chat \<Rightarrow> nat \<Rightarrow> string \<Rightarrow> nat \<Rightarrow> string \<Rightarrow> string option \<times> nat" where
  "probe_loop api max_steps user_prompt num_steps current_prompt =
     (let n = Suc num_steps
      in case request_llm_for_trans api n current_prompt of
           None \<Rightarrow> (None, n)
         | Some (response_content, tokens_used) \<Rightarrow>
             (if py_in answer_open response_content then (Some (py_strip response_content), n)
              else if py_in summary_tag response_content \<or> py_in think_tag response_content then
                (if max_steps \<le> n then (None, n)
                 else probe_loop api max_steps user_prompt n (py_strip response_content @ user_prompt))
              else (None, n)))"
  by pat_completeness auto
termination
  by (relation "measure (\<lambda>(_, max_steps, _, num_steps, _). max_steps - num_steps)") auto

text \<open>
  \<open>test1 copy 2.py\<close>, lines 56--90: one problem of the \<open>for\<close> loop.  The step limit is
  tested only in an \<open>elif\<close> after the \<open><summary>\<close> and \<open><think>\<close> branches, so a
  model that keeps answering with one of these tags is never stopped; the loop is given
  explicit fuel and \<open>None\<close> is running out of it.
\<close>

record trial_state =
  t_num_steps :: nat
  t_tokennum :: int
  t_total_tokens :: int
  t_total_cost :: real
  t_current_prompt :: string
  t_final_answer :: "string option"

fun trial_loop :: "nat \<Rightarrow> chat \<Rightarrow> nat \<Rightarrow> string \<Rightarrow> trial_state \<Rightarrow> trial_state option" where
  "trial_loop 0 api max_steps user_prompt st = None"
| "trial_loop (Suc fuel) api max_steps user_prompt st =
     (let n = Suc (t_num_steps st); st1 = st\<lparr>t_num_steps := n\<rparr>
      in case request_llm_for_trans api n (t_current_prompt st) of
           None \<Rightarrow> Some st1
         | Some (response_content, tokens_used) \<Rightarrow>
             (let st2 = st1\<lparr>t_total_tokens := t_total_tokens st + tokens_used,
                           t_tokennum := t_tokennum st + tokens_used,
                           t_total_cost := t_total_cost st + real_of_int tokens_used / 1000 * 0.002\<rparr>
              in if py_in answer_open response_content
                 then Some (st2\<lparr>t_final_answer := Some (py_strip response_content)\<rparr>)
                 else if py_in summary_tag response_content
                 then trial_loop fuel api max_steps user_prompt
                        (st2\<lparr>t_current_prompt := py_strip response_content @ user_prompt\<rparr>)
                 else if py_in think_tag response_content
                 then trial_loop fuel api max_steps user_prompt
                        (st2\<lparr>t_current_prompt := py_strip response_content @ user_prompt\<rparr>)
                 else if max_steps < n then Some st2
                 else Some st2))"

text \<open>Line 93: \<open>final_answer and str(correct_answer) in final_answer\<close>.\<close>

definition trial_correct :: "string option \<Rightarrow> string \<Rightarrow> bool" where
  "trial_correct fa correct_answer =
     (case fa of None \<Rightarrow> False | Some f \<Rightarrow> f \<noteq> [] \<and> py_in correct_answer f)"

section \<open>Lemmas\<close>

text \<open>The helpers of process.py are those of process3.py.\<close>

lemma get_user_prompt_legacy_eq [simp]: "get_user_prompt_legacy = get_user_prompt"
  by (simp add: fun_eq_iff get_user_prompt_legacy_def get_user_prompt_def)

lemma extract_final_answer_legacy_eq: "extract_final_answer_legacy = extract_final_answer"
  by (simp add: fun_eq_iff extract_final_answer_legacy_def extract_final_answer_def)

section \<open>Properties\<close>

text \<open>C8: The loop of process.py's solve_problem_with_agents is the projection of process3.py's loop onto the last response and the totals: from abstracted states both give the same answer and abstracted final state, or the same exception.\<close>

lemma solve_loop_legacy_refines:
  "solve_loop_legacy api sp question i n (legacy_abs st) =
     map_sum id (map_prod id legacy_abs) (solve_loop api sp question i n st)"
proof (induction n arbitrary: i st)
  case 0
  then show ?case by simp
next
  case (Suc n)
  have ih: "map_sum (\<lambda>a. a) (map_prod (\<lambda>a. a) legacy_abs) (solve_loop api sp question (Suc i) n st') =
      solve_loop_legacy api sp question (Suc i) n (legacy_abs st')" for st'
    using Suc.IH [of "Suc i" st'] unfolding id_def by (rule sym)
  show ?case
  proof (cases "get_response api i sp (get_user_prompt question (last_response st))")
    case (Api_ok response u lat)
    then show ?thesis
      by (cases "answer_of_response response")
         (simp_all add: solve_iteration_def Let_def ih, simp_all add: legacy_abs_def)
  qed (simp_all add: solve_iteration_def Let_def ih, simp_all add: legacy_abs_def)
qed

text \<open>C32: The loop of test1 copy.py makes at most max(num_steps + 1, max_steps) calls: it stops within its step limit.\<close>

lemma probe_loop_bounded:
  "snd (probe_loop api max_steps user_prompt num_steps p) \<le> max (Suc num_steps) max_steps"
proof (induction api max_steps user_prompt num_steps p rule: probe_loop.induct)
  case (1 api max_steps user_prompt num_steps current_prompt)
  then show ?case
    by (subst probe_loop.simps)
       (fastforce simp: Let_def split: option.split prod.split)
qed

text \<open>C7: The while-True loop of test1 copy 2.py never ends when every response carries <summary> or <think> and no <answer>: for every amount of fuel it runs out, since max_steps is only tested after those branches.\<close>

lemma trial_loop_diverges:
  assumes "\<forall>n p. case api n p of None \<Rightarrow> False
                  | Some (c, t) \<Rightarrow> \<not> py_in answer_open (py_strip c) \<and>
                                  (py_in summary_tag (py_strip c) \<or> py_in think_tag (py_strip c))"
  shows "trial_loop fuel api max_steps user_prompt st = None"
  using assms
proof (induction fuel arbitrary: st)
  case 0
  then show ?case by simp
next
  case (Suc fuel)
  obtain c t where a: "api (Suc (t_num_steps st)) (t_current_prompt st) = Some (c, t)"
    and tags: "\<not> py_in answer_open (py_strip c)"
      "py_in summary_tag (py_strip c) \<or> py_in think_tag (py_strip c)"
    using Suc.prems by (fastforce split: option.splits)
  show ?case
    using Suc.IH [OF Suc.prems] a tags by (auto simp: request_llm_for_trans_def Let_def)
qed

text \<open>The outcome of the loop of test1 copy 2.py does not depend on max_steps: the step limit is dead code.\<close>

lemma trial_loop_max_steps_irrelevant:
  "trial_loop fuel api max_steps user_prompt st = trial_loop fuel api max_steps' user_prompt st"
  by (induction fuel arbitrary: st) (simp_all add: Let_def split: option.split prod.split)

theorem trial_loop_diverges_witness:
  "trial_loop 1000 (\<lambda>_ _. Some (''<think>step</think>'', 1)) 10 ''Q''
     \<lparr>t_num_steps = 0, t_tokennum = 0, t_total_tokens = 0, t_total_cost = 0,
      t_current_prompt = ''Q'', t_final_answer = None\<rparr> = None"
  by (rule trial_loop_diverges) (simp add: tag_defs py_strip_def is_py_space_def)

text \<open>test1 copy 2.py counts an answer correct when the correct answer occurs anywhere in the raw response: '12' and '21' are accepted for '1'.\<close>

theorem trial_correct_substring:
  "trial_correct (Some ''<answer>12</answer>'') ''1'' \<and>
   trial_correct (Some ''<answer>21</answer>'') ''1'' \<and>
   \<not> trial_correct None ''1''"
  by (simp add: trial_correct_def)

end
