(* ===== verification/Single.thy ===== *)
theory Single
  imports Aggregate
begin

text \<open>
  The single-shot evaluation of \<open>src/math/test3.py\<close>: one request per problem
  (\<open>request_llm\<close>), the regex extraction, the model judge, and the metrics of
  \<open>process_difficulty_level\<close> (lines 131--236), which estimates the compute of a
  problem as the square of its total tokens and evaluates only the problems 20 to 29
  of the file.
\<close>

section \<open>Data\<close>

datatype single_detail =
    Single_detail string "string option" string "bool option" int real real int
  | Single_error string py_error

record single_metrics =
  sg_difficulty :: nat
  sg_total_problems :: nat
  sg_total_tokens :: int
  sg_prompt_tokens :: int
  sg_completion_tokens :: int
  sg_total_cost :: real
  sg_total_latency :: real
  sg_correct_count :: nat
  sg_processed_problems :: nat
  sg_problem_details :: "single_detail list"
  sg_flops :: int

record single_averages =
  sg_accuracy :: real
  sg_avg_latency :: real
  sg_avg_tokens_per_problem :: real
  sg_avg_cost_per_problem :: real

section \<open>Operations\<close>

text \<open>\<open>request_llm\<close> (lines 78--103): one call, the content stripped.\<close>

definition request_llm :: "judge_api \<Rightarrow> sys_prompt \<Rightarrow> string \<Rightarrow> api_outcome" where
  "request_llm api system_prompt user_prompt =
     (case api system_prompt user_prompt of
        Api_ok content u lat \<Rightarrow> Api_ok (py_strip content) u lat
      | other \<Rightarrow> other)"

text \<open>
  \<open>evaluate_answers_ai\<close> of test3.py (lines 123--129): the judge prompt sent through
  \<open>request_llm\<close>, which strips the content; in the script the judge is the solver's own
  endpoint and model, the model keeps it a separate parameter.
\<close>

definition evaluate_answers_ai_single ::
  "judge_api \<Rightarrow> string \<Rightarrow> string option \<Rightarrow> string \<Rightarrow> bool option py_result" where
  "evaluate_answers_ai_single api problem answer1 answer2 =
     (let user_prompt = judge_prompt problem answer1 answer2
      in case request_llm api Eval_prompt user_prompt of
           Api_ok response u lat \<Rightarrow> Inr (judge_verdict response)
         | Api_request_error \<Rightarrow> Inl RequestError
         | Api_raised e \<Rightarrow> Inl e)"

text \<open>
  \<open>compare_answers\<close> of test3.py (lines 114--121), whose call is commented out: without
  the \<open>str()\<close> of process3.py, \<open>None.replace\<close> raises \<open>AttributeError\<close>.
\<close>

definition compare_answers_single :: "string option \<Rightarrow> string \<Rightarrow> bool py_result" where
  "compare_answers_single model_answer correct_answer =
     (case model_answer of
        None \<Rightarrow> Inl AttributeError
      | Some f \<Rightarrow> Inr (normalize_answer f = normalize_answer correct_answer))"

definition single_init :: "nat \<Rightarrow> nat \<Rightarrow> single_metrics" where
  "single_init d n =
     \<lparr>sg_difficulty = d, sg_total_problems = n, sg_total_tokens = 0, sg_prompt_tokens = 0,
      sg_completion_tokens = 0, sg_total_cost = 0, sg_total_latency = 0, sg_correct_count = 0,
      sg_processed_problems = 0, sg_problem_details = [], sg_flops = 0\<rparr>"

definition single_add_detail :: "single_metrics \<Rightarrow> single_detail \<Rightarrow> single_metrics" where
  "single_add_detail m d = m\<lparr>sg_problem_details := sg_problem_details m @ [d]\<rparr>"

text \<open>The body of \<open>for i, problem in enumerate(problems, 1)\<close> (lines 163--214).\<close>

definition single_process_problem ::
  "judge_api \<Rightarrow> judge_api \<Rightarrow> single_metrics \<Rightarrow> problem \<Rightarrow> single_metrics" where
  "single_process_problem api judge m p =
     (let user_prompt = problem_text p; correct_answer = problem_answer p
      in case request_llm api Single_prompt user_prompt of
           Api_request_error \<Rightarrow> single_add_detail m (Single_error user_prompt RequestError)
         | Api_raised e \<Rightarrow> single_add_detail m (Single_error user_prompt e)
         | Api_ok response_content u lat \<Rightarrow>
             (let cost = call_cost (prompt_tokens u) (completion_tokens u);
                  m1 = m\<lparr>sg_total_tokens := sg_total_tokens m + total_tokens u,
                         sg_prompt_tokens := sg_prompt_tokens m + prompt_tokens u,
                         sg_completion_tokens := sg_completion_tokens m + completion_tokens u,
                         sg_total_latency := sg_total_latency m + lat,
                         sg_processed_problems := Suc (sg_processed_problems m),
                         sg_flops := sg_flops m + total_tokens u ^ 2,
                         sg_total_cost := sg_total_cost m + cost\<rparr>;
                  final_answer = extract_final_answer_single response_content
              in case evaluate_answers_ai_single judge user_prompt final_answer correct_answer of
                   Inl e \<Rightarrow> single_add_detail m1 (Single_error user_prompt e)
                 | Inr is_correct \<Rightarrow>
                     single_add_detail
                       (m1\<lparr>sg_correct_count := sg_correct_count m1 + (if is_correct = Some True then 1 else 0)\<rparr>)
                       (Single_detail user_prompt final_answer correct_answer is_correct
                          (total_tokens u) lat cost (total_tokens u ^ 2))))"

fun single_process_problems ::
  "(nat \<Rightarrow> judge_api) \<Rightarrow> (nat \<Rightarrow> judge_api) \<Rightarrow> nat \<Rightarrow> single_metrics \<Rightarrow> problem list \<Rightarrow> single_metrics" where
  "single_process_problems apis judges i m [] = m"
| "single_process_problems apis judges i m (p # ps) =
     single_process_problems apis judges (Suc i) (single_process_problem (apis i) (judges i) m p) ps"

text \<open>Lines 217--226.\<close>

definition single_finalize :: "single_metrics \<Rightarrow> single_averages py_result" where
  "single_finalize m =
     (let n = real (sg_processed_problems m)
      in if 0 < sg_processed_problems m then
           py_bind (py_truediv (real (sg_correct_count m)) n) (\<lambda>acc.
           py_bind (py_truediv (sg_total_latency m) n) (\<lambda>lat.
           py_bind (py_truediv (real_of_int (sg_total_tokens m)) n) (\<lambda>tok.
           py_bind (py_truediv (sg_total_cost m) n) (\<lambda>cost.
             Inr \<lparr>sg_accuracy = acc * 100, sg_avg_latency = lat, sg_avg_tokens_per_problem = tok,
                  sg_avg_cost_per_problem = cost\<rparr>))))
         else Inr \<lparr>sg_accuracy = 0, sg_avg_latency = 0, sg_avg_tokens_per_problem = 0,
                   sg_avg_cost_per_problem = 0\<rparr>)"

text \<open>\<open>process_difficulty_level\<close>: \<open>problems = problems[20:30]\<close>.\<close>

definition process_difficulty_level_single ::
  "(nat \<Rightarrow> judge_api) \<Rightarrow> (nat \<Rightarrow> judge_api) \<Rightarrow> nat \<Rightarrow> problem list option \<Rightarrow>
   (single_metrics \<times> single_averages) option py_result" where
  "process_difficulty_level_single apis judges d problems_file =
     (case problems_file of
        None \<Rightarrow> Inr None
      | Some all_problems \<Rightarrow>
          (let problems = py_slice all_problems 20 30;
               m = single_process_problems apis judges 1 (single_init d (length problems)) problems
           in py_bind (single_finalize m) (\<lambda>a. Inr (Some (m, a)))))"

section \<open>The run summary of main\<close>

text \<open>\<open>main\<close> (lines 238--329): the levels 1 to 5, the missing ones skipped.\<close>

fun collect_levels_single ::
  "(nat \<Rightarrow> nat \<Rightarrow> judge_api) \<Rightarrow> (nat \<Rightarrow> nat \<Rightarrow> judge_api) \<Rightarrow> (nat \<Rightarrow> problem list option) \<Rightarrow> nat list \<Rightarrow>
   (single_metrics \<times> single_averages) list py_result" where
  "collect_levels_single apis judges data [] = Inr []"
| "collect_levels_single apis judges data (d # ds) =
     py_bind (process_difficulty_level_single (apis d) (judges d) d (data d)) (\<lambda>t.
     py_bind (collect_levels_single apis judges data ds) (\<lambda>ts.
       Inr (case t of None \<Rightarrow> ts | Some x \<Rightarrow> x # ts)))"

record single_summary =
  ss_total_problems :: nat
  ss_processed_problems :: nat
  ss_correct_answers :: nat
  ss_overall_accuracy :: real
  ss_total_tokens :: int
  ss_total_cost :: real
  ss_total_latency :: real
  ss_avg_latency_per_problem :: real
  ss_avg_cost_per_problem :: real
  ss_total_flops :: int

text \<open>The sums of lines 259--274 and the guarded quotients of lines 277--288.\<close>

definition single_summary_of :: "single_metrics list \<Rightarrow> single_summary py_result" where
  "single_summary_of levels =
     (let total_processed = sum_list (map sg_processed_problems levels);
          total_correct = sum_list (map sg_correct_count levels);
          total_cost = sum_list (map sg_total_cost levels);
          total_latency = sum_list (map sg_total_latency levels)
      in py_bind (per_problem total_processed (real total_correct)) (\<lambda>q.
         py_bind (per_problem total_processed total_latency) (\<lambda>lat.
         py_bind (per_problem total_processed total_cost) (\<lambda>cost.
           Inr \<lparr>ss_total_problems = sum_list (map sg_total_problems levels),
                ss_processed_problems = total_processed, ss_correct_answers = total_correct,
                ss_overall_accuracy = q * 100,
                ss_total_tokens = sum_list (map sg_total_tokens levels),
                ss_total_cost = total_cost, ss_total_latency = total_latency,
                ss_avg_latency_per_problem = lat, ss_avg_cost_per_problem = cost,
                ss_total_flops = sum_list (map sg_flops levels)\<rparr>))))"

definition run_main_single ::
  "(nat \<Rightarrow> nat \<Rightarrow> judge_api) \<Rightarrow> (nat \<Rightarrow> nat \<Rightarrow> judge_api) \<Rightarrow> (nat \<Rightarrow> problem list option) \<Rightarrow>
   ((single_metrics \<times> single_averages) list \<times> single_summary) py_result" where
  "run_main_single apis judges data =
     py_bind (collect_levels_single apis judges data [1, 2, 3, 4, 5]) (\<lambda>tiers.
     py_bind (single_summary_of (map fst tiers)) (\<lambda>s. Inr (tiers, s)))"

section \<open>Specification helpers\<close>

text \<open>The compute estimate and the tokens of a detail record (0 for an error record).\<close>

fun detail_flops :: "single_detail \<Rightarrow> int" where
  "detail_flops (Single_detail _ _ _ _ tok _ _ fl) = fl"
| "detail_flops (Single_error _ _) = 0"

fun detail_tokens :: "single_detail \<Rightarrow> int" where
  "detail_tokens (Single_detail _ _ _ _ tok _ _ fl) = tok"
| "detail_tokens (Single_error _ _) = 0"

definition single_inv :: "single_metrics \<Rightarrow> bool" where
  "single_inv m \<longleftrightarrow> sg_correct_count m \<le> sg_processed_problems m \<and>
     sg_processed_problems m \<le> length (sg_problem_details m) \<and>
     (\<forall>d \<in> set (sg_problem_details m). detail_flops d = detail_tokens d ^ 2)"

section \<open>Lemmas\<close>

text \<open>The judge of test3.py is that of process3.py: \<open>request_llm\<close> strips what
  \<open>evaluate_answers_ai\<close> of process3.py strips itself.\<close>

lemma evaluate_answers_ai_single_eq [simp]: "evaluate_answers_ai_single = evaluate_answers_ai"
proof (intro ext)
  fix api problem answer1 answer2
  show "evaluate_answers_ai_single api problem answer1 answer2 = evaluate_answers_ai api problem answer1 answer2"
    by (cases "api Eval_prompt (judge_prompt problem answer1 answer2)")
       (simp_all add: evaluate_answers_ai_single_def evaluate_answers_ai_def request_llm_def)
qed

lemma compare_answers_single_Some:
  "compare_answers_single (Some f) c = Inr (compare_answers (Some f) (Some c))"
  by (simp add: compare_answers_single_def compare_answers_def)


lemma single_process_problem_inv:
  assumes "single_inv m"
  shows "single_inv (single_process_problem api judge m p) \<and>
    length (sg_problem_details (single_process_problem api judge m p)) = Suc (length (sg_problem_details m)) \<and>
    sg_total_problems (single_process_problem api judge m p) = sg_total_problems m"
  using assms
  by (auto simp: single_process_problem_def Let_def single_add_detail_def single_inv_def
      split: api_outcome.splits sum.splits)

lemma single_process_problems_inv:
  "single_inv m \<Longrightarrow> single_inv (single_process_problems apis judges i m ps) \<and>
    length (sg_problem_details (single_process_problems apis judges i m ps)) =
      length (sg_problem_details m) + length ps \<and>
    sg_total_problems (single_process_problems apis judges i m ps) = sg_total_problems m"
proof (induction ps arbitrary: i m)
  case Nil
  then show ?case by simp
next
  case (Cons p ps)
  from single_process_problem_inv [OF Cons.prems, of "apis i" "judges i" p]
  have step: "single_inv (single_process_problem (apis i) (judges i) m p)" by blast
  with Cons.IH [OF step, of "Suc i"] single_process_problem_inv [OF Cons.prems, of "apis i" "judges i" p]
  show ?case by simp
qed

lemma single_finalize_accuracy:
  "sg_correct_count m \<le> sg_processed_problems m \<Longrightarrow>
   \<exists>a. single_finalize m = Inr a \<and> 0 \<le> sg_accuracy a \<and> sg_accuracy a \<le> 100"
  using percent_bounds [of "sg_correct_count m" "sg_processed_problems m"]
  by (auto simp: single_finalize_def Let_def)

lemma single_level_facts:
  "\<exists>m a. process_difficulty_level_single apis judges d (Some ps) = Inr (Some (m, a)) \<and>
     single_inv m \<and> length (sg_problem_details m) = length (py_slice ps 20 30) \<and>
     sg_total_problems m = length (py_slice ps 20 30) \<and> 0 \<le> sg_accuracy a \<and> sg_accuracy a \<le> 100"
proof -
  let ?ps = "py_slice ps 20 30"
  let ?m = "single_process_problems apis judges 1 (single_init d (length ?ps)) ?ps"
  have init: "single_inv (single_init d n)" for n by (simp add: single_inv_def single_init_def)
  from single_process_problems_inv [OF init]
  have inv: "single_inv ?m" and len: "length (sg_problem_details ?m) = length ?ps"
    and tot: "sg_total_problems ?m = length ?ps"
    by (simp_all add: single_init_def)
  from inv have cnt: "sg_correct_count ?m \<le> sg_processed_problems ?m" by (simp add: single_inv_def)
  obtain a where fin: "single_finalize ?m = Inr a" and acc: "0 \<le> sg_accuracy a \<and> sg_accuracy a \<le> 100"
    using single_finalize_accuracy [OF cnt] by blast
  have "process_difficulty_level_single apis judges d (Some ps) = Inr (Some (?m, a))"
    using fin by (simp add: process_difficulty_level_single_def Let_def)
  with inv len tot acc show ?thesis by blast
qed

lemma collect_levels_single_inv:
  "\<exists>ts. collect_levels_single apis judges data ds = Inr ts \<and>
     (\<forall>t \<in> set ts. sg_correct_count (fst t) \<le> sg_processed_problems (fst t))"
proof (induction ds)
  case (Cons d ds)
  then obtain ts where ts: "collect_levels_single apis judges data ds = Inr ts"
    and inv: "\<forall>t \<in> set ts. sg_correct_count (fst t) \<le> sg_processed_problems (fst t)" by blast
  show ?case
  proof (cases "data d")
    case None
    with ts inv show ?thesis by (simp add: process_difficulty_level_single_def)
  next
    case (Some ps)
    obtain m a where lvl: "process_difficulty_level_single (apis d) (judges d) d (Some ps) = Inr (Some (m, a))"
      and "single_inv m" using single_level_facts by blast
    then have "sg_correct_count m \<le> sg_processed_problems m" by (simp add: single_inv_def)
    with lvl Some ts inv show ?thesis by simp
  qed
qed simp

text \<open>The summary of \<open>main\<close> never raises and reports an accuracy within \<open>[0, 100]\<close>.\<close>

lemma run_main_single_summary:
  "\<exists>tiers s. run_main_single apis judges data = Inr (tiers, s) \<and>
     ss_correct_answers s \<le> ss_processed_problems s \<and>
     0 \<le> ss_overall_accuracy s \<and> ss_overall_accuracy s \<le> 100"
proof -
  obtain ts where ts: "collect_levels_single apis judges data [1, 2, 3, 4, 5] = Inr ts"
    and inv: "\<forall>t \<in> set ts. sg_correct_count (fst t) \<le> sg_processed_problems (fst t)"
    using collect_levels_single_inv by blast
  let ?ls = "map fst ts"
  have le: "sum_list (map sg_correct_count ?ls) \<le> sum_list (map sg_processed_problems ?ls)"
    using inv by (simp add: sum_list_mono_nat)
  obtain q where q: "per_problem (sum_list (map sg_processed_problems ?ls)) (real (sum_list (map sg_correct_count ?ls))) = Inr q"
    and qb: "0 \<le> q * 100 \<and> q * 100 \<le> 100"
    using per_problem_percent [OF le] by blast
  obtain lat where lat: "per_problem (sum_list (map sg_processed_problems ?ls)) (sum_list (map sg_total_latency ?ls)) = Inr lat"
    using per_problem_Inr by blast
  obtain cost where cost: "per_problem (sum_list (map sg_processed_problems ?ls)) (sum_list (map sg_total_cost ?ls)) = Inr cost"
    using per_problem_Inr by blast
  from ts q qb lat cost le show ?thesis
    by (simp add: run_main_single_def single_summary_of_def Let_def)
qed

section \<open>Properties\<close>

text \<open>C35: test3.py's process_difficulty_level evaluates only the problems 20 to 29 of the file, returns one detail record for each, keeps correct_count <= processed_problems <= total_problems, records flops = tokens^2 in every detail, and reports an accuracy between 0 and 100.\<close>

theorem single_level_consistent:
  "\<exists>m a. process_difficulty_level_single apis judges d (Some ps) = Inr (Some (m, a)) \<and>
     sg_total_problems m = min 10 (length ps - 20) \<and>
     length (sg_problem_details m) = sg_total_problems m \<and>
     sg_correct_count m \<le> sg_processed_problems m \<and> sg_processed_problems m \<le> sg_total_problems m \<and>
     (\<forall>d \<in> set (sg_problem_details m). detail_flops d = detail_tokens d ^ 2) \<and>
     0 \<le> sg_accuracy a \<and> sg_accuracy a \<le> 100"
proof -
  obtain m a where lvl: "process_difficulty_level_single apis judges d (Some ps) = Inr (Some (m, a))"
    and facts: "single_inv m" "length (sg_problem_details m) = length (py_slice ps 20 30)"
      "sg_total_problems m = length (py_slice ps 20 30)" "0 \<le> sg_accuracy a \<and> sg_accuracy a \<le> 100"
    using single_level_facts by blast
  from facts show ?thesis unfolding single_inv_def
    by (intro exI [of _ m] exI [of _ a]) (auto simp: lvl)
qed

theorem single_level_consistent_witness:
  "\<exists>m a. process_difficulty_level_single
      (\<lambda>_ _ _. Api_ok ''<answer>7</answer>'' \<lparr>prompt_tokens = 10, completion_tokens = 5, total_tokens = 15\<rparr> 1)
      (\<lambda>_ _ _. Api_ok ''[[YES]]'' \<lparr>prompt_tokens = 1, completion_tokens = 1, total_tokens = 2\<rparr> 1)
      5 (Some (replicate 21 \<lparr>problem_text = ''Q'', problem_answer = ''7''\<rparr>)) = Inr (Some (m, a)) \<and>
     sg_total_problems m = min 10 (length (replicate 21 \<lparr>problem_text = ''Q'', problem_answer = ''7''\<rparr>) - 20) \<and>
     length (sg_problem_details m) = sg_total_problems m \<and>
     sg_correct_count m \<le> sg_processed_problems m \<and> sg_processed_problems m \<le> sg_total_problems m \<and>
     (\<forall>d \<in> set (sg_problem_details m). detail_flops d = detail_tokens d ^ 2) \<and>
     0 \<le> sg_accuracy a \<and> sg_accuracy a \<le> 100"
  by (rule single_level_consistent)

text \<open>On a file of 21 problems, test3.py evaluates only the 21st; a model answering <answer>7</answer> with 15 tokens and a judge saying [[YES]] give 1 processed, 1 correct, flops 225 and accuracy 100.\<close>

theorem single_spec_example:
  "\<exists>m a. process_difficulty_level_single
      (\<lambda>_ _ _. Api_ok ''<answer>7</answer>'' \<lparr>prompt_tokens = 10, completion_tokens = 5, total_tokens = 15\<rparr> 1)
      (\<lambda>_ _ _. Api_ok ''[[YES]]'' \<lparr>prompt_tokens = 1, completion_tokens = 1, total_tokens = 2\<rparr> 1)
      5 (Some (replicate 21 \<lparr>problem_text = ''Q'', problem_answer = ''7''\<rparr>)) = Inr (Some (m, a)) \<and>
    sg_total_problems m = 1 \<and> sg_processed_problems m = 1 \<and> sg_correct_count m = 1 \<and>
    sg_flops m = 225 \<and> sg_total_tokens m = 15 \<and> sg_accuracy a = 100"
proof -
  have ans: "extract_final_answer_single ''<answer>7</answer>'' = Some ''7''" by code_simp
  have v: "judge_verdict ''[[YES]]'' = Some True" by code_simp
  have sl: "py_slice (replicate 21 \<lparr>problem_text = ''Q'', problem_answer = ''7''\<rparr>) 20 30 =
      [\<lparr>problem_text = ''Q'', problem_answer = ''7''\<rparr>]"
    by (simp add: py_slice_def numeral_eq_Suc)
  show ?thesis
    by (simp add: process_difficulty_level_single_def sl single_process_problem_def request_llm_def
        evaluate_answers_ai_def single_add_detail_def single_init_def single_finalize_def
        ans v py_strip_def is_py_space_def Let_def)
qed

end
