(* ===== verification/Analysis.thy ===== *)
theory Analysis
  imports Aggregate "HOL-Library.Multiset"
begin

text \<open>
  The analysis scripts that read the result files back: \<open>process_iteration_steps\<close> of
  \<open>src/getdata.py\<close> (the iteration counts of the correctly answered problems, the input
  of the histogram), \<open>process_completion_tokens\<close> of
  \<open>src/completion_tokens_analysis.py\<close> (the completion tokens of selected iterations of
  correctly answered problems) and \<open>find_max_problem\<close> of
  \<open>src/math/find_max_problem.py\<close>.  A result file is the dump of the level metrics of
  \<open>Aggregate\<close> (\<open>difficulty_results\<close>), or the older flat format with
  \<open>problem_details\<close> at the root; \<open>problem.get('is_correct', False)\<close> is true only for
  \<open>Some True\<close>, and an error record has neither \<open>iterations\<close> nor
  \<open>iteration_details\<close>.
\<close>

section \<open>Result files\<close>

datatype result_data =
    Difficulty_results "tier_metrics list"
  | Flat_details "problem_detail list"
  | Unrecognised

section \<open>Iteration steps (src/getdata.py)\<close>

fun detail_iteration_steps :: "problem_detail \<Rightarrow> nat list" where
  "detail_iteration_steps (Detail _ _ _ is_correct r) =
     (if is_correct = Some True then [res_iterations r] else [])"
| "detail_iteration_steps (Detail_error _ _) = []"

definition process_iteration_steps :: "result_data \<Rightarrow> nat list" where
  "process_iteration_steps data =
     (case data of
        Difficulty_results levels \<Rightarrow>
          concat (map (\<lambda>m. concat (map detail_iteration_steps (m_problem_details m))) levels)
      | Flat_details problems \<Rightarrow> concat (map detail_iteration_steps problems)
      | Unrecognised \<Rightarrow> [])"

section \<open>Completion tokens (src/completion_tokens_analysis.py)\<close>

text \<open>The filter on \<open>response_type\<close>: none excludes \<open>'answer'\<close>, a name keeps only it.\<close>

definition selected_by :: "string option \<Rightarrow> iteration_info \<Rightarrow> bool" where
  "selected_by response_type_filter it =
     (case response_type_filter of
        None \<Rightarrow> response_type_name (info_response_type it) \<noteq> ''answer''
      | Some f \<Rightarrow> response_type_name (info_response_type it) = f)"

fun detail_completion_tokens :: "string option \<Rightarrow> problem_detail \<Rightarrow> int list" where
  "detail_completion_tokens f (Detail _ _ _ is_correct r) =
     (if is_correct = Some True
      then map info_completion_tokens (filter (selected_by f) (res_details r)) else [])"
| "detail_completion_tokens f (Detail_error _ _) = []"

definition process_completion_tokens :: "result_data \<Rightarrow> string option \<Rightarrow> int list" where
  "process_completion_tokens data response_type_filter =
     (case data of
        Difficulty_results levels \<Rightarrow>
          concat (map (\<lambda>m. concat (map (detail_completion_tokens response_type_filter)
                                        (m_problem_details m))) levels)
      | Flat_details problems \<Rightarrow> concat (map (detail_completion_tokens response_type_filter) problems)
      | Unrecognised \<Rightarrow> [])"

section \<open>The hardest problem (src/math/find_max_problem.py)\<close>

text \<open>One pass of the loop: the strict \<open>>\<close> keeps the first maximum.\<close>

definition find_max_step ::
  "(int \<times> problem_detail option) \<times> (int \<times> problem_detail option) \<Rightarrow> problem_detail \<Rightarrow>
   (int \<times> problem_detail option) \<times> (int \<times> problem_detail option)" where
  "find_max_step acc problem =
     (case (acc, problem) of
        (((max_iterations, max_iterations_problem), (max_total_tokens, max_total_tokens_problem)), Detail _ _ _ is_correct r) \<Rightarrow>
          (if is_correct = Some True then
             ((if int (res_iterations r) > max_iterations then (int (res_iterations r), Some problem)
               else (max_iterations, max_iterations_problem)),
              (if total_tokens (res_usage r) > max_total_tokens
               then (total_tokens (res_usage r), Some problem) else (max_total_tokens, max_total_tokens_problem)))
           else acc)
      | _ \<Rightarrow> acc)"

text \<open>\<open>data["difficulty_results"]["difficulty_5"]\<close> raises \<open>KeyError\<close> when absent.\<close>

definition find_max_problem ::
  "tier_metrics option \<Rightarrow> (problem_detail option \<times> problem_detail option) py_result" where
  "find_max_problem difficulty_5 =
     (case difficulty_5 of
        None \<Rightarrow> Inl KeyError
      | Some m \<Rightarrow>
          (let ((_, max_iterations_problem), (_, max_total_tokens_problem)) =
                 foldl find_max_step ((-1, None), (-1, None)) (m_problem_details m)
           in Inr (max_iterations_problem, max_total_tokens_problem)))"

section \<open>Specification helpers\<close>

definition detail_correct :: "problem_detail \<Rightarrow> bool" where
  "detail_correct d = (case d of Detail _ _ _ is_correct _ \<Rightarrow> is_correct = Some True | _ \<Rightarrow> False)"

fun detail_iterations :: "problem_detail \<Rightarrow> nat" where
  "detail_iterations (Detail _ _ _ _ r) = res_iterations r"
| "detail_iterations (Detail_error _ _) = 0"

text \<open>Every completion token of a correctly answered problem, whatever its type.\<close>

definition correct_completion_tokens :: "result_data \<Rightarrow> int list" where
  "correct_completion_tokens data =
     (let tokens = (\<lambda>d. case d of Detail _ _ _ is_correct r \<Rightarrow>
                          if is_correct = Some True then map info_completion_tokens (res_details r) else []
                        | _ \<Rightarrow> [])
      in case data of
           Difficulty_results levels \<Rightarrow> concat (map (\<lambda>m. concat (map tokens (m_problem_details m))) levels)
         | Flat_details problems \<Rightarrow> concat (map tokens problems)
         | Unrecognised \<Rightarrow> [])"

section \<open>Lemmas\<close>

lemma mset_map_filter_split:
  "mset (map f (filter P xs)) + mset (map f (filter (\<lambda>x. \<not> P x) xs)) = mset (map f xs)"
  by (induction xs) (simp_all add: add_mset_commute)

lemma mset_concat_map_split:
  assumes "\<And>x. mset (f x) + mset (g x) = mset (h x)"
  shows "mset (concat (map f xs)) + mset (concat (map g xs)) = mset (concat (map h xs))"
proof (induction xs)
  case Nil
  then show ?case by simp
next
  case (Cons x xs)
  have "mset (f x @ concat (map f xs)) + mset (g x @ concat (map g xs)) =
      (mset (f x) + mset (g x)) + (mset (concat (map f xs)) + mset (concat (map g xs)))"
    by (simp add: ac_simps)
  with Cons assms show ?case by simp
qed

lemma detail_completion_tokens_split:
  "mset (detail_completion_tokens None d) + mset (detail_completion_tokens (Some ''answer'') d) =
   mset (case d of Detail _ _ _ is_correct r \<Rightarrow>
           if is_correct = Some True then map info_completion_tokens (res_details r) else []
         | _ \<Rightarrow> [])"
proof (cases d)
  case (Detail q a c is_correct r)
  have "selected_by (Some ''answer'') = (\<lambda>it. \<not> selected_by None it)"
    by (simp add: selected_by_def fun_eq_iff)
  then show ?thesis
    using Detail mset_map_filter_split [of info_completion_tokens "selected_by None" "res_details r"]
    by simp
qed simp

lemma solve_default_iterations:
  assumes "solve_default api q = Inr r"
  shows "1 \<le> res_iterations r \<and> res_iterations r \<le> 22"
proof -
  obtain ans st where run: "solve_loop api (Agent_prompt 623 142 623 50) q 0 (nat 22) solve_init = Inr (ans, st)"
    and r: "r = make_result ans st"
    using assms unfolding solve_default_def by (rule solve_problem_with_agents_Inr)
  from solve_loop_inv [OF run solve_inv_init] have
    "iterations_count st \<le> 22 \<and> (ans = None \<longrightarrow> iterations_count st = 22) \<and>
     (ans \<noteq> None \<longrightarrow> 0 < iterations_count st)"
    by (simp add: solve_init_def)
  with r show ?thesis by (cases ans) (simp_all add: make_result_def Let_def)
qed

lemma process_problem_steps:
  "set (concat (map detail_iteration_steps (m_problem_details (process_problem api judge m p)))) \<subseteq>
   set (concat (map detail_iteration_steps (m_problem_details m))) \<union> {1..22}"
  by (auto simp: process_problem_def Let_def add_detail_def add_solve_result_def
      dest: solve_default_iterations split: sum.splits if_splits)

lemma process_problems_steps:
  "set (concat (map detail_iteration_steps (m_problem_details (process_problems apis judges i m ps)))) \<subseteq>
   set (concat (map detail_iteration_steps (m_problem_details m))) \<union> {1..22}"
proof (induction ps arbitrary: i m)
  case Nil
  then show ?case by simp
next
  case (Cons p ps)
  from Cons.IH [of "Suc i" "process_problem (apis i) (judges i) m p"]
    process_problem_steps [of "apis i" "judges i" m p]
  show ?case by auto
qed

lemma collect_levels_steps:
  "collect_levels apis judges data ds = Inr ts \<Longrightarrow>
   \<forall>t \<in> set ts. set (concat (map detail_iteration_steps (m_problem_details (fst t)))) \<subseteq> {1..22}"
proof (induction ds arbitrary: ts)
  case Nil
  then show ?case by simp
next
  case (Cons d ds)
  show ?case
  proof (cases "data d")
    case None
    with Cons show ?thesis by (auto simp: process_difficulty_level_def py_bind_def split: sum.splits)
  next
    case (Some ps)
    obtain m a where lvl: "process_difficulty_level (apis d) (judges d) d (Some ps) = Inr (Some (m, a))"
      and m: "m = process_problems (apis d) (judges d) 1 (tier_init d (length ps)) ps"
      using process_difficulty_level_Some by blast
    have m_ok: "set (concat (map detail_iteration_steps (m_problem_details m))) \<subseteq> {1..22}"
      using process_problems_steps [of "apis d" "judges d" 1 "tier_init d (length ps)" ps]
      by (simp add: m tier_init_def)
    from Cons.prems lvl Some obtain ts' where ts': "collect_levels apis judges data ds = Inr ts'"
      and ts: "ts = (m, a) # ts'"
      by (auto simp: py_bind_def split: sum.splits)
    from Cons.IH [OF ts'] m_ok show ?thesis by (simp add: ts)
  qed
qed

lemma run_main_Inr: "\<exists>tiers s. run_main apis judges data levels = Inr (tiers, s)"
proof -
  obtain ts where "collect_levels apis judges data levels = Inr ts"
    using collect_levels_inv by blast
  moreover obtain s' where "summary_finalize (foldl (\<lambda>s t. summary_add s (fst t)) summary_init ts) = Inr s'"
    using summary_finalize_Inr by blast
  ultimately show ?thesis by (simp add: run_main_def)
qed

lemma find_max_step_Detail:
  "find_max_step ((mi, mp), (mt, mq)) (Detail q a c is_correct r) =
     (if is_correct = Some True then
        ((if int (res_iterations r) > mi then (int (res_iterations r), Some (Detail q a c is_correct r))
          else (mi, mp)),
         (if total_tokens (res_usage r) > mt then (total_tokens (res_usage r), Some (Detail q a c is_correct r))
          else (mt, mq)))
      else ((mi, mp), (mt, mq)))"
  by (simp add: find_max_step_def)

lemma find_max_step_error: "find_max_step acc (Detail_error q e) = acc"
  by (simp add: find_max_step_def split: prod.split)

lemma find_max_fold:
  "(case snd (fst (foldl find_max_step ((-1, None), (-1, None)) xs)) of
      None \<Rightarrow> fst (fst (foldl find_max_step ((-1, None), (-1, None)) xs)) = -1 \<and>
             (\<forall>d \<in> set xs. \<not> detail_correct d)
    | Some d \<Rightarrow> d \<in> set xs \<and> detail_correct d \<and>
             fst (fst (foldl find_max_step ((-1, None), (-1, None)) xs)) = int (detail_iterations d) \<and>
             (\<forall>d' \<in> set xs. detail_correct d' \<longrightarrow> detail_iterations d' \<le> detail_iterations d))"
proof (induction xs rule: rev_induct)
  case Nil
  then show ?case by simp
next
  case (snoc x xs)
  obtain mi mp mt mq where acc: "foldl find_max_step ((-1, None), (-1, None)) xs = ((mi, mp), (mt, mq))"
    by (metis prod.exhaust)
  have last: "foldl find_max_step ((-1, None), (-1, None)) (xs @ [x]) = find_max_step ((mi, mp), (mt, mq)) x"
    by (simp add: acc)
  from snoc.IH [unfolded acc] have ih:
    "case mp of None \<Rightarrow> mi = -1 \<and> (\<forall>d \<in> set xs. \<not> detail_correct d)
     | Some d \<Rightarrow> d \<in> set xs \<and> detail_correct d \<and> mi = int (detail_iterations d) \<and>
         (\<forall>d' \<in> set xs. detail_correct d' \<longrightarrow> detail_iterations d' \<le> detail_iterations d)"
    by (cases mp) simp_all
  show ?case
  proof (cases x)
    case (Detail q a c is_correct r)
    with ih show ?thesis
      unfolding last by (cases mp) (auto simp: find_max_step_Detail detail_correct_def)
  next
    case (Detail_error q e)
    with ih show ?thesis
      unfolding last by (cases mp) (auto simp: find_max_step_error detail_correct_def)
  qed
qed

section \<open>Properties\<close>

text \<open>C26: The completion tokens selected by process_completion_tokens with the default filter and with the filter 'answer' together are, as a multiset, exactly the completion tokens of all iterations of the correctly answered problems.\<close>

theorem completion_tokens_partition:
  "mset (process_completion_tokens data None) + mset (process_completion_tokens data (Some ''answer'')) =
   mset (correct_completion_tokens data)"
proof (cases data)
  case (Difficulty_results levels)
  have "mset (concat (map (detail_completion_tokens None) ds)) +
        mset (concat (map (detail_completion_tokens (Some ''answer'')) ds)) =
        mset (concat (map (\<lambda>d. case d of Detail _ _ _ is_correct r \<Rightarrow>
                   if is_correct = Some True then map info_completion_tokens (res_details r) else []
                 | _ \<Rightarrow> []) ds))" for ds
    by (rule mset_concat_map_split [OF detail_completion_tokens_split])
  then show ?thesis
    using Difficulty_results
    by (simp add: process_completion_tokens_def correct_completion_tokens_def mset_concat_map_split)
next
  case (Flat_details problems)
  then show ?thesis
    by (simp add: process_completion_tokens_def correct_completion_tokens_def
        mset_concat_map_split [OF detail_completion_tokens_split])
qed (simp add: process_completion_tokens_def correct_completion_tokens_def)

text \<open>C25: Every iteration count that process_iteration_steps of src/getdata.py reads from the results of main lies between 1 and 22, the driver's max_iterations.\<close>

theorem iteration_steps_bounded:
  assumes "run_main apis judges data levels = Inr (tiers, s)"
  shows "\<forall>x \<in> set (process_iteration_steps (Difficulty_results (map fst tiers))). 1 \<le> x \<and> x \<le> 22"
proof -
  from assms obtain ts where "collect_levels apis judges data levels = Inr ts" and "tiers = ts"
    by (auto simp: run_main_def py_bind_def split: sum.splits)
  then have "\<forall>t \<in> set tiers. set (concat (map detail_iteration_steps (m_problem_details (fst t)))) \<subseteq> {1..22}"
    using collect_levels_steps by blast
  then show ?thesis by (fastforce simp: process_iteration_steps_def)
qed

theorem iteration_steps_bounded_witness:
  "\<exists>tiers s. run_main (\<lambda>_ _ _ _ _. Api_request_error) (\<lambda>_ _ _ _. Api_request_error)
      (\<lambda>_. Some [\<lparr>problem_text = ''Q'', problem_answer = ''7''\<rparr>]) [5] = Inr (tiers, s) \<and>
    (\<forall>x \<in> set (process_iteration_steps (Difficulty_results (map fst tiers))). 1 \<le> x \<and> x \<le> 22)"
proof -
  obtain tiers s where run: "run_main (\<lambda>_ _ _ _ _. Api_request_error) (\<lambda>_ _ _ _. Api_request_error)
      (\<lambda>_. Some [\<lparr>problem_text = ''Q'', problem_answer = ''7''\<rparr>]) [5] = Inr (tiers, s)"
    using run_main_Inr by blast
  show ?thesis by (rule exI [of _ tiers], rule exI [of _ s], rule conjI [OF run iteration_steps_bounded [OF run]])
qed

text \<open>C27: find_max_problem returns no problem exactly when no problem is correct, and otherwise a correct problem of the level whose iteration count is maximal among the correct ones.\<close>

theorem find_max_problem_argmax:
  "\<exists>x t. find_max_problem (Some m) = Inr (x, t) \<and>
     (case x of
        None \<Rightarrow> (\<forall>d \<in> set (m_problem_details m). \<not> detail_correct d)
      | Some d \<Rightarrow> d \<in> set (m_problem_details m) \<and> detail_correct d \<and>
          (\<forall>d' \<in> set (m_problem_details m). detail_correct d' \<longrightarrow> detail_iterations d' \<le> detail_iterations d))"
proof -
  obtain mi mp mt mq where acc:
    "foldl find_max_step ((-1, None), (-1, None)) (m_problem_details m) = ((mi, mp), (mt, mq))"
    by (metis prod.exhaust)
  from find_max_fold [of "m_problem_details m", unfolded acc] show ?thesis
    by (cases mp) (simp_all add: find_max_problem_def acc)
qed

theorem find_max_problem_argmax_witness:
  "\<exists>x t. find_max_problem (Some ((tier_init 5 2)\<lparr>m_problem_details :=
       [Detail ''Q1'' (Some ''7'') ''7'' (Some True) (make_result (Some ''7'') solve_init),
        Detail_error ''Q2'' RequestError]\<rparr>)) = Inr (x, t) \<and>
     (case x of
        None \<Rightarrow> (\<forall>d \<in> set (m_problem_details ((tier_init 5 2)\<lparr>m_problem_details :=
       [Detail ''Q1'' (Some ''7'') ''7'' (Some True) (make_result (Some ''7'') solve_init),
        Detail_error ''Q2'' RequestError]\<rparr>)). \<not> detail_correct d)
      | Some d \<Rightarrow> d \<in> set (m_problem_details ((tier_init 5 2)\<lparr>m_problem_details :=
       [Detail ''Q1'' (Some ''7'') ''7'' (Some True) (make_result (Some ''7'') solve_init),
        Detail_error ''Q2'' RequestError]\<rparr>)) \<and> detail_correct d \<and>
          (\<forall>d' \<in> set (m_problem_details ((tier_init 5 2)\<lparr>m_problem_details :=
       [Detail ''Q1'' (Some ''7'') ''7'' (Some True) (make_result (Some ''7'') solve_init),
        Detail_error ''Q2'' RequestError]\<rparr>)). detail_correct d' \<longrightarrow> detail_iterations d' \<le> detail_iterations d))"
  by (rule find_max_problem_argmax)

text \<open>C28: An answering response that also carries a <think> or <summary> tag ends the loop with its answer, but its iteration record is not of type answer: the filters of process_completion_tokens select the answering call among the non-answer calls and never among the 'answer' calls.\<close>

theorem answer_call_counted_as_thinking:
  assumes "get_response api i sp (get_user_prompt question (last_response st)) = Api_ok response u lat"
    and "py_in answer_open response"
    and "py_in think_tag response \<or> py_in summary_tag response"
    and "answer_of_response response = Inr a"
  shows "\<exists>st' info. solve_iteration api sp question i st = Inr (Finished a st') \<and>
    iteration_details st' = iteration_details st @ [info] \<and>
    info_completion_tokens info = completion_tokens u \<and>
    info_response_type info \<noteq> Answer \<and> selected_by None info \<and> \<not> selected_by (Some ''answer'') info"
proof -
  have c: "classify_response response \<noteq> Answer"
    using assms(3) by (auto simp: classify_response_def)
  then have "response_type_name (classify_response response) \<noteq> ''answer''"
    by (cases "classify_response response") simp_all
  with c show ?thesis
    using assms(1,2,4) by (simp add: solve_iteration_def Let_def py_bind_def selected_by_def)
qed

theorem answer_call_counted_as_thinking_witness:
  "\<exists>st' info. solve_iteration
      (\<lambda>_ _ _. Api_ok ''<think>t</think><answer>7</answer>'' \<lparr>prompt_tokens = 10, completion_tokens = 5, total_tokens = 15\<rparr> 1)
      (generate_prompt 200 50 50) ''Q'' 0 solve_init = Inr (Finished ''7'' st') \<and>
    iteration_details st' = iteration_details solve_init @ [info] \<and>
    info_completion_tokens info = 5 \<and>
    info_response_type info \<noteq> Answer \<and> selected_by None info \<and> \<not> selected_by (Some ''answer'') info"
proof -
  have s: "py_strip ''<think>t</think><answer>7</answer>'' = ''<think>t</think><answer>7</answer>''" by code_simp
  have o: "py_in answer_open ''<think>t</think><answer>7</answer>''" by code_simp
  have t: "py_in think_tag ''<think>t</think><answer>7</answer>'' \<or> py_in summary_tag ''<think>t</think><answer>7</answer>''" by code_simp
  have a: "answer_of_response ''<think>t</think><answer>7</answer>'' = Inr ''7''" by code_simp
  show ?thesis
    using answer_call_counted_as_thinking [of
      "\<lambda>_ _ _. Api_ok ''<think>t</think><answer>7</answer>'' \<lparr>prompt_tokens = 10, completion_tokens = 5, total_tokens = 15\<rparr> 1"
      0 "generate_prompt 200 50 50" "''Q''" solve_init "''<think>t</think><answer>7</answer>''"
      "\<lparr>prompt_tokens = 10, completion_tokens = 5, total_tokens = 15\<rparr>" 1 "''7''"]
      s o t a by (simp add: get_response_def)
qed
text \<open>The response_type strings of the JSON records encode the four response types one to one, so the string filters of completion_tokens_analysis.py select exactly the iterations of one type, and the default filter exactly those not of type answer.\<close>

theorem response_type_encoding:
  "bij_betw response_type_name UNIV {''thinking'', ''summary'', ''answer'', ''other''} \<and>
   (\<forall>t it. selected_by (Some (response_type_name t)) it \<longleftrightarrow> info_response_type it = t) \<and>
   (\<forall>it. selected_by None it \<longleftrightarrow> info_response_type it \<noteq> Answer)"
proof (intro conjI allI)
  show "bij_betw response_type_name UNIV {''thinking'', ''summary'', ''answer'', ''other''}"
    by (auto simp: bij_betw_def inj_def UNIV_response_type)
  show "selected_by (Some (response_type_name t)) it \<longleftrightarrow> info_response_type it = t" for t it
    by (auto simp: selected_by_def)
  show "selected_by None it \<longleftrightarrow> info_response_type it \<noteq> Answer" for it
    by (cases "info_response_type it") (simp_all add: selected_by_def)
qed

end
