(* ===== verification/LegacyLevel.thy ===== *)
theory LegacyLevel
  imports Legacy Aggregate
begin

text \<open>
  \<open>process_difficulty_level\<close> of \<open>src/math/process.py\<close> (lines 164--262): the first
  ten problems of the file, solved by the older driver of \<open>Legacy\<close> and judged by the
  containment comparator \<open>compare_answers_contains\<close> of \<open>Comparator\<close>.
\<close>

section \<open>Data\<close>

datatype legacy_detail =
    Legacy_detail string "string option" string bool usage real real
  | Legacy_error string py_error

record legacy_metrics =
  lg_difficulty :: nat
  lg_total_problems :: nat
  lg_total_tokens :: int
  lg_prompt_tokens :: int
  lg_completion_tokens :: int
  lg_total_cost :: real
  lg_total_latency :: real
  lg_correct_count :: nat
  lg_processed_problems :: nat
  lg_problem_details :: "legacy_detail list"

record legacy_averages =
  lg_accuracy :: real
  lg_avg_latency :: real
  lg_avg_tokens_per_problem :: real
  lg_avg_cost_per_problem :: real

section \<open>Operations\<close>

text \<open>\<open>solve_problem_with_agents(user_prompt)\<close> with its defaults 50, 200, 50, 50.\<close>

definition solve_legacy_default :: "llm \<Rightarrow> string \<Rightarrow> (string option \<times> usage \<times> real \<times> real) py_result" where
  "solve_legacy_default api question = solve_problem_with_agents_legacy api question 50 200 50 50"

definition legacy_level_init :: "nat \<Rightarrow> nat \<Rightarrow> legacy_metrics" where
  "legacy_level_init d n =
     \<lparr>lg_difficulty = d, lg_total_problems = n, lg_total_tokens = 0, lg_prompt_tokens = 0,
      lg_completion_tokens = 0, lg_total_cost = 0, lg_total_latency = 0, lg_correct_count = 0,
      lg_processed_problems = 0, lg_problem_details = []\<rparr>"

text \<open>The body of the \<open>for\<close> loop (lines 195--241).\<close>

definition legacy_process_problem :: "llm \<Rightarrow> legacy_metrics \<Rightarrow> problem \<Rightarrow> legacy_metrics" where
  "legacy_process_problem api m p =
     (let user_prompt = problem_text p; correct_answer = problem_answer p
      in case solve_legacy_default api user_prompt of
           Inl e \<Rightarrow> m\<lparr>lg_problem_details := lg_problem_details m @ [Legacy_error user_prompt e]\<rparr>
         | Inr (model_answer, u, latency, cost) \<Rightarrow>
             (let is_correct = compare_answers_contains model_answer (Some correct_answer)
              in m\<lparr>lg_total_tokens := lg_total_tokens m + total_tokens u,
                   lg_prompt_tokens := lg_prompt_tokens m + prompt_tokens u,
                   lg_completion_tokens := lg_completion_tokens m + completion_tokens u,
                   lg_total_latency := lg_total_latency m + latency,
                   lg_total_cost := lg_total_cost m + cost,
                   lg_processed_problems := Suc (lg_processed_problems m),
                   lg_correct_count := lg_correct_count m + (if is_correct then 1 else 0),
                   lg_problem_details := lg_problem_details m @
                     [Legacy_detail user_prompt model_answer correct_answer is_correct u latency cost]\<rparr>))"

fun legacy_process_problems :: "(nat \<Rightarrow> llm) \<Rightarrow> nat \<Rightarrow> legacy_metrics \<Rightarrow> problem list \<Rightarrow> legacy_metrics" where
  "legacy_process_problems apis i m [] = m"
| "legacy_process_problems apis i m (p # ps) =
     legacy_process_problems apis (Suc i) (legacy_process_problem (apis i) m p) ps"

text \<open>Lines 244--253.\<close>

definition legacy_finalize :: "legacy_metrics \<Rightarrow> legacy_averages py_result" where
  "legacy_finalize m =
     (let n = real (lg_processed_problems m)
      in if 0 < lg_processed_problems m then
           py_bind (py_truediv (real (lg_correct_count m)) n) (\<lambda>acc.
           py_bind (py_truediv (lg_total_latency m) n) (\<lambda>lat.
           py_bind (py_truediv (real_of_int (lg_total_tokens m)) n) (\<lambda>tok.
           py_bind (py_truediv (lg_total_cost m) n) (\<lambda>cost.
             Inr \<lparr>lg_accuracy = acc * 100, lg_avg_latency = lat, lg_avg_tokens_per_problem = tok,
                  lg_avg_cost_per_problem = cost\<rparr>))))
         else Inr \<lparr>lg_accuracy = 0, lg_avg_latency = 0, lg_avg_tokens_per_problem = 0,
                   lg_avg_cost_per_problem = 0\<rparr>)"

definition process_difficulty_level_legacy ::
  "(nat \<Rightarrow> llm) \<Rightarrow> nat \<Rightarrow> problem list option \<Rightarrow> (legacy_metrics \<times> legacy_averages) option py_result" where
  "process_difficulty_level_legacy apis d problems_file =
     (case problems_file of
        None \<Rightarrow> Inr None
      | Some all_problems \<Rightarrow>
          (let problems = take 10 all_problems;
               m = legacy_process_problems apis 1 (legacy_level_init d (length problems)) problems
           in py_bind (legacy_finalize m) (\<lambda>a. Inr (Some (m, a)))))"

section \<open>The run summary of main\<close>

text \<open>\<open>main\<close> (lines 264--355): only the level 1 (\<open>range(1, 2)\<close>).\<close>

fun collect_levels_legacy ::
  "(nat \<Rightarrow> nat \<Rightarrow> llm) \<Rightarrow> (nat \<Rightarrow> problem list option) \<Rightarrow> nat list \<Rightarrow>
   (legacy_metrics \<times> legacy_averages) list py_result" where
  "collect_levels_legacy apis data [] = Inr []"
| "collect_levels_legacy apis data (d # ds) =
     py_bind (process_difficulty_level_legacy (apis d) d (data d)) (\<lambda>t.
     py_bind (collect_levels_legacy apis data ds) (\<lambda>ts.
       Inr (case t of None \<Rightarrow> ts | Some x \<Rightarrow> x # ts)))"

record legacy_summary =
  ls_total_problems :: nat
  ls_processed_problems :: nat
  ls_correct_answers :: nat
  ls_overall_accuracy :: real
  ls_total_tokens :: int
  ls_total_prompt_tokens :: int
  ls_total_completion_tokens :: int
  ls_total_cost :: real
  ls_total_latency :: real
  ls_avg_latency_per_problem :: real
  ls_avg_cost_per_problem :: real

text \<open>The sums of lines 285--302 and the guarded quotients of lines 305--317.\<close>

definition legacy_summary_of :: "legacy_metrics list \<Rightarrow> legacy_summary py_result" where
  "legacy_summary_of levels =
     (let total_processed = sum_list (map lg_processed_problems levels);
          total_correct = sum_list (map lg_correct_count levels);
          total_cost = sum_list (map lg_total_cost levels);
          total_latency = sum_list (map lg_total_latency levels)
      in py_bind (per_problem total_processed (real total_correct)) (\<lambda>q.
         py_bind (per_problem total_processed total_latency) (\<lambda>lat.
         py_bind (per_problem total_processed total_cost) (\<lambda>cost.
           Inr \<lparr>ls_total_problems = sum_list (map lg_total_problems levels),
                ls_processed_problems = total_processed, ls_correct_answers = total_correct,
                ls_overall_accuracy = q * 100,
                ls_total_tokens = sum_list (map lg_total_tokens levels),
                ls_total_prompt_tokens = sum_list (map lg_prompt_tokens levels),
                ls_total_completion_tokens = sum_list (map lg_completion_tokens levels),
                ls_total_cost = total_cost, ls_total_latency = total_latency,
                ls_avg_latency_per_problem = lat, ls_avg_cost_per_problem = cost\<rparr>))))"

definition run_main_legacy ::
  "(nat \<Rightarrow> nat \<Rightarrow> llm) \<Rightarrow> (nat \<Rightarrow> problem list option) \<Rightarrow>
   ((legacy_metrics \<times> legacy_averages) list \<times> legacy_summary) py_result" where
  "run_main_legacy apis data =
     py_bind (collect_levels_legacy apis data [1]) (\<lambda>tiers.
     py_bind (legacy_summary_of (map fst tiers)) (\<lambda>s. Inr (tiers, s)))"

section \<open>Specification helpers\<close>

text \<open>A reply of the model that carries an \<open><answer>\<close> tag around a blank answer: after
  \<open>_get_response\<close>'s strip, the split extraction gives a string that the comparator's
  normalisation (removing spaces and newlines) makes empty.\<close>

definition blank_reply :: "api_outcome \<Rightarrow> bool" where
  "blank_reply out \<longleftrightarrow>
     (case out of
        Api_ok r u lat \<Rightarrow> py_in answer_open (py_strip r) \<and>
          (case answer_of_response (py_strip r) of Inr a \<Rightarrow> normalize_answer a = [] | Inl _ \<Rightarrow> False)
      | _ \<Rightarrow> False)"

section \<open>Lemmas\<close>

lemma solve_legacy_default_blank:
  assumes "\<forall>n sp q. blank_reply (api n sp q)"
  shows "\<exists>a u lat cost. solve_legacy_default api question = Inr (Some a, u, lat, cost) \<and> normalize_answer a = []"
proof -
  let ?sp = "generate_prompt_legacy 200 50 50"
  have b: "blank_reply (api 0 ?sp (get_user_prompt question []))" using assms by blast
  then obtain r u lat where r: "api 0 ?sp (get_user_prompt question []) = Api_ok r u lat"
    and tag: "py_in answer_open (py_strip r)"
    and ext: "case answer_of_response (py_strip r) of Inr a \<Rightarrow> normalize_answer a = [] | Inl _ \<Rightarrow> False"
    by (cases "api 0 ?sp (get_user_prompt question [])") (auto simp: blank_reply_def)
  obtain a where a: "answer_of_response (py_strip r) = Inr a" and na: "normalize_answer a = []"
    using ext by (cases "answer_of_response (py_strip r)") auto
  have "\<exists>st. solve_loop_legacy api ?sp question 0 (Suc 49) legacy_init = Inr (Some a, st)"
    by (simp only: solve_loop_legacy.simps(2))
       (simp add: r tag a Let_def get_response_def legacy_init_def py_bind_def)
  then obtain st where "solve_loop_legacy api ?sp question 0 50 legacy_init = Inr (Some a, st)" by auto
  then show ?thesis
    using na by (simp add: solve_legacy_default_def solve_problem_with_agents_legacy_def)
qed

lemma legacy_process_problems_blank:
  assumes "\<forall>i. \<forall>n sp q. blank_reply (apis i n sp q)"
  shows "lg_correct_count (legacy_process_problems apis i m ps) = lg_correct_count m + length ps \<and>
    lg_processed_problems (legacy_process_problems apis i m ps) = lg_processed_problems m + length ps"
proof (induction ps arbitrary: i m)
  case (Cons p ps)
  obtain a u lat cost where s: "solve_legacy_default (apis i) (problem_text p) = Inr (Some a, u, lat, cost)"
    and na: "normalize_answer a = []"
    using solve_legacy_default_blank assms by blast
  have "compare_answers_contains (Some a) (Some (problem_answer p))"
    using na by (simp add: compare_answers_contains_def)
  then show ?case using Cons.IH [of "Suc i" "legacy_process_problem (apis i) m p"] s
    by (simp add: legacy_process_problem_def Let_def)
qed simp


definition legacy_level_inv :: "legacy_metrics \<Rightarrow> bool" where
  "legacy_level_inv m \<longleftrightarrow> lg_correct_count m \<le> lg_processed_problems m \<and>
     lg_processed_problems m \<le> length (lg_problem_details m)"

lemma legacy_process_problems_inv:
  "legacy_level_inv m \<Longrightarrow> legacy_level_inv (legacy_process_problems apis i m ps) \<and>
    length (lg_problem_details (legacy_process_problems apis i m ps)) = length (lg_problem_details m) + length ps \<and>
    lg_total_problems (legacy_process_problems apis i m ps) = lg_total_problems m"
proof (induction ps arbitrary: i m)
  case Nil
  then show ?case by simp
next
  case (Cons p ps)
  have "legacy_level_inv (legacy_process_problem (apis i) m p) \<and>
      length (lg_problem_details (legacy_process_problem (apis i) m p)) = Suc (length (lg_problem_details m)) \<and>
      lg_total_problems (legacy_process_problem (apis i) m p) = lg_total_problems m"
    using Cons.prems
    by (auto simp: legacy_process_problem_def legacy_level_inv_def Let_def split: sum.splits prod.splits)
  with Cons.IH [of "legacy_process_problem (apis i) m p" "Suc i"] show ?case by simp
qed

lemma legacy_finalize_accuracy:
  "lg_correct_count m \<le> lg_processed_problems m \<Longrightarrow>
   \<exists>a. legacy_finalize m = Inr a \<and> 0 \<le> lg_accuracy a \<and> lg_accuracy a \<le> 100"
  using percent_bounds [of "lg_correct_count m" "lg_processed_problems m"]
  by (auto simp: legacy_finalize_def Let_def)

lemma legacy_level_facts:
  "\<exists>m a. process_difficulty_level_legacy apis d (Some ps) = Inr (Some (m, a)) \<and>
     legacy_level_inv m \<and> length (lg_problem_details m) = length (take 10 ps) \<and>
     lg_total_problems m = length (take 10 ps) \<and> 0 \<le> lg_accuracy a \<and> lg_accuracy a \<le> 100"
proof -
  let ?ps = "take 10 ps"
  let ?m = "legacy_process_problems apis 1 (legacy_level_init d (length ?ps)) ?ps"
  have "legacy_level_inv (legacy_level_init d n)" for n
    by (simp add: legacy_level_inv_def legacy_level_init_def)
  from legacy_process_problems_inv [OF this]
  have inv: "legacy_level_inv ?m" and len: "length (lg_problem_details ?m) = length ?ps"
    and tot: "lg_total_problems ?m = length ?ps"
    by (simp_all add: legacy_level_init_def)
  from inv have cnt: "lg_correct_count ?m \<le> lg_processed_problems ?m" by (simp add: legacy_level_inv_def)
  obtain a where fin: "legacy_finalize ?m = Inr a" and acc: "0 \<le> lg_accuracy a \<and> lg_accuracy a \<le> 100"
    using legacy_finalize_accuracy [OF cnt] by blast
  have "process_difficulty_level_legacy apis d (Some ps) = Inr (Some (?m, a))"
    using fin by (simp add: process_difficulty_level_legacy_def Let_def)
  with inv len tot acc show ?thesis by blast
qed

lemma collect_levels_legacy_inv:
  "\<exists>ts. collect_levels_legacy apis data ds = Inr ts \<and>
     (\<forall>t \<in> set ts. lg_correct_count (fst t) \<le> lg_processed_problems (fst t))"
proof (induction ds)
  case (Cons d ds)
  then obtain ts where ts: "collect_levels_legacy apis data ds = Inr ts"
    and inv: "\<forall>t \<in> set ts. lg_correct_count (fst t) \<le> lg_processed_problems (fst t)" by blast
  show ?case
  proof (cases "data d")
    case None
    with ts inv show ?thesis by (simp add: process_difficulty_level_legacy_def)
  next
    case (Some ps)
    obtain m a where lvl: "process_difficulty_level_legacy (apis d) d (Some ps) = Inr (Some (m, a))"
      and "legacy_level_inv m" using legacy_level_facts by blast
    then have "lg_correct_count m \<le> lg_processed_problems m" by (simp add: legacy_level_inv_def)
    with lvl Some ts inv show ?thesis by simp
  qed
qed simp

text \<open>The summary of \<open>main\<close> never raises and reports an accuracy within \<open>[0, 100]\<close>.\<close>

lemma run_main_legacy_summary:
  "\<exists>tiers s. run_main_legacy apis data = Inr (tiers, s) \<and>
     ls_correct_answers s \<le> ls_processed_problems s \<and>
     0 \<le> ls_overall_accuracy s \<and> ls_overall_accuracy s \<le> 100"
proof -
  obtain ts where ts: "collect_levels_legacy apis data [1] = Inr ts"
    and inv: "\<forall>t \<in> set ts. lg_correct_count (fst t) \<le> lg_processed_problems (fst t)"
    using collect_levels_legacy_inv by blast
  let ?ls = "map fst ts"
  have le: "sum_list (map lg_correct_count ?ls) \<le> sum_list (map lg_processed_problems ?ls)"
    using inv by (simp add: sum_list_mono_nat)
  obtain q where q: "per_problem (sum_list (map lg_processed_problems ?ls)) (real (sum_list (map lg_correct_count ?ls))) = Inr q"
    and qb: "0 \<le> q * 100 \<and> q * 100 \<le> 100"
    using per_problem_percent [OF le] by blast
  obtain lat where lat: "per_problem (sum_list (map lg_processed_problems ?ls)) (sum_list (map lg_total_latency ?ls)) = Inr lat"
    using per_problem_Inr by blast
  obtain cost where cost: "per_problem (sum_list (map lg_processed_problems ?ls)) (sum_list (map lg_total_cost ?ls)) = Inr cost"
    using per_problem_Inr by blast
  from ts q qb lat cost le show ?thesis
    by (simp add: run_main_legacy_def legacy_summary_of_def Let_def)
qed

section \<open>Properties\<close>

text \<open>C33: process.py's process_difficulty_level evaluates the first ten problems, returns one detail record for each, keeps correct_count <= processed_problems <= total_problems, and reports an accuracy between 0 and 100.\<close>

theorem legacy_level_consistent:
  "\<exists>m a. process_difficulty_level_legacy apis d (Some ps) = Inr (Some (m, a)) \<and>
     lg_total_problems m = min 10 (length ps) \<and> length (lg_problem_details m) = lg_total_problems m \<and>
     lg_correct_count m \<le> lg_processed_problems m \<and> lg_processed_problems m \<le> lg_total_problems m \<and>
     0 \<le> lg_accuracy a \<and> lg_accuracy a \<le> 100"
proof -
  obtain m a where lvl: "process_difficulty_level_legacy apis d (Some ps) = Inr (Some (m, a))"
    and facts: "legacy_level_inv m" "length (lg_problem_details m) = length (take 10 ps)"
      "lg_total_problems m = length (take 10 ps)" "0 \<le> lg_accuracy a \<and> lg_accuracy a \<le> 100"
    using legacy_level_facts by blast
  from facts show ?thesis unfolding legacy_level_inv_def
    by (intro exI [of _ m] exI [of _ a]) (auto simp: lvl)
qed

text \<open>C34: In process.py a model whose every reply carries an <answer> tag around a blank answer (only spaces and newlines) is judged correct on every problem of every non-empty file, and the level reports accuracy 100: the empty string is contained in every correct answer.\<close>

theorem legacy_blank_answer_full_marks:
  assumes "\<forall>i n sp q. blank_reply (apis i n sp q)" and "ps \<noteq> []"
  shows "\<exists>m a. process_difficulty_level_legacy apis d (Some ps) = Inr (Some (m, a)) \<and>
     lg_correct_count m = lg_processed_problems m \<and> lg_processed_problems m = min 10 (length ps) \<and>
     lg_accuracy a = 100"
proof -
  let ?ps = "take 10 ps"
  let ?m = "legacy_process_problems apis 1 (legacy_level_init d (length ?ps)) ?ps"
  have blank: "\<forall>i. \<forall>n sp q. blank_reply (apis i n sp q)" using assms(1) by blast
  from legacy_process_problems_blank [OF blank]
  have c: "lg_correct_count ?m = length ?ps" and p: "lg_processed_problems ?m = length ?ps"
    by (simp_all add: legacy_level_init_def)
  have pos: "0 < length ?ps" using assms(2) by simp
  have "legacy_finalize ?m = Inr \<lparr>lg_accuracy = 100, lg_avg_latency = lg_total_latency ?m / real (length ?ps),
      lg_avg_tokens_per_problem = real_of_int (lg_total_tokens ?m) / real (length ?ps),
      lg_avg_cost_per_problem = lg_total_cost ?m / real (length ?ps)\<rparr>"
    using c p pos by (simp add: legacy_finalize_def py_bind_def Let_def)
  then show ?thesis using c p by (simp add: process_difficulty_level_legacy_def Let_def py_bind_def)
qed

theorem legacy_blank_answer_full_marks_witness:
  "\<exists>m a. process_difficulty_level_legacy
      (\<lambda>_ _ _ _. Api_ok ''<answer> </answer>'' \<lparr>prompt_tokens = 10, completion_tokens = 5, total_tokens = 15\<rparr> 1)
      5 (Some [\<lparr>problem_text = ''Q1'', problem_answer = ''42''\<rparr>]) = Inr (Some (m, a)) \<and>
     lg_correct_count m = lg_processed_problems m \<and>
     lg_processed_problems m = min 10 (length [\<lparr>problem_text = ''Q1'', problem_answer = ''42''\<rparr>]) \<and>
     lg_accuracy a = 100"
proof (rule legacy_blank_answer_full_marks)
  have "blank_reply (Api_ok ''<answer> </answer>'' \<lparr>prompt_tokens = 10, completion_tokens = 5, total_tokens = 15\<rparr> 1)"
    by code_simp
  then show "\<forall>i n sp q. blank_reply
      ((\<lambda>_ _ _ _. Api_ok ''<answer> </answer>'' \<lparr>prompt_tokens = 10, completion_tokens = 5, total_tokens = 15\<rparr> 1)
         i n sp q)"
    by simp
qed simp

end
