(* ===== verification/Reports.thy ===== *)
theory Reports
  imports Analysis Binning
begin

text \<open>
  The \<open>main\<close> functions of the analysis scripts: the report of \<open>src/getdata.py\<close>
  (problem counts, statistics of the iteration counts of the correct answers, the share
  within 30 steps, the histogram of width 5), the histogram of the older
  \<open>src/math/getdata.py\<close>, and the counts and per-type statistics of
  \<open>src/completion_tokens_analysis.py\<close> (histograms of width 50).  The scripts print
  these values and plot the histograms; the model returns them.  The bins and the
  frequencies are those of \<open>Binning\<close>: the copies of \<open>create_bins\<close> and
  \<open>count_frequency\<close> in \<open>completion_tokens_analysis.py\<close> (lines 96--129) are the same
  code as those of \<open>src/getdata.py\<close>.  A result file that failed to load, or is empty,
  is \<open>None\<close>.
\<close>

section \<open>The report of src/getdata.py\<close>

text \<open>One pass of the counting loops of \<open>main\<close> (lines 203--211).\<close>

definition count_problem :: "nat \<times> nat \<Rightarrow> problem_detail \<Rightarrow> nat \<times> nat" where
  "count_problem counts problem =
     (case counts of (total_problems, correct_problems) \<Rightarrow>
        (Suc total_problems, if detail_correct problem then Suc correct_problems else correct_problems))"

definition count_problems :: "result_data \<Rightarrow> nat \<times> nat" where
  "count_problems data =
     (case data of
        Difficulty_results levels \<Rightarrow> foldl count_problem (0, 0) (concat (map m_problem_details levels))
      | Flat_details problems \<Rightarrow> foldl count_problem (0, 0) problems
      | Unrecognised \<Rightarrow> (0, 0))"

record iteration_report =
  ir_total_problems :: nat
  ir_correct_problems :: nat
  ir_accuracy :: real
  ir_steps :: nat
  ir_min :: int
  ir_max :: int
  ir_mean :: real
  ir_median :: real
  ir_steps_30_or_less :: nat
  ir_percentage_30_or_less :: real
  ir_bins :: "int list"
  ir_frequency :: frequency

text \<open>\<open>main\<close> (lines 187--254): the early returns are \<open>None\<close>.\<close>

definition iteration_steps_main :: "result_data option \<Rightarrow> iteration_report option py_result" where
  "iteration_steps_main data =
     (case data of
        None \<Rightarrow> Inr None
      | Some d \<Rightarrow>
          (case count_problems d of (total_problems, correct_problems) \<Rightarrow>
             (let iteration_steps = map int (process_iteration_steps d)
              in if iteration_steps = [] then Inr None
                 else
                   py_bind (py_truediv (real correct_problems) (real total_problems)) (\<lambda>q.
                   py_bind (py_min iteration_steps) (\<lambda>min_step.
                   py_bind (py_max iteration_steps) (\<lambda>max_step.
                   (let steps_30_or_less = filter (\<lambda>step. step \<le> 30) iteration_steps
                    in py_bind (py_truediv (real (length steps_30_or_less)) (real (length iteration_steps))) (\<lambda>p.
                       py_bind (create_bins iteration_steps 5) (\<lambda>bins.
                         Inr (Some \<lparr>ir_total_problems = total_problems, ir_correct_problems = correct_problems,
                                    ir_accuracy = q * 100, ir_steps = length iteration_steps,
                                    ir_min = min_step, ir_max = max_step,
                                    ir_mean = py_mean iteration_steps, ir_median = py_median iteration_steps,
                                    ir_steps_30_or_less = length steps_30_or_less,
                                    ir_percentage_30_or_less = p * 100, ir_bins = bins,
                                    ir_frequency = count_frequency iteration_steps bins\<rparr>))))))))))"

section \<open>The histogram of src/math/getdata.py\<close>

text \<open>
  \<open>process_iteration_steps\<close> (lines 18--35): only the flat format, and every record with
  an \<open>iterations\<close> field, correct or not.
\<close>

fun detail_all_iterations :: "problem_detail \<Rightarrow> nat list" where
  "detail_all_iterations (Detail _ _ _ _ r) = [res_iterations r]"
| "detail_all_iterations (Detail_error _ _) = []"

definition process_iteration_steps_flat :: "result_data \<Rightarrow> nat list" where
  "process_iteration_steps_flat data =
     (case data of
        Flat_details problems \<Rightarrow> concat (map detail_all_iterations problems)
      | _ \<Rightarrow> [])"

text \<open>
  \<open>main\<close> (lines 119--142), with this file's \<open>create_bins\<close>, which differs from that of
  \<open>src/getdata.py\<close> only on the empty list, which \<open>main\<close> has excluded.
\<close>

definition histogram_main_legacy :: "result_data option \<Rightarrow> frequency option py_result" where
  "histogram_main_legacy data =
     (case data of
        None \<Rightarrow> Inr None
      | Some d \<Rightarrow>
          (let iteration_steps = map int (process_iteration_steps_flat d)
           in if iteration_steps = [] then Inr None
              else py_bind (create_bins_legacy iteration_steps 5) (\<lambda>bins.
                   py_bind (count_frequency_legacy_value iteration_steps bins) (\<lambda>frequency.
                     Inr (Some frequency)))))"

section \<open>The counts and statistics of src/completion_tokens_analysis.py\<close>

record token_counts =
  tc_total_problems :: nat
  tc_correct_problems :: nat
  tc_total_iterations :: nat
  tc_correct_iterations :: nat
  tc_correct_non_answer_iterations :: nat
  tc_thinking_iterations :: nat
  tc_summary_iterations :: nat

definition token_counts_init :: token_counts where
  "token_counts_init =
     \<lparr>tc_total_problems = 0, tc_correct_problems = 0, tc_total_iterations = 0,
      tc_correct_iterations = 0, tc_correct_non_answer_iterations = 0,
      tc_thinking_iterations = 0, tc_summary_iterations = 0\<rparr>"

text \<open>Lines 290--297: one iteration record of a correct problem.\<close>

definition count_iteration_type :: "token_counts \<Rightarrow> iteration_info \<Rightarrow> token_counts" where
  "count_iteration_type c iteration =
     (let response_type = response_type_name (info_response_type iteration)
      in c\<lparr>tc_correct_non_answer_iterations := tc_correct_non_answer_iterations c +
             (if response_type \<noteq> ''answer'' then 1 else 0),
           tc_thinking_iterations := tc_thinking_iterations c +
             (if response_type = ''thinking'' then 1 else 0),
           tc_summary_iterations := tc_summary_iterations c +
             (if response_type \<noteq> ''thinking'' \<and> response_type = ''summary'' then 1 else 0)\<rparr>)"

text \<open>Lines 282--297: one problem record; an error record has no \<open>iteration_details\<close>.\<close>

definition count_problem_tokens :: "token_counts \<Rightarrow> problem_detail \<Rightarrow> token_counts" where
  "count_problem_tokens c problem =
     (case problem of
        Detail _ _ _ is_correct r \<Rightarrow>
          (let c1 = c\<lparr>tc_total_problems := Suc (tc_total_problems c),
                      tc_total_iterations := tc_total_iterations c + length (res_details r)\<rparr>
           in if is_correct = Some True
              then foldl count_iteration_type
                     (c1\<lparr>tc_correct_problems := Suc (tc_correct_problems c1),
                         tc_correct_iterations := tc_correct_iterations c1 + length (res_details r)\<rparr>)
                     (res_details r)
              else c1)
      | Detail_error _ _ \<Rightarrow> c\<lparr>tc_total_problems := Suc (tc_total_problems c)\<rparr>)"

definition completion_counts :: "result_data \<Rightarrow> token_counts" where
  "completion_counts data =
     (case data of
        Difficulty_results levels \<Rightarrow>
          foldl count_problem_tokens token_counts_init (concat (map m_problem_details levels))
      | Flat_details problems \<Rightarrow> foldl count_problem_tokens token_counts_init problems
      | Unrecognised \<Rightarrow> token_counts_init)"

record token_stats =
  ts_count :: nat
  ts_min :: int
  ts_max :: int
  ts_mean :: real
  ts_median :: real
  ts_bins :: "int list"
  ts_frequency :: frequency

text \<open>\<open>analyze_and_plot\<close> (lines 226--259): \<open>None\<close> when no token is selected.\<close>

definition analyze_and_plot :: "result_data \<Rightarrow> string option \<Rightarrow> token_stats option py_result" where
  "analyze_and_plot data response_type_filter =
     (let completion_tokens_list = process_completion_tokens data response_type_filter
      in if completion_tokens_list = [] then Inr None
         else
           py_bind (py_min completion_tokens_list) (\<lambda>min_tokens.
           py_bind (py_max completion_tokens_list) (\<lambda>max_tokens.
           py_bind (create_bins_tokens completion_tokens_list 50) (\<lambda>bins.
             Inr (Some \<lparr>ts_count = length completion_tokens_list, ts_min = min_tokens,
                        ts_max = max_tokens, ts_mean = py_mean completion_tokens_list,
                        ts_median = py_median completion_tokens_list, ts_bins = bins,
                        ts_frequency = count_frequency_tokens completion_tokens_list bins\<rparr>)))))"

text \<open>
  \<open>main\<close> (lines 261--345): the accuracy is printed as
  \<open>(correct_problems/total_problems)*100\<close> with no guard, before the three analyses.
\<close>

definition completion_analysis_main ::
  "result_data option \<Rightarrow>
   (token_counts \<times> real \<times> token_stats option \<times> token_stats option \<times> token_stats option) option py_result" where
  "completion_analysis_main data =
     (case data of
        None \<Rightarrow> Inr None
      | Some d \<Rightarrow>
          (let c = completion_counts d
           in py_bind (py_truediv (real (tc_correct_problems c)) (real (tc_total_problems c))) (\<lambda>q.
              py_bind (analyze_and_plot d None) (\<lambda>all_types.
              py_bind (analyze_and_plot d (Some ''thinking'')) (\<lambda>thinking.
              py_bind (analyze_and_plot d (Some ''summary'')) (\<lambda>summary.
                Inr (Some (c, q * 100, all_types, thinking, summary))))))))"

section \<open>Specification helpers\<close>

definition counts_ordered :: "token_counts \<Rightarrow> bool" where
  "counts_ordered c \<longleftrightarrow> tc_correct_problems c \<le> tc_total_problems c \<and>
     tc_thinking_iterations c + tc_summary_iterations c \<le> tc_correct_non_answer_iterations c \<and>
     tc_correct_non_answer_iterations c \<le> tc_correct_iterations c \<and>
     tc_correct_iterations c \<le> tc_total_iterations c"

section \<open>Lemmas\<close>

lemma concat_map_concat:
  "concat (map (\<lambda>m. concat (map f (g m))) ls) = concat (map f (concat (map g ls)))"
  by (induction ls) simp_all

lemma foldl_count_problem:
  "foldl count_problem (a, b) ds = (a + length ds, b + length (filter detail_correct ds))"
  by (induction ds arbitrary: a b) (simp_all add: count_problem_def)

lemma length_detail_iteration_steps:
  "length (concat (map detail_iteration_steps ds)) = length (filter detail_correct ds)"
proof (induction ds)
  case (Cons d ds)
  then show ?case by (cases d) (simp_all add: detail_correct_def)
qed simp

lemma count_problems_steps:
  "count_problems d = (n_total, n_correct) \<Longrightarrow>
   length (process_iteration_steps d) = n_correct \<and> n_correct \<le> n_total"
  by (cases d)
     (auto simp: count_problems_def process_iteration_steps_def foldl_count_problem
        length_detail_iteration_steps concat_map_concat)

lemma foldl_count_iteration_type:
  "tc_total_problems (foldl count_iteration_type c its) = tc_total_problems c \<and>
   tc_correct_problems (foldl count_iteration_type c its) = tc_correct_problems c \<and>
   tc_total_iterations (foldl count_iteration_type c its) = tc_total_iterations c \<and>
   tc_correct_iterations (foldl count_iteration_type c its) = tc_correct_iterations c \<and>
   tc_thinking_iterations (foldl count_iteration_type c its) + tc_summary_iterations (foldl count_iteration_type c its)
     + tc_correct_non_answer_iterations c \<le>
   tc_correct_non_answer_iterations (foldl count_iteration_type c its) +
     tc_thinking_iterations c + tc_summary_iterations c \<and>
   tc_correct_non_answer_iterations (foldl count_iteration_type c its) \<le>
     tc_correct_non_answer_iterations c + length its"
proof (induction its arbitrary: c)
  case Nil
  then show ?case by simp
next
  case (Cons it its)
  have "tc_thinking_iterations (count_iteration_type c it) + tc_summary_iterations (count_iteration_type c it)
          + tc_correct_non_answer_iterations c \<le>
        tc_correct_non_answer_iterations (count_iteration_type c it) + tc_thinking_iterations c + tc_summary_iterations c"
    "tc_correct_non_answer_iterations (count_iteration_type c it) \<le> Suc (tc_correct_non_answer_iterations c)"
    by (cases "info_response_type it"; simp add: count_iteration_type_def)+
  with Cons.IH [of "count_iteration_type c it"] show ?case
    by (simp add: count_iteration_type_def Let_def)
qed

lemma count_problem_tokens_ordered:
  assumes c: "counts_ordered c"
  shows "counts_ordered (count_problem_tokens c problem)"
proof (cases problem)
  case (Detail q a ca is_correct r)
  let ?its = "res_details r"
  let ?c1 = "c\<lparr>tc_total_problems := Suc (tc_total_problems c),
                tc_total_iterations := tc_total_iterations c + length ?its\<rparr>"
  let ?c2 = "?c1\<lparr>tc_correct_problems := Suc (tc_correct_problems ?c1),
                   tc_correct_iterations := tc_correct_iterations ?c1 + length ?its\<rparr>"
  show ?thesis
  proof (cases "is_correct = Some True")
    case True
    from foldl_count_iteration_type [of ?c2 ?its] c True Detail show ?thesis
      by (simp add: counts_ordered_def count_problem_tokens_def Let_def)
  next
    case False
    with c Detail show ?thesis by (simp add: counts_ordered_def count_problem_tokens_def Let_def)
  qed
next
  case (Detail_error q e)
  with c show ?thesis by (simp add: counts_ordered_def count_problem_tokens_def)
qed

lemma completion_counts_ordered: "counts_ordered (completion_counts d)"
proof -
  have "counts_ordered (foldl count_problem_tokens c ds)" if "counts_ordered c" for c ds
    using that by (induction ds arbitrary: c) (simp_all add: count_problem_tokens_ordered)
  moreover have "counts_ordered token_counts_init" by (simp add: counts_ordered_def token_counts_init_def)
  ultimately show ?thesis by (cases d) (simp_all add: completion_counts_def)
qed

lemma create_bins_Inr: "0 < w \<Longrightarrow> \<exists>bins. create_bins vs w = Inr bins"
  by (cases "vs = []") (simp_all add: create_bins_eq, simp add: create_bins_def)

lemma analyze_and_plot_Inr: "\<exists>x. analyze_and_plot d f = Inr x"
  using create_bins_Inr [of 50 "process_completion_tokens d f"]
  by (auto simp: analyze_and_plot_def py_min_Min py_max_Max Let_def)

lemma histogram_main_legacy_difficulty_results:
  "histogram_main_legacy (Some (Difficulty_results levels)) = Inr None"
  by (simp add: histogram_main_legacy_def process_iteration_steps_flat_def)

section \<open>Properties\<close>

text \<open>C29: getdata.py's main never raises on any result data: its accuracy division is reached only when some problem is correct, and the report it prints has as many steps as correct problems, an accuracy and a share within 30 steps between 0 and 100, and min <= median, mean <= max.\<close>

theorem iteration_steps_main_safe:
  "\<exists>r. iteration_steps_main data = Inr r \<and>
     (case r of
        None \<Rightarrow> True
      | Some rep \<Rightarrow>
          ir_steps rep = ir_correct_problems rep \<and> 0 < ir_correct_problems rep \<and>
          ir_correct_problems rep \<le> ir_total_problems rep \<and>
          0 \<le> ir_accuracy rep \<and> ir_accuracy rep \<le> 100 \<and>
          real_of_int (ir_min rep) \<le> ir_median rep \<and> ir_median rep \<le> real_of_int (ir_max rep) \<and>
          real_of_int (ir_min rep) \<le> ir_mean rep \<and> ir_mean rep \<le> real_of_int (ir_max rep) \<and>
          0 \<le> ir_percentage_30_or_less rep \<and> ir_percentage_30_or_less rep \<le> 100)"
proof (cases data)
  case None
  then show ?thesis by (simp add: iteration_steps_main_def)
next
  case (Some d)
  obtain n_total n_correct where cnt: "count_problems d = (n_total, n_correct)"
    by (cases "count_problems d")
  from count_problems_steps [OF cnt]
  have len: "length (process_iteration_steps d) = n_correct" and le: "n_correct \<le> n_total" by auto
  let ?steps = "map int (process_iteration_steps d)"
  show ?thesis
  proof (cases "?steps = []")
    case True
    with Some cnt show ?thesis by (simp add: iteration_steps_main_def)
  next
    case False
    then have pos: "0 < n_correct" using len by (cases "process_iteration_steps d") auto
    with le have tpos: "0 < n_total" by simp
    obtain bins where bins: "create_bins ?steps 5 = Inr bins"
      using create_bins_Inr [of 5 ?steps] by auto
    have le30: "length (filter (\<lambda>step. step \<le> 30) ?steps) \<le> length ?steps" by (rule length_filter_le)
    from Some cnt False bins tpos pos le len
      percent_bounds [OF le] percent_bounds [OF le30]
      py_mean_bounds [OF False] py_median_bounds [OF False]
    show ?thesis
      by (simp add: iteration_steps_main_def py_min_Min py_max_Max Let_def)
  qed
qed

theorem iteration_steps_main_safe_witness:
  "\<exists>r. iteration_steps_main (Some (Difficulty_results [])) = Inr r \<and>
     (case r of
        None \<Rightarrow> True
      | Some rep \<Rightarrow>
          ir_steps rep = ir_correct_problems rep \<and> 0 < ir_correct_problems rep \<and>
          ir_correct_problems rep \<le> ir_total_problems rep \<and>
          0 \<le> ir_accuracy rep \<and> ir_accuracy rep \<le> 100 \<and>
          real_of_int (ir_min rep) \<le> ir_median rep \<and> ir_median rep \<le> real_of_int (ir_max rep) \<and>
          real_of_int (ir_min rep) \<le> ir_mean rep \<and> ir_mean rep \<le> real_of_int (ir_max rep) \<and>
          0 \<le> ir_percentage_30_or_less rep \<and> ir_percentage_30_or_less rep \<le> 100)"
  by (rule iteration_steps_main_safe)

text \<open>C30: completion_tokens_analysis.py's main raises ZeroDivisionError exactly when the result data has no problem record; otherwise it returns counts with correct <= total problems and thinking + summary <= non-answer <= correct <= total iterations, and an accuracy between 0 and 100.\<close>

theorem completion_analysis_main_zero_problems:
  "(tc_total_problems (completion_counts d) = 0 \<longrightarrow>
      completion_analysis_main (Some d) = Inl ZeroDivisionError) \<and>
   (0 < tc_total_problems (completion_counts d) \<longrightarrow>
      (\<exists>c acc all_types thinking summary.
         completion_analysis_main (Some d) = Inr (Some (c, acc, all_types, thinking, summary)) \<and>
         counts_ordered c \<and> 0 \<le> acc \<and> acc \<le> 100))"
proof -
  let ?c = "completion_counts d"
  have ord: "counts_ordered ?c" by (rule completion_counts_ordered)
  obtain a1 where a1: "analyze_and_plot d None = Inr a1" using analyze_and_plot_Inr by blast
  obtain a2 where a2: "analyze_and_plot d (Some ''thinking'') = Inr a2" using analyze_and_plot_Inr by blast
  obtain a3 where a3: "analyze_and_plot d (Some ''summary'') = Inr a3" using analyze_and_plot_Inr by blast
  from ord have le: "tc_correct_problems ?c \<le> tc_total_problems ?c" by (simp add: counts_ordered_def)
  show ?thesis
    using ord a1 a2 a3 percent_bounds [OF le]
    by (simp add: completion_analysis_main_def Let_def py_truediv_def)
qed

theorem completion_analysis_main_zero_problems_witness:
  "completion_analysis_main (Some (Difficulty_results [])) = Inl ZeroDivisionError \<and>
   (\<exists>c acc all_types thinking summary.
      completion_analysis_main (Some (Flat_details [Detail_error ''Q'' RequestError])) =
        Inr (Some (c, acc, all_types, thinking, summary)) \<and>
      counts_ordered c \<and> 0 \<le> acc \<and> acc \<le> 100)"
proof
  have "tc_total_problems (completion_counts (Difficulty_results [])) = 0"
    by (simp add: completion_counts_def token_counts_init_def)
  with completion_analysis_main_zero_problems [of "Difficulty_results []"]
  show "completion_analysis_main (Some (Difficulty_results [])) = Inl ZeroDivisionError" by blast
next
  have "0 < tc_total_problems (completion_counts (Flat_details [Detail_error ''Q'' RequestError]))"
    by (simp add: completion_counts_def token_counts_init_def count_problem_tokens_def)
  with completion_analysis_main_zero_problems [of "Flat_details [Detail_error ''Q'' RequestError]"]
  show "\<exists>c acc all_types thinking summary.
      completion_analysis_main (Some (Flat_details [Detail_error ''Q'' RequestError])) =
        Inr (Some (c, acc, all_types, thinking, summary)) \<and>
      counts_ordered c \<and> 0 \<le> acc \<and> acc \<le> 100" by blast
qed

end
