(* ===== verification/ProbeScript.thy ===== *)
theory ProbeScript
  imports Legacy Aggregate
begin

text \<open>
  The script level of \<open>src/math/test1 copy 2.py\<close> (lines 47--104): the \<open>for\<close> loop over
  the first ten problems of the data file, each solved by the \<open>while True\<close> loop
  \<open>trial_loop\<close> of \<open>Legacy\<close> (with its fuel), the global token and cost totals, the
  count of answers judged correct by \<open>trial_correct\<close>, and the accuracy printed at the
  end, computed as \<open>correct_count / 100 * 100\<close>.
\<close>

section \<open>Definitions\<close>

record trial_totals =
  tt_total_tokens :: int
  tt_total_cost :: real
  tt_correct_count :: nat

text \<open>Line 7.\<close>

definition trial_max_steps :: nat where
  "trial_max_steps = 10"

text \<open>Lines 54--60: the per-problem variables are reset, the totals carried over.\<close>

definition trial_start :: "trial_totals \<Rightarrow> problem \<Rightarrow> trial_state" where
  "trial_start t problem =
     \<lparr>t_num_steps = 0, t_tokennum = 0, t_total_tokens = tt_total_tokens t,
      t_total_cost = tt_total_cost t, t_current_prompt = problem_text problem, t_final_answer = None\<rparr>"

text \<open>Lines 53--97: \<open>None\<close> when some problem's loop runs out of fuel.\<close>

fun trial_run :: "nat \<Rightarrow> (nat \<Rightarrow> chat) \<Rightarrow> nat \<Rightarrow> problem list \<Rightarrow> trial_totals \<Rightarrow> trial_totals option" where
  "trial_run fuel apis i [] t = Some t"
| "trial_run fuel apis i (problem # problems) t =
     (case trial_loop fuel (apis i) trial_max_steps (problem_text problem) (trial_start t problem) of
        None \<Rightarrow> None
      | Some st \<Rightarrow>
          trial_run fuel apis (Suc i) problems
            \<lparr>tt_total_tokens = t_total_tokens st, tt_total_cost = t_total_cost st,
             tt_correct_count = tt_correct_count t +
               (if trial_correct (t_final_answer st) (problem_answer problem) then 1 else 0)\<rparr>)"

text \<open>Lines 47--53 and 99--100: the totals start at 0; the accuracy divides by 100.\<close>

definition trial_script :: "nat \<Rightarrow> (nat \<Rightarrow> chat) \<Rightarrow> problem list \<Rightarrow> (trial_totals \<times> real) option" where
  "trial_script fuel apis amc_problems =
     map_option (\<lambda>t. (t, real (tt_correct_count t) / 100 * 100))
       (trial_run fuel apis 1 (take 10 amc_problems)
          \<lparr>tt_total_tokens = 0, tt_total_cost = 0, tt_correct_count = 0\<rparr>)"

section \<open>Lemmas\<close>

lemma trial_run_correct_count:
  "trial_run fuel apis i ps t = Some t' \<Longrightarrow> tt_correct_count t' \<le> tt_correct_count t + length ps"
proof (induction ps arbitrary: i t)
  case (Cons p ps)
  from Cons.prems obtain st where
    st: "trial_loop fuel (apis i) trial_max_steps (problem_text p) (trial_start t p) = Some st"
    and rest: "trial_run fuel apis (Suc i) ps
        \<lparr>tt_total_tokens = t_total_tokens st, tt_total_cost = t_total_cost st,
         tt_correct_count = tt_correct_count t +
           (if trial_correct (t_final_answer st) (problem_answer p) then 1 else 0)\<rparr> = Some t'"
    by (auto split: option.splits)
  from Cons.IH [OF rest] show ?case by (simp split: if_splits)
qed simp

section \<open>Properties\<close>

text \<open>C11: The accuracy printed by test1 copy 2.py is correct_count / 100 * 100, i.e. the number of correct problems itself, although at most ten problems (amc_problems[:10]) are run, so it never exceeds 10 percent of what it claims to measure.\<close>

theorem trial_script_accuracy:
  assumes "trial_script fuel apis amc_problems = Some (t, acc)"
  shows "acc = real (tt_correct_count t) \<and> tt_correct_count t \<le> min 10 (length amc_problems)"
proof -
  from assms obtain t0 where run: "trial_run fuel apis 1 (take 10 amc_problems)
      \<lparr>tt_total_tokens = 0, tt_total_cost = 0, tt_correct_count = 0\<rparr> = Some t0"
    and eq: "t = t0" "acc = real (tt_correct_count t0) / 100 * 100"
    by (auto simp: trial_script_def)
  from trial_run_correct_count [OF run] eq show ?thesis by simp
qed

theorem trial_script_accuracy_witness:
  "trial_script 5 (\<lambda>_ _ _. Some (''<answer>7</answer>'', 3)) [\<lparr>problem_text = ''Q'', problem_answer = ''7''\<rparr>] =
     Some (\<lparr>tt_total_tokens = 3, tt_total_cost = 3 / 1000 * 0.002, tt_correct_count = 1\<rparr>, 1) \<and>
   1 = real (tt_correct_count \<lparr>tt_total_tokens = 3, tt_total_cost = 3 / 1000 * 0.002, tt_correct_count = 1\<rparr>) \<and>
   tt_correct_count \<lparr>tt_total_tokens = 3, tt_total_cost = 3 / 1000 * 0.002, tt_correct_count = 1\<rparr>
     \<le> min 10 (length [\<lparr>problem_text = ''Q'', problem_answer = ''7''\<rparr>])"
proof -
  have run: "trial_script 5 (\<lambda>_ _ _. Some (''<answer>7</answer>'', 3)) [\<lparr>problem_text = ''Q'', problem_answer = ''7''\<rparr>] =
     Some (\<lparr>tt_total_tokens = 3, tt_total_cost = 3 / 1000 * 0.002, tt_correct_count = 1\<rparr>, 1)"
    by (simp add: trial_script_def trial_start_def request_llm_for_trans_def trial_correct_def
        tag_defs py_strip_def is_py_space_def numeral_eq_Suc)
  show ?thesis using run trial_script_accuracy [OF run] by blast
qed

end
