(* ===== verification/Plotting.thy ===== *)
theory Plotting
  imports Reports "HOL-Library.Product_Lexorder"
begin

text \<open>
  The computations behind the histograms of the analysis scripts: \<open>plot_histogram\<close> of
  \<open>src/getdata.py\<close> (lines 100--185) and of \<open>src/completion_tokens_analysis.py\<close>
  (lines 131--224), with their nested \<open>find_x_position\<close>, the top-10 listing of
  \<open>analyze_and_plot\<close> (lines 248--256), and the \<open>main\<close> functions that call them.  A
  plot is the record of what is drawn: the sorted bins (the bar labels), the bar heights,
  the heights that get a label, the colour, the statistic lines and their x positions, and
  the file name.  The drawing calls of matplotlib are not modelled.
\<close>

section \<open>Definitions\<close>

subsection \<open>The x position of a statistic line\<close>

text \<open>
  The loop \<open>for i, (start, end) in enumerate(sorted_bins)\<close> (lines 137--141): the first
  bin that holds the value returns its index plus the relative position in the bin;
  \<open>None\<close> is falling out of the loop.
\<close>

fun find_x_position_from :: "nat \<Rightarrow> real \<Rightarrow> bin list \<Rightarrow> real py_result option" where
  "find_x_position_from i value [] = None"
| "find_x_position_from i value ((start, bin_end) # bins) =
     (if real_of_int start \<le> value \<and> value < real_of_int bin_end
      then Some (py_bind (py_truediv (value - real_of_int start) (real_of_int (bin_end - start)))
                   (\<lambda>relative_pos. Inr (real i + relative_pos)))
      else find_x_position_from (Suc i) value bins)"

text \<open>
  Lines 136--146: after the loop, a value equal to the upper end of the last bin is put at
  the right edge, any other value on the last bar; \<open>sorted_bins[-1]\<close> raises
  \<open>IndexError\<close> on an empty list.
\<close>

definition find_x_position :: "real \<Rightarrow> bin list \<Rightarrow> real py_result" where
  "find_x_position value sorted_bins =
     (case find_x_position_from 0 value sorted_bins of
        Some r \<Rightarrow> r
      | None \<Rightarrow>
          py_bind (py_index sorted_bins (length sorted_bins - 1)) (\<lambda>last_bin.
            if value = real_of_int (snd last_bin) then Inr (real (length sorted_bins) - 1 + 1)
            else Inr (real (length sorted_bins) - 1)))"

subsection \<open>The plots\<close>

record stat_lines =
  sl_mean :: real
  sl_median :: real
  sl_max :: int
  sl_mean_x :: real
  sl_median_x :: real
  sl_max_x :: real

record histogram_plot =
  hp_bins :: "bin list"
  hp_counts :: "nat list"
  hp_labelled :: "nat list"
  hp_color :: string
  hp_stats :: "stat_lines option"
  hp_filename :: string

text \<open>
  The statistic lines (getdata.py lines 128--152, the same code in
  completion_tokens_analysis.py lines 165--189): \<open>np.mean\<close>, \<open>np.median\<close>, \<open>max\<close>
  (raising \<open>ValueError\<close> on an empty list) and the three x positions.  The value
  \<open>y_max = max(counts) * 1.1\<close> of getdata.py is computed and never used.
\<close>

definition plot_stat_lines :: "bin list \<Rightarrow> int list \<Rightarrow> stat_lines py_result" where
  "plot_stat_lines sorted_bins values =
     (let mean_val = py_mean values; median_val = py_median values
      in py_bind (py_max values) (\<lambda>max_val.
         py_bind (find_x_position mean_val sorted_bins) (\<lambda>mean_x.
         py_bind (find_x_position median_val sorted_bins) (\<lambda>median_x.
         py_bind (find_x_position (real_of_int max_val) sorted_bins) (\<lambda>max_x.
           Inr \<lparr>sl_mean = mean_val, sl_median = median_val, sl_max = max_val,
                sl_mean_x = mean_x, sl_median_x = median_x, sl_max_x = max_x\<rparr>)))))"

text \<open>\<open>if ... is not None\<close> around the statistic lines.\<close>

definition optional_stat_lines :: "bin list \<Rightarrow> int list option \<Rightarrow> stat_lines option py_result" where
  "optional_stat_lines sorted_bins values =
     (case values of
        None \<Rightarrow> Inr None
      | Some vs \<Rightarrow> py_bind (plot_stat_lines sorted_bins vs) (\<lambda>s. Inr (Some s)))"

text \<open>
  \<open>plot_histogram\<close> of getdata.py (lines 100--185): \<open>None\<close> is the early return on an
  empty table; the keys are sorted (\<open>sorted(frequency.keys())\<close>, tuples in
  lexicographic order) and every bar is labelled.
\<close>

definition plot_histogram :: "frequency \<Rightarrow> int list option \<Rightarrow> histogram_plot option py_result" where
  "plot_histogram frequency iteration_steps =
     (let sorted_bins = sorted_list_of_set (dom frequency)
      in if sorted_bins = [] then Inr None
         else
           (let counts = map (\<lambda>bin_range. the (frequency bin_range)) sorted_bins
            in py_bind (optional_stat_lines sorted_bins iteration_steps) (\<lambda>stats.
                 Inr (Some \<lparr>hp_bins = sorted_bins, hp_counts = counts, hp_labelled = counts,
                            hp_color = ''skyblue'', hp_stats = stats,
                            hp_filename = ''iteration_steps_histogram.png''\<rparr>))))"

text \<open>\<open>plot_histogram\<close> of src/math/getdata.py (lines 72--117): the same bars, no
  statistic lines, and the file name of getdata.py.\<close>

definition plot_histogram_legacy :: "frequency \<Rightarrow> histogram_plot option" where
  "plot_histogram_legacy frequency =
     (let sorted_bins = sorted_list_of_set (dom frequency)
      in if sorted_bins = [] then None
         else
           (let counts = map (\<lambda>bin_range. the (frequency bin_range)) sorted_bins
            in Some \<lparr>hp_bins = sorted_bins, hp_counts = counts, hp_labelled = counts,
                     hp_color = ''skyblue'', hp_stats = None,
                     hp_filename = ''iteration_steps_histogram.png''\<rparr>))"

text \<open>The colour of completion_tokens_analysis.py (lines 145--151): \<open>color_map.get\<close>
  with the default \<open>'lightcoral'\<close>.\<close>

definition histogram_color :: "string \<Rightarrow> string" where
  "histogram_color response_type =
     (if response_type = ''All (Excluding Answer)'' then ''lightcoral''
      else if response_type = ''thinking'' then ''lightblue''
      else if response_type = ''summary'' then ''lightgreen''
      else ''lightcoral'')"

text \<open>Line 221: \<open>response_type.lower().replace(" ", "_").replace("(", "").replace(")", "")\<close>.\<close>

definition histogram_filename :: "string \<Rightarrow> string" where
  "histogram_filename response_type =
     ''completion_tokens_histogram_'' @
     py_remove_char CHR '')'' (py_remove_char CHR ''('' (py_replace_char CHR '' '' CHR ''_'' (py_lower response_type))) @
     ''.png''"

text \<open>
  \<open>plot_histogram\<close> of completion_tokens_analysis.py (lines 131--224): only bars of
  positive height are labelled.
\<close>

definition plot_histogram_tokens ::
  "frequency \<Rightarrow> int list option \<Rightarrow> string \<Rightarrow> histogram_plot option py_result" where
  "plot_histogram_tokens frequency completion_tokens_list response_type =
     (let sorted_bins = sorted_list_of_set (dom frequency)
      in if sorted_bins = [] then Inr None
         else
           (let counts = map (\<lambda>bin_range. the (frequency bin_range)) sorted_bins
            in py_bind (optional_stat_lines sorted_bins completion_tokens_list) (\<lambda>stats.
                 Inr (Some \<lparr>hp_bins = sorted_bins, hp_counts = counts,
                            hp_labelled = filter (\<lambda>height. 0 < height) counts,
                            hp_color = histogram_color response_type, hp_stats = stats,
                            hp_filename = histogram_filename response_type\<rparr>))))"

subsection \<open>The top-10 listing and the main functions\<close>

text \<open>
  completion_tokens_analysis.py lines 248--256: the \<open>(bin, count)\<close> pairs in key order,
  sorted by count with \<open>reverse=True\<close> (a stable sort, so that equal counts keep the key
  order), the first ten with their percentage of the \<open>n_tokens\<close> selected tokens.
\<close>

definition top_frequent_bins :: "frequency \<Rightarrow> nat \<Rightarrow> (bin \<times> nat \<times> real) list py_result" where
  "top_frequent_bins frequency n_tokens =
     (let sorted_bins = sorted_list_of_set (dom frequency);
          sorted_frequency = map (\<lambda>bin_range. (bin_range, the (frequency bin_range))) sorted_bins;
          sorted_frequency = sort_key (\<lambda>(bin_range, count). - int count) sorted_frequency
      in py_map_list (\<lambda>(bin_range, count).
           py_bind (py_truediv (real count) (real n_tokens)) (\<lambda>q. Inr (bin_range, count, q * 100)))
         (take 10 sorted_frequency))"

text \<open>
  \<open>analyze_and_plot\<close> (lines 226--259) with what it prints and draws: the statistics of
  \<open>Reports.analyze_and_plot\<close>, the top-10 listing and the plot.
\<close>

definition analyze_and_plot_report ::
  "result_data \<Rightarrow> string option \<Rightarrow> string \<Rightarrow>
   (token_stats \<times> (bin \<times> nat \<times> real) list \<times> histogram_plot option) option py_result" where
  "analyze_and_plot_report data response_type_filter display_name =
     py_bind (analyze_and_plot data response_type_filter) (\<lambda>r.
       case r of
         None \<Rightarrow> Inr None
       | Some stats \<Rightarrow>
           (let completion_tokens_list = process_completion_tokens data response_type_filter
            in py_bind (top_frequent_bins (ts_frequency stats) (length completion_tokens_list)) (\<lambda>top.
               py_bind (plot_histogram_tokens (ts_frequency stats) (Some completion_tokens_list)
                          display_name) (\<lambda>plot.
                 Inr (Some (stats, top, plot))))))"

text \<open>
  \<open>main\<close> of completion_tokens_analysis.py (lines 261--345): the counts and the
  accuracy of \<open>Reports.completion_analysis_main\<close>, then the three analyses under the
  display names \<open>"All (Excluding Answer)"\<close>, \<open>"Thinking"\<close> and \<open>"Summary"\<close>.
\<close>

type_synonym type_report = "(token_stats \<times> (bin \<times> nat \<times> real) list \<times> histogram_plot option) option"

definition completion_analysis_plots ::
  "result_data option \<Rightarrow> (type_report \<times> type_report \<times> type_report) option py_result" where
  "completion_analysis_plots data =
     py_bind (completion_analysis_main data) (\<lambda>r.
       case (data, r) of
         (Some d, Some _) \<Rightarrow>
           py_bind (analyze_and_plot_report d None ''All (Excluding Answer)'') (\<lambda>all_types.
           py_bind (analyze_and_plot_report d (Some ''thinking'') ''Thinking'') (\<lambda>thinking.
           py_bind (analyze_and_plot_report d (Some ''summary'') ''Summary'') (\<lambda>summary.
             Inr (Some (all_types, thinking, summary)))))
       | _ \<Rightarrow> Inr None)"

text \<open>\<open>main\<close> of getdata.py (lines 187--254): the report of
  \<open>Reports.iteration_steps_main\<close>, then \<open>plot_histogram(frequency, bin_width, iteration_steps)\<close>.\<close>

definition getdata_main :: "result_data option \<Rightarrow> (iteration_report \<times> histogram_plot option) option py_result" where
  "getdata_main data =
     py_bind (iteration_steps_main data) (\<lambda>r.
       case (data, r) of
         (Some d, Some rep) \<Rightarrow>
           py_bind (plot_histogram (ir_frequency rep) (Some (map int (process_iteration_steps d)))) (\<lambda>plot.
             Inr (Some (rep, plot)))
       | _ \<Rightarrow> Inr None)"

text \<open>\<open>main\<close> of src/math/getdata.py (lines 119--142) with its final
  \<open>plot_histogram(frequency, bin_width)\<close>.\<close>

definition histogram_main_legacy_plot :: "result_data option \<Rightarrow> histogram_plot option py_result" where
  "histogram_main_legacy_plot data =
     py_bind (histogram_main_legacy data) (\<lambda>r.
       case r of
         None \<Rightarrow> Inr None
       | Some frequency \<Rightarrow> Inr (plot_histogram_legacy frequency))"

section \<open>Lemmas\<close>

lemma find_x_position_from_Some:
  "find_x_position_from i v bs = Some r \<Longrightarrow>
   \<exists>j x. j < length bs \<and> r = Inr x \<and> real_of_int (fst (bs ! j)) \<le> v \<and> v < real_of_int (snd (bs ! j)) \<and>
         real (i + j) \<le> x \<and> x < real (i + j) + 1"
proof (induction i v bs rule: find_x_position_from.induct)
  case (2 i v s e bins)
  show ?case
  proof (cases "real_of_int s \<le> v \<and> v < real_of_int e")
    case True
    then have w: "0 < real_of_int e - real_of_int s" by linarith
    have "0 \<le> (v - real_of_int s) / (real_of_int e - real_of_int s)"
      using True w by simp
    moreover have "(v - real_of_int s) / (real_of_int e - real_of_int s) < 1"
      using True w by simp
    ultimately show ?thesis
      using "2.prems" True w by (rule_tac x = 0 in exI) (auto simp: py_bind_def)
  next
    case False
    with "2.prems" obtain j x where "j < length bins" "r = Inr x"
      "real_of_int (fst (bins ! j)) \<le> v" "v < real_of_int (snd (bins ! j))"
      "real (Suc i + j) \<le> x" "x < real (Suc i + j) + 1"
      using "2.IH" by auto
    then show ?thesis by (rule_tac x = "Suc j" in exI) auto
  qed
qed simp

lemma find_x_position_from_None:
  "find_x_position_from i v bs = None \<longleftrightarrow>
   (\<forall>(s, e) \<in> set bs. \<not> (real_of_int s \<le> v \<and> v < real_of_int e))"
  by (induction i v bs rule: find_x_position_from.induct) auto

lemma find_x_position_bounds:
  assumes "bs \<noteq> []"
  shows "\<exists>x. find_x_position v bs = Inr x \<and> 0 \<le> x \<and> x \<le> real (length bs)"
proof (cases "find_x_position_from 0 v bs")
  case None
  have "1 \<le> length bs" using assms by (cases bs) simp_all
  with None show ?thesis by (simp add: find_x_position_def py_index_def py_bind_def)
next
  case (Some r)
  then show ?thesis
    using find_x_position_from_Some [OF Some] by (fastforce simp: find_x_position_def)
qed

lemma find_x_position_in_bar:
  assumes "k \<in> set bs" "real_of_int (fst k) \<le> v" "v < real_of_int (snd k)"
    and "\<forall>(s, e) \<in> set bs. real_of_int s \<le> v \<and> v < real_of_int e \<longrightarrow> (s, e) = k"
  shows "\<exists>x j. find_x_position v bs = Inr x \<and> j < length bs \<and> bs ! j = k \<and> real j \<le> x \<and> x < real j + 1"
proof -
  obtain r where r: "find_x_position_from 0 v bs = Some r"
    using assms(1-3) find_x_position_from_None [of 0 v bs] by (cases "find_x_position_from 0 v bs") force+
  from find_x_position_from_Some [OF r] obtain j x where j: "j < length bs" "r = Inr x"
    "real_of_int (fst (bs ! j)) \<le> v" "v < real_of_int (snd (bs ! j))" "real j \<le> x" "x < real j + 1"
    by auto
  have "bs ! j = k" using assms(4) j(1,3,4) nth_mem [OF j(1)] by (cases "bs ! j") fastforce
  with r j show ?thesis by (auto simp: find_x_position_def)
qed

lemma plot_stat_lines_bounds:
  assumes "bs \<noteq> []" "vs \<noteq> []"
  shows "\<exists>s. plot_stat_lines bs vs = Inr s \<and> sl_max s = Max (set vs) \<and>
     0 \<le> sl_mean_x s \<and> sl_mean_x s \<le> real (length bs) \<and>
     0 \<le> sl_median_x s \<and> sl_median_x s \<le> real (length bs) \<and>
     find_x_position (real_of_int (Max (set vs))) bs = Inr (sl_max_x s)"
proof -
  obtain x1 where x1: "find_x_position (py_mean vs) bs = Inr x1" "0 \<le> x1" "x1 \<le> real (length bs)"
    using find_x_position_bounds [OF assms(1)] by blast
  obtain x2 where x2: "find_x_position (py_median vs) bs = Inr x2" "0 \<le> x2" "x2 \<le> real (length bs)"
    using find_x_position_bounds [OF assms(1)] by blast
  obtain x3 where x3: "find_x_position (real_of_int (Max (set vs))) bs = Inr x3"
    using find_x_position_bounds [OF assms(1)] by blast
  show ?thesis
    using x1 x2 x3 assms(2) by (simp add: plot_stat_lines_def py_max_Max py_bind_def Let_def)
qed

lemma plot_histogram_Some:
  assumes "finite (dom F)" "dom F \<noteq> {}"
  shows "plot_histogram F vs =
    py_bind (optional_stat_lines (sorted_list_of_set (dom F)) vs) (\<lambda>stats.
      Inr (Some \<lparr>hp_bins = sorted_list_of_set (dom F), hp_counts = map (\<lambda>b. the (F b)) (sorted_list_of_set (dom F)),
                 hp_labelled = map (\<lambda>b. the (F b)) (sorted_list_of_set (dom F)), hp_color = ''skyblue'',
                 hp_stats = stats, hp_filename = ''iteration_steps_histogram.png''\<rparr>))"
  using assms by (simp add: plot_histogram_def Let_def)

lemma bin_counts_dom: "dom (bin_counts w vs) = bin_of w ` set vs"
  by (auto simp: bin_counts_def Let_def filter_empty_conv split: if_splits) (metis image_eqI)

lemma bin_of_unique:
  assumes w: "0 < w" and u: "bin_of w u = (s, e)" and v: "s \<le> v" "v < e"
  shows "bin_of w v = (s, e)"
proof -
  have s: "s = u div w * w" and e: "e = s + w" using u by (auto simp: bin_of_def mult.commute)
  have "(v - s) div w = 0" using v e by (simp add: div_pos_pos_trivial)
  moreover have "v div w = (v - s + u div w * w) div w" using s by simp
  ultimately have "v div w = u div w" using w by simp
  with u show ?thesis by (simp add: bin_of_def)
qed

lemma count_frequency_dom:
  assumes "0 < w" "create_bins vs w = Inr bins"
  shows "dom (count_frequency vs bins) = bin_of w ` set vs"
proof -
  have "count_frequency vs bins = bin_counts w vs"
    using count_frequency_reference_aux create_bins_find_bin_aux [OF assms] by blast
  then show ?thesis by (simp add: bin_counts_dom)
qed

lemma iteration_steps_main_report:
  assumes ne: "map int (process_iteration_steps d) \<noteq> []"
  shows "\<exists>rep. iteration_steps_main (Some d) = Inr (Some rep) \<and>
     create_bins (map int (process_iteration_steps d)) 5 = Inr (ir_bins rep) \<and>
     ir_frequency rep = count_frequency (map int (process_iteration_steps d)) (ir_bins rep) \<and>
     ir_max rep = Max (set (map int (process_iteration_steps d)))"
proof -
  obtain n_total n_correct where cnt: "count_problems d = (n_total, n_correct)"
    by (cases "count_problems d")
  from count_problems_steps [OF cnt]
  have len: "length (process_iteration_steps d) = n_correct" and le: "n_correct \<le> n_total" by auto
  have tpos: "0 < n_total" using ne len le by (cases "process_iteration_steps d") auto
  obtain bins where bins: "create_bins (map int (process_iteration_steps d)) 5 = Inr bins"
    using create_bins_Inr [of 5] by auto
  have tot: "real n_total \<noteq> 0" using tpos by simp
  have st: "real (length (map int (process_iteration_steps d))) \<noteq> 0" using ne by simp
  show ?thesis
    using cnt ne bins tot st by (simp add: iteration_steps_main_def py_min_Min py_max_Max Let_def)
qed

lemma iteration_steps_main_no_steps:
  "map int (process_iteration_steps d) = [] \<Longrightarrow> iteration_steps_main (Some d) = Inr None"
  by (simp add: iteration_steps_main_def split: prod.split)

lemma count_frequency_pos:
  "count_frequency vs bins k = Some c \<Longrightarrow> 0 < c"
proof -
  define P :: "frequency \<Rightarrow> bool" where "P m \<longleftrightarrow> (\<forall>k c. m k = Some c \<longrightarrow> 0 < c)" for m
  have step: "P (count_step bins m v)" if "P m" for m v
    using that unfolding P_def by (auto simp: count_step_def bump_def split: option.split)
  have fold: "P (foldl (count_step bins) m vs)" if "P m" for m
    using that by (induction vs arbitrary: m) (simp_all add: step)
  have "P Map.empty" by (simp add: P_def)
  then have "P (count_frequency vs bins)" unfolding count_frequency_def by (rule fold)
  then show "count_frequency vs bins k = Some c \<Longrightarrow> 0 < c" unfolding P_def by blast
qed

text \<open>The guard \<open>if height > 0\<close> of completion_tokens_analysis.py is never false on a
  table built by \<open>count_frequency\<close>: every bar is labelled, as in getdata.py.\<close>

lemma count_frequency_sorted_pos:
  "\<forall>b \<in> set (sorted_list_of_set (dom (count_frequency vs bins))). 0 < the (count_frequency vs bins b)"
proof
  fix b assume "b \<in> set (sorted_list_of_set (dom (count_frequency vs bins)))"
  then have "b \<in> dom (count_frequency vs bins)" by (cases "finite (dom (count_frequency vs bins))") auto
  then show "0 < the (count_frequency vs bins b)" using count_frequency_pos [of vs bins b] by auto
qed

lemma plot_histogram_tokens_labels_all:
  assumes "plot_histogram_tokens (count_frequency vs bins) xs response_type = Inr (Some p)"
  shows "hp_labelled p = hp_counts p"
proof -
  let ?F = "count_frequency vs bins"
  from assms have "hp_counts p = map (\<lambda>b. the (?F b)) (sorted_list_of_set (dom ?F)) \<and>
      hp_labelled p = filter (\<lambda>h. 0 < h) (hp_counts p)"
    unfolding plot_histogram_tokens_def Let_def
    by (cases "optional_stat_lines (sorted_list_of_set (dom ?F)) xs") (auto simp: py_bind_def split: if_splits)
  with count_frequency_sorted_pos [of vs bins] show ?thesis by simp
qed

lemma plot_histogram_tokens_Some:
  assumes "finite (dom F)" "dom F \<noteq> {}" "vs \<noteq> []"
  shows "\<exists>p s. plot_histogram_tokens F (Some vs) response_type = Inr (Some p) \<and>
     hp_bins p = sorted_list_of_set (dom F) \<and> hp_counts p = map (\<lambda>b. the (F b)) (hp_bins p) \<and>
     hp_labelled p = filter (\<lambda>h. 0 < h) (hp_counts p) \<and> hp_color p = histogram_color response_type \<and>
     hp_filename p = histogram_filename response_type \<and> hp_stats p = Some s"
proof -
  have ne: "sorted_list_of_set (dom F) \<noteq> []" using assms(1,2) by simp
  obtain s where "plot_stat_lines (sorted_list_of_set (dom F)) vs = Inr s"
    using plot_stat_lines_bounds [OF ne assms(3)] by blast
  with ne show ?thesis
    by (simp add: plot_histogram_tokens_def optional_stat_lines_def Let_def py_bind_def)
qed

lemma top_frequent_bins_eq:
  assumes "0 < n_tokens"
  shows "top_frequent_bins frequency n_tokens =
    Inr (map (\<lambda>(bin_range, count). (bin_range, count, real count / real n_tokens * 100))
           (take 10 (sort_key (\<lambda>(bin_range, count). - int count)
              (map (\<lambda>bin_range. (bin_range, the (frequency bin_range))) (sorted_list_of_set (dom frequency))))))"
  unfolding top_frequent_bins_def Let_def
  using assms by (intro py_map_list_Inr) (auto simp: py_bind_def)

lemma analyze_and_plot_Some:
  assumes "analyze_and_plot d f = Inr (Some stats)"
  shows "process_completion_tokens d f \<noteq> [] \<and>
    create_bins (process_completion_tokens d f) 50 = Inr (ts_bins stats) \<and>
    ts_frequency stats = count_frequency (process_completion_tokens d f) (ts_bins stats)"
  using assms
  by (auto simp: analyze_and_plot_def py_bind_def py_min_Min py_max_Max Let_def split: if_splits sum.splits)

text \<open>A statistic in a bin that holds no value (the table has no key for it) is drawn
  on the last bar: with iteration steps 1 and 21 the bars are 0--5 and 20--25, and the
  mean and the median, 11, are drawn at position 1, on the bar 20--25 with the maximum.\<close>

lemma plot_stat_lines_gap:
  "sorted_list_of_set (dom (bin_counts 5 [1, 21])) = [(0, 5), (20, 25)] \<and>
   plot_stat_lines [(0, 5), (20, 25)] [1, 21] =
     Inr \<lparr>sl_mean = 11, sl_median = 11, sl_max = 21, sl_mean_x = 1, sl_median_x = 1, sl_max_x = 1 + 1 / 5\<rparr>"
proof
  have "dom (bin_counts 5 [1, 21]) = set [(0, 5), (20, 25)]" by (simp add: bin_counts_dom bin_of_def)
  then show "sorted_list_of_set (dom (bin_counts 5 [1, 21])) = [(0, 5), (20, 25)]"
    by (simp add: sorted_list_of_set_sort_remdups)
  show "plot_stat_lines [(0, 5), (20, 25)] [1, 21] =
     Inr \<lparr>sl_mean = 11, sl_median = 11, sl_max = 21, sl_mean_x = 1, sl_median_x = 1, sl_max_x = 1 + 1 / 5\<rparr>"
    by code_simp
qed

text \<open>\<open>main\<close> passes the display names \<open>"Thinking"\<close> and \<open>"Summary"\<close>, which
  miss the lower-case keys of \<open>color_map\<close>: the three histograms share the default
  colour, while their file names differ.\<close>

lemma completion_plot_colors:
  "histogram_color ''All (Excluding Answer)'' = ''lightcoral'' \<and>
   histogram_color ''Thinking'' = ''lightcoral'' \<and> histogram_color ''Summary'' = ''lightcoral'' \<and>
   histogram_filename ''All (Excluding Answer)'' = ''completion_tokens_histogram_all_excluding_answer.png'' \<and>
   histogram_filename ''Thinking'' = ''completion_tokens_histogram_thinking.png'' \<and>
   histogram_filename ''Summary'' = ''completion_tokens_histogram_summary.png''"
  by code_simp

lemma analyze_and_plot_report_ok:
  "\<exists>r. analyze_and_plot_report d f display_name = Inr r \<and>
     (\<forall>stats top plot. r = Some (stats, top, plot) \<longrightarrow>
        (\<exists>p. plot = Some p \<and> hp_bins p = sorted_list_of_set (dom (ts_frequency stats)) \<and>
           hp_labelled p = hp_counts p \<and> hp_color p = histogram_color display_name \<and>
           length top = min 10 (length (hp_bins p))))"
proof -
  obtain x where x: "analyze_and_plot d f = Inr x" using analyze_and_plot_Inr by blast
  show ?thesis
  proof (cases x)
    case None
    with x show ?thesis by (simp add: analyze_and_plot_report_def py_bind_def)
  next
    case (Some stats)
    define vs where "vs = process_completion_tokens d f"
    from analyze_and_plot_Some [OF x [unfolded Some]]
    have ne: "vs \<noteq> []" and cb: "create_bins vs 50 = Inr (ts_bins stats)"
      and fr: "ts_frequency stats = count_frequency vs (ts_bins stats)"
      by (simp_all add: vs_def)
    have "dom (ts_frequency stats) = bin_of 50 ` set vs" using fr count_frequency_dom [OF _ cb] by simp
    then have fin: "finite (dom (ts_frequency stats))" and dne: "dom (ts_frequency stats) \<noteq> {}"
      using ne by simp_all
    obtain p s where p: "plot_histogram_tokens (ts_frequency stats) (Some vs) display_name = Inr (Some p)"
      "hp_bins p = sorted_list_of_set (dom (ts_frequency stats))"
      "hp_counts p = map (\<lambda>b. the (ts_frequency stats b)) (hp_bins p)"
      "hp_labelled p = filter (\<lambda>h. 0 < h) (hp_counts p)" "hp_color p = histogram_color display_name"
      using plot_histogram_tokens_Some [OF fin dne ne] by blast
    have lab: "hp_labelled p = hp_counts p"
      using p(2-4) fr count_frequency_sorted_pos [of vs "ts_bins stats"] by simp
    have npos: "0 < length vs" using ne by simp
    show ?thesis
      using x Some p lab top_frequent_bins_eq [OF npos, of "ts_frequency stats"]
      by (simp add: analyze_and_plot_report_def py_bind_def Let_def vs_def [symmetric])
  qed
qed

lemma completion_analysis_main_cases:
  "(tc_total_problems (completion_counts d) = 0 \<longrightarrow> completion_analysis_main (Some d) = Inl ZeroDivisionError) \<and>
   (0 < tc_total_problems (completion_counts d) \<longrightarrow> (\<exists>x. completion_analysis_main (Some d) = Inr (Some x)))"
proof -
  obtain a1 where a1: "analyze_and_plot d None = Inr a1" using analyze_and_plot_Inr by blast
  obtain a2 where a2: "analyze_and_plot d (Some ''thinking'') = Inr a2" using analyze_and_plot_Inr by blast
  obtain a3 where a3: "analyze_and_plot d (Some ''summary'') = Inr a3" using analyze_and_plot_Inr by blast
  show ?thesis using a1 a2 a3 by (simp add: completion_analysis_main_def Let_def py_truediv_def py_bind_def)
qed

text \<open>The plot of src/math/getdata.py is that of src/getdata.py called without data.\<close>

lemma plot_histogram_legacy_eq: "plot_histogram frequency None = Inr (plot_histogram_legacy frequency)"
  by (simp add: plot_histogram_def plot_histogram_legacy_def optional_stat_lines_def Let_def py_bind_def)

lemma getdata_main_no_report:
  "getdata_main None = Inr None"
  "map int (process_iteration_steps d) = [] \<Longrightarrow> getdata_main (Some d) = Inr None"
  by (simp_all add: getdata_main_def iteration_steps_main_def iteration_steps_main_no_steps py_bind_def)

lemma getdata_main_report:
  assumes vs: "vs = map int (process_iteration_steps d)" and ne: "vs \<noteq> []"
  shows "\<exists>rep plot s. getdata_main (Some d) = Inr (Some (rep, Some plot)) \<and>
     hp_bins plot = sorted_list_of_set (dom (ir_frequency rep)) \<and> set (hp_bins plot) = bin_of 5 ` set vs \<and>
     hp_bins plot \<noteq> [] \<and> hp_stats plot = Some s \<and> plot_stat_lines (hp_bins plot) vs = Inr s \<and>
     ir_max rep = Max (set vs)"
proof -
  obtain rep where rep: "iteration_steps_main (Some d) = Inr (Some rep)"
    and cb: "create_bins vs 5 = Inr (ir_bins rep)"
    and fr: "ir_frequency rep = count_frequency vs (ir_bins rep)"
    and mx: "ir_max rep = Max (set vs)"
    using iteration_steps_main_report [OF ne [unfolded vs]] unfolding vs [symmetric] by blast
  define bs where "bs = sorted_list_of_set (dom (ir_frequency rep))"
  have domF: "dom (ir_frequency rep) = bin_of 5 ` set vs"
    using fr count_frequency_dom [OF _ cb] by simp
  then have fin: "finite (dom (ir_frequency rep))" and dne: "dom (ir_frequency rep) \<noteq> {}"
    using ne by simp_all
  then have setbs: "set bs = bin_of 5 ` set vs" and bsne: "bs \<noteq> []"
    using domF by (simp_all add: bs_def)
  obtain s where s: "plot_stat_lines bs vs = Inr s"
    using plot_stat_lines_bounds [OF bsne ne] by blast
  show ?thesis
    using rep s fin dne mx setbs bsne vs
    by (simp add: getdata_main_def py_bind_def plot_histogram_Some optional_stat_lines_def bs_def)
qed

lemma getdata_main_Inr: "\<exists>r. getdata_main data = Inr r"
proof (cases data)
  case (Some d)
  then show ?thesis using getdata_main_no_report(2) [of d] getdata_main_report [of _ d]
    by (cases "map int (process_iteration_steps d) = []") blast+
qed (simp add: getdata_main_no_report)

lemma sorted_take_drop_le:
  assumes "sorted (map f xs)" "x \<in> set (take k xs)" "y \<in> set (drop k xs)"
  shows "f x \<le> f y"
proof -
  have "sorted (map f (take k xs) @ map f (drop k xs))"
    using assms(1) by (simp flip: map_append)
  then show ?thesis using assms(2,3) by (auto simp: sorted_append)
qed

section \<open>Properties\<close>

text \<open>C13: The top-10 listing of analyze_and_plot prints min(10, number of bins) bins of the table in non-increasing order of count, each with its count and percentage count/n*100, and no bin left out has a larger count than a listed one.\<close>

theorem top_frequent_bins_top10:
  assumes "finite (dom frequency)" and "0 < n_tokens"
  shows "\<exists>rows. top_frequent_bins frequency n_tokens = Inr rows \<and>
     length rows = min 10 (card (dom frequency)) \<and>
     sorted_wrt (\<lambda>r1 r2. fst (snd r2) \<le> fst (snd r1)) rows \<and>
     (\<forall>(b, c, p) \<in> set rows. frequency b = Some c \<and> p = real c / real n_tokens * 100) \<and>
     (\<forall>b \<in> dom frequency. b \<notin> fst ` set rows \<longrightarrow> (\<forall>r \<in> set rows. the (frequency b) \<le> fst (snd r)))"
proof -
  define g :: "bin \<times> nat \<Rightarrow> int" where "g = (\<lambda>(bin_range, count). - int count)"
  define h where "h = (\<lambda>(bin_range :: bin, count :: nat). (bin_range, count, real count / real n_tokens * 100))"
  define L where "L = map (\<lambda>bin_range. (bin_range, the (frequency bin_range))) (sorted_list_of_set (dom frequency))"
  define S where "S = sort_key g L"
  have rows: "top_frequent_bins frequency n_tokens = Inr (map h (take 10 S))"
    using top_frequent_bins_eq [OF assms(2), of frequency] by (simp add: h_def g_def S_def L_def)
  have setS: "set S = set L" by (simp add: S_def)
  have sortedS: "sorted (map g S)" by (simp add: S_def)
  have lenS: "length S = card (dom frequency)" using assms(1) by (simp add: S_def L_def)
  have memL: "x \<in> set L \<Longrightarrow> frequency (fst x) = Some (snd x)" for x
    using assms(1) by (auto simp: L_def)
  have "sorted_wrt (\<lambda>x y. g x \<le> g y) (take 10 S)"
    using sortedS by (simp add: sorted_map)
  then have srt: "sorted_wrt (\<lambda>r1 r2. fst (snd r2) \<le> fst (snd r1)) (map h (take 10 S))"
    by (simp add: sorted_wrt_map g_def h_def case_prod_beta)
  have mem: "\<forall>(b, c, p) \<in> set (map h (take 10 S)). frequency b = Some c \<and> p = real c / real n_tokens * 100"
    using memL setS by (auto simp: h_def dest: in_set_takeD)
  have top: "the (frequency b) \<le> fst (snd r)"
    if b: "b \<in> dom frequency" and nb: "b \<notin> fst ` set (map h (take 10 S))" and r: "r \<in> set (map h (take 10 S))" for b r
  proof -
    obtain x where x: "x \<in> set (take 10 S)" and rx: "r = h x" using r by auto
    have "(b, the (frequency b)) \<in> set S" using b assms(1) setS by (auto simp: L_def)
    moreover have "(b, the (frequency b)) \<notin> set (take 10 S)" using nb by (force simp: h_def)
    ultimately have "(b, the (frequency b)) \<in> set (drop 10 S)"
      by (metis append_take_drop_id Un_iff set_append)
    from sorted_take_drop_le [OF sortedS x this] show ?thesis
      by (simp add: rx g_def h_def case_prod_beta)
  qed
  show ?thesis
    using rows lenS srt mem top by (intro exI [of _ "map h (take 10 S)"]) simp
qed

text \<open>C12: getdata.py's main followed by its plot_histogram never raises; whenever it plots, the bars are the sorted keys of the frequency table, and the mean and median lines lie within [0, number of bars] while the max line lies inside the bar of the maximum's bin.\<close>

theorem getdata_main_plot:
  "\<exists>r. getdata_main data = Inr r \<and>
     (\<forall>rep p. r = Some (rep, p) \<longrightarrow>
        (\<exists>plot s. p = Some plot \<and> hp_bins plot = sorted_list_of_set (dom (ir_frequency rep)) \<and>
           hp_stats plot = Some s \<and> sl_max s = ir_max rep \<and>
           0 \<le> sl_mean_x s \<and> sl_mean_x s \<le> real (length (hp_bins plot)) \<and>
           0 \<le> sl_median_x s \<and> sl_median_x s \<le> real (length (hp_bins plot)) \<and>
           (\<exists>j < length (hp_bins plot). hp_bins plot ! j = bin_of 5 (ir_max rep) \<and>
              real j \<le> sl_max_x s \<and> sl_max_x s < real j + 1)))"
proof (cases "data = None \<or> map int (process_iteration_steps (the data)) = []")
  case True
  then show ?thesis using getdata_main_no_report by (cases data) auto
next
  case False
  then obtain d where d: "data = Some d" by auto
  define vs where "vs = map int (process_iteration_steps d)"
  have ne: "vs \<noteq> []" using False d by (simp add: vs_def)
  obtain rep plot s where r: "getdata_main (Some d) = Inr (Some (rep, Some plot))"
    and bins: "hp_bins plot = sorted_list_of_set (dom (ir_frequency rep))"
    and setbs: "set (hp_bins plot) = bin_of 5 ` set vs" and bsne: "hp_bins plot \<noteq> []"
    and st: "hp_stats plot = Some s" "plot_stat_lines (hp_bins plot) vs = Inr s"
    and mx: "ir_max rep = Max (set vs)"
    using getdata_main_report [OF vs_def ne] by blast
  define bs where "bs = hp_bins plot"
  have s: "sl_max s = Max (set vs)"
      "0 \<le> sl_mean_x s" "sl_mean_x s \<le> real (length bs)"
      "0 \<le> sl_median_x s" "sl_median_x s \<le> real (length bs)"
      "find_x_position (real_of_int (Max (set vs))) bs = Inr (sl_max_x s)"
    using plot_stat_lines_bounds [OF bsne ne] st(2) by (auto simp: bs_def)
  define k where "k = bin_of 5 (Max (set vs))"
  have kin: "k \<in> set bs" using ne by (simp add: setbs bs_def k_def)
  have klo: "fst k \<le> Max (set vs)" and khi: "Max (set vs) < snd k"
    using div_mult_le_self [of 5 "Max (set vs)"] lt_next_multiple [of 5 "Max (set vs)"]
    by (simp_all add: k_def bin_of_def mult.commute algebra_simps)
  have uniq: "\<forall>(a, b) \<in> set bs. real_of_int a \<le> real_of_int (Max (set vs)) \<and>
      real_of_int (Max (set vs)) < real_of_int b \<longrightarrow> (a, b) = k"
  proof clarify
    fix a b
    assume ab: "(a, b) \<in> set bs" and lo: "real_of_int a \<le> real_of_int (Max (set vs))"
      and hi: "real_of_int (Max (set vs)) < real_of_int b"
    from ab setbs obtain u where "bin_of 5 u = (a, b)" by (auto simp: bs_def)
    then show "(a, b) = k" using bin_of_unique [of 5 u a b "Max (set vs)"] lo hi by (simp add: k_def)
  qed
  obtain x j where x: "find_x_position (real_of_int (Max (set vs))) bs = Inr x"
    "j < length bs" "bs ! j = k" "real j \<le> x" "x < real j + 1"
    using find_x_position_in_bar [OF kin _ _ uniq] klo khi by auto
  show ?thesis
    using d r bins st s x mx by (simp add: bs_def k_def) blast
qed


theorem getdata_main_plot_witness:
  "\<exists>r. getdata_main (Some (Flat_details [Detail ''Q'' (Some ''7'') ''7'' (Some True) (make_result (Some ''7'') solve_init)])) = Inr r \<and>
     (\<forall>rep p. r = Some (rep, p) \<longrightarrow>
        (\<exists>plot s. p = Some plot \<and> hp_bins plot = sorted_list_of_set (dom (ir_frequency rep)) \<and>
           hp_stats plot = Some s \<and> sl_max s = ir_max rep \<and>
           0 \<le> sl_mean_x s \<and> sl_mean_x s \<le> real (length (hp_bins plot)) \<and>
           0 \<le> sl_median_x s \<and> sl_median_x s \<le> real (length (hp_bins plot)) \<and>
           (\<exists>j < length (hp_bins plot). hp_bins plot ! j = bin_of 5 (ir_max rep) \<and>
              real j \<le> sl_max_x s \<and> sl_max_x s < real j + 1)))"
  by (rule getdata_main_plot)


theorem top_frequent_bins_top10_witness:
  "\<exists>rows. top_frequent_bins [(0, 50) \<mapsto> 3, (50, 100) \<mapsto> 5, (100, 150) \<mapsto> 5] 13 = Inr rows \<and>
     length rows = min 10 (card (dom [(0::int, 50::int) \<mapsto> 3::nat, (50, 100) \<mapsto> 5, (100, 150) \<mapsto> 5])) \<and>
     sorted_wrt (\<lambda>r1 r2. fst (snd r2) \<le> fst (snd r1)) rows \<and>
     (\<forall>(b, c, p) \<in> set rows. [(0, 50) \<mapsto> 3, (50, 100) \<mapsto> 5, (100, 150) \<mapsto> 5] b = Some c \<and> p = real c / real (13::nat) * 100) \<and>
     (\<forall>b \<in> dom [(0::int, 50::int) \<mapsto> 3::nat, (50, 100) \<mapsto> 5, (100, 150) \<mapsto> 5]. b \<notin> fst ` set rows \<longrightarrow>
        (\<forall>r \<in> set rows. the ([(0, 50) \<mapsto> 3, (50, 100) \<mapsto> 5, (100, 150) \<mapsto> 5] b) \<le> fst (snd r)))"
  by (rule top_frequent_bins_top10) simp_all

text \<open>C14: completion_tokens_analysis.py's main, with its three analyses and their plots, raises ZeroDivisionError exactly when the result data has no problem record and nothing else; every plot it draws has the sorted bins of the table as bars, a label on every bar, the colour lightcoral (the display names 'Thinking' and 'Summary' miss the colour map), and a top-10 listing of min(10, number of bars) rows.\<close>

theorem completion_analysis_plots_safe:
  "(tc_total_problems (completion_counts d) = 0 \<longrightarrow>
      completion_analysis_plots (Some d) = Inl ZeroDivisionError) \<and>
   (0 < tc_total_problems (completion_counts d) \<longrightarrow>
      (\<exists>a t s. completion_analysis_plots (Some d) = Inr (Some (a, t, s)) \<and>
         (\<forall>r \<in> {a, t, s}. \<forall>stats top plot. r = Some (stats, top, plot) \<longrightarrow>
            (\<exists>p. plot = Some p \<and> hp_bins p = sorted_list_of_set (dom (ts_frequency stats)) \<and>
               hp_labelled p = hp_counts p \<and> hp_color p = ''lightcoral'' \<and>
               length top = min 10 (length (hp_bins p))))))"
proof -
  obtain a where a: "analyze_and_plot_report d None ''All (Excluding Answer)'' = Inr a"
    "\<forall>stats top plot. a = Some (stats, top, plot) \<longrightarrow>
        (\<exists>p. plot = Some p \<and> hp_bins p = sorted_list_of_set (dom (ts_frequency stats)) \<and>
           hp_labelled p = hp_counts p \<and> hp_color p = ''lightcoral'' \<and> length top = min 10 (length (hp_bins p)))"
    using analyze_and_plot_report_ok [of d None "''All (Excluding Answer)''"] by (auto simp: histogram_color_def)
  obtain t where t: "analyze_and_plot_report d (Some ''thinking'') ''Thinking'' = Inr t"
    "\<forall>stats top plot. t = Some (stats, top, plot) \<longrightarrow>
        (\<exists>p. plot = Some p \<and> hp_bins p = sorted_list_of_set (dom (ts_frequency stats)) \<and>
           hp_labelled p = hp_counts p \<and> hp_color p = ''lightcoral'' \<and> length top = min 10 (length (hp_bins p)))"
    using analyze_and_plot_report_ok [of d "Some ''thinking''" "''Thinking''"] by (auto simp: histogram_color_def)
  obtain s where s: "analyze_and_plot_report d (Some ''summary'') ''Summary'' = Inr s"
    "\<forall>stats top plot. s = Some (stats, top, plot) \<longrightarrow>
        (\<exists>p. plot = Some p \<and> hp_bins p = sorted_list_of_set (dom (ts_frequency stats)) \<and>
           hp_labelled p = hp_counts p \<and> hp_color p = ''lightcoral'' \<and> length top = min 10 (length (hp_bins p)))"
    using analyze_and_plot_report_ok [of d "Some ''summary''" "''Summary''"] by (auto simp: histogram_color_def)
  show ?thesis
    using completion_analysis_main_cases [of d] a t s
    by (auto simp: completion_analysis_plots_def py_bind_def)
qed

theorem completion_analysis_plots_safe_witness:
  "completion_analysis_plots (Some (Difficulty_results [])) = Inl ZeroDivisionError \<and>
   (\<exists>a t s. completion_analysis_plots (Some (Flat_details [Detail_error ''Q'' RequestError])) = Inr (Some (a, t, s)) \<and>
      (\<forall>r \<in> {a, t, s}. \<forall>stats top plot. r = Some (stats, top, plot) \<longrightarrow>
         (\<exists>p. plot = Some p \<and> hp_bins p = sorted_list_of_set (dom (ts_frequency stats)) \<and>
            hp_labelled p = hp_counts p \<and> hp_color p = ''lightcoral'' \<and>
            length top = min 10 (length (hp_bins p)))))"
proof
  have "tc_total_problems (completion_counts (Difficulty_results [])) = 0"
    by (simp add: completion_counts_def token_counts_init_def)
  then show "completion_analysis_plots (Some (Difficulty_results [])) = Inl ZeroDivisionError"
    using completion_analysis_plots_safe [of "Difficulty_results []"] by simp
  have "0 < tc_total_problems (completion_counts (Flat_details [Detail_error ''Q'' RequestError]))"
    by (simp add: completion_counts_def token_counts_init_def count_problem_tokens_def)
  then show "\<exists>a t s. completion_analysis_plots (Some (Flat_details [Detail_error ''Q'' RequestError])) = Inr (Some (a, t, s)) \<and>
      (\<forall>r \<in> {a, t, s}. \<forall>stats top plot. r = Some (stats, top, plot) \<longrightarrow>
         (\<exists>p. plot = Some p \<and> hp_bins p = sorted_list_of_set (dom (ts_frequency stats)) \<and>
            hp_labelled p = hp_counts p \<and> hp_color p = ''lightcoral'' \<and>
            length top = min 10 (length (hp_bins p))))"
    using completion_analysis_plots_safe [of "Flat_details [Detail_error ''Q'' RequestError]"] by blast
qed

end
