(* ===== verification/Spec2Isabelle.thy ===== *)
theory Spec2Isabelle
  imports Aggregate Binning Legacy Single Analysis LegacyLevel Reports ProbeScript Plotting
begin

text \<open>
  \<^bold>\<open>A verification library for the multi-agent math-evaluation scripts.\<close>

  The repository drives a chat-completion model through a chain of "agents": each call
  gets the question and the previous response, answers with one of the tags
  \<open><think>\<close>, \<open><summary>\<close>, \<open><answer>\<close>, and the loop stops at the first
  \<open><answer>\<close>.  A driver per difficulty level runs the loop on every problem, has a
  second model call judge the answer, and accumulates tokens, cost, latency, compute
  estimates and accuracy; analysis scripts histogram the recorded per-iteration data.
  The development is a shallow embedding of that code.  The remote model is never
  modelled: it is a parameter (an \<open>llm\<close>, a \<open>judge_api\<close> or a \<open>chat\<close>, a function
  from the call's index and prompts to the outcome of one HTTP round trip), so every
  theorem holds for every behaviour of the model and of the network.

  \<^bold>\<open>Theories and the code they model.\<close>
  \<^item> \<open>Prelude\<close>: the Python semantics the scripts rely on: exceptions as values
    (\<open>py_error\<close>, \<open>'a py_result = py_error + 'a\<close>, \<open>py_bind\<close>), \<open>in\<close> on strings
    (\<open>py_in\<close>, proved equal to \<open>sublist\<close>), \<open>str.split\<close> and list indexing
    (\<open>py_split\<close>, \<open>py_index\<close>, raising \<open>ValueError\<close>/\<open>IndexError\<close>),
    \<open>str.strip\<close> (ASCII whitespace), \<open>str.replace\<close> of one character, true and floor
    division (\<open>py_truediv\<close> raises \<open>ZeroDivisionError\<close>, so the scripts' zero guards
    are meaningful), \<open>range\<close> with a step, \<open>max\<close>, \<open>min\<close>, \<open>statistics.mean\<close>.
  \<^item> \<open>Classifier\<close>: the tags and the \<open>response_type\<close> of an iteration record
    (\<open>src/math/process3.py\<close> line 176).
  \<^item> \<open>Extract\<close>: the answer extraction \<open>split("<answer>")[1].split("</answer>")[0].strip()\<close>
    (\<open>answer_of_response\<close>, process3.py line 198) and the regex extractors
    \<open>extract_final_answer\<close> of process3.py and of \<open>src/math/test3.py\<close>.
  \<^item> \<open>Driver\<close>: \<open>solve_problem_with_agents\<close> of process3.py (lines 146--223) with
    \<open>_get_response\<close>, \<open>_generate_prompt\<close>, \<open>_get_user_prompt\<close>.  The Python dict
    accumulators are the record \<open>solve_state\<close>; one body of the \<open>for\<close> loop is
    \<open>solve_iteration\<close>, returning \<open>Continue\<close> or \<open>Finished\<close> or an exception;
    \<open>solve_loop\<close> is the loop, by structural recursion on the iterations left;
    \<open>make_result\<close> the statistics and the returned dict.
  \<^item> \<open>Comparator\<close>: \<open>compare_answers\<close> of process3.py/test3.py (equality after removing
    blanks), the containment variant of \<open>src/math/process.py\<close>, and the model-judged
    \<open>evaluate_answers_ai\<close> with its \<open>[[YES]]\<close>/\<open>[[NO]]\<close> verdict.
  \<^item> \<open>Aggregate\<close>: \<open>process_difficulty_level\<close> of process3.py (lines 258--399): the
    record \<open>tier_metrics\<close> of the level's counters, one \<open>process_problem\<close> per problem
    (solver, judge, detail record), the guarded averages \<open>tier_finalize\<close>; and the
    summary of \<open>main\<close> (lines 402--484): \<open>collect_levels\<close>, \<open>summary_add\<close>,
    \<open>summary_finalize\<close>, \<open>run_main\<close>.  The model per level is \<open>apis d\<close>, the judge
    \<open>judges d\<close>, the JSON data file \<open>data d\<close> (\<open>None\<close> when it is missing).
  \<^item> \<open>Binning\<close>: \<open>create_bins\<close> and \<open>count_frequency\<close> of \<open>src/getdata.py\<close>, their
    copies in \<open>src/completion_tokens_analysis.py\<close> (\<open>create_bins_tokens\<close>,
    \<open>count_frequency_tokens\<close>, which \<open>analyze_and_plot\<close> calls), and the older
    \<open>create_bins\<close> and \<open>count_frequency\<close> of \<open>src/math/getdata.py\<close>
    (\<open>create_bins_legacy\<close>, whose Python value is a list or the pair \<open>[], []\<close>,
    \<open>bins_value\<close>; \<open>count_frequency_legacy_value\<close>).
  \<^item> \<open>Single\<close>: the single-shot evaluation of \<open>src/math/test3.py\<close>: \<open>request_llm\<close>
    and \<open>process_difficulty_level\<close> (lines 131--236), one request per problem, compute
    estimated as the square of the tokens, only \<open>problems[20:30]\<close> evaluated; and the
    summary of its \<open>main\<close> over the levels 1 to 5 (\<open>run_main_single\<close>); its own
    \<open>evaluate_answers_ai\<close> through \<open>request_llm\<close> (\<open>evaluate_answers_ai_single\<close>) and
    its uncalled \<open>compare_answers\<close> (\<open>compare_answers_single\<close>).
  \<^item> \<open>Analysis\<close>: the scripts that read the results back:
    \<open>process_iteration_steps\<close> of \<open>src/getdata.py\<close>, \<open>process_completion_tokens\<close>
    of \<open>src/completion_tokens_analysis.py\<close> and \<open>find_max_problem\<close> of
    \<open>src/math/find_max_problem.py\<close>, over the level records of \<open>Aggregate\<close> (the
    JSON dump of \<open>main\<close>).
  \<^item> \<open>Reports\<close>: the \<open>main\<close> functions of the analysis scripts: the report of
    \<open>src/getdata.py\<close> (\<open>iteration_steps_main\<close>), the histogram of
    \<open>src/math/getdata.py\<close> (\<open>histogram_main_legacy\<close>), and the counts and the
    per-type statistics of \<open>src/completion_tokens_analysis.py\<close>
    (\<open>completion_analysis_main\<close>, \<open>analyze_and_plot\<close>); the printed values are
    returned instead of printed.
  \<^item> \<open>Legacy\<close>: the older driver of process.py (lines 92--150, with its own
    \<open>_get_user_prompt\<close> and uncalled \<open>extract_final_answer\<close>) and the probe loops of
    \<open>src/math/test1 copy.py\<close> and \<open>src/math/test1 copy 2.py\<close>.
  \<^item> \<open>ProbeScript\<close>: the script level of \<open>src/math/test1 copy 2.py\<close> (lines 47--103):
    the loop over \<open>amc_problems[:10]\<close>, each problem run by \<open>trial_loop\<close> from a reset
    \<open>trial_start\<close> state (\<open>trial_run\<close>), the global totals (\<open>trial_totals\<close>) and the
    printed accuracy (\<open>trial_script\<close>).
  \<^item> \<open>Plotting\<close>: what the histograms draw, as a record \<open>histogram_plot\<close> (sorted bins,
    bar heights, labelled bars, colour, statistic lines, file name): \<open>plot_histogram\<close> of
    \<open>src/getdata.py\<close>, of \<open>src/completion_tokens_analysis.py\<close>
    (\<open>plot_histogram_tokens\<close>, with \<open>histogram_color\<close> and \<open>histogram_filename\<close>) and
    of \<open>src/math/getdata.py\<close> (\<open>plot_histogram_legacy\<close>), the nested
    \<open>find_x_position\<close> (its \<open>for\<close> loop is \<open>find_x_position_from\<close>), the top-10 listing
    of \<open>analyze_and_plot\<close> (\<open>top_frequent_bins\<close>, a stable \<open>sort_key\<close> as Python's
    \<open>sort(key=..., reverse=True)\<close>), and the \<open>main\<close> functions that print and plot
    (\<open>getdata_main\<close>, \<open>completion_analysis_plots\<close>, \<open>histogram_main_legacy_plot\<close>).
  \<^item> \<open>LegacyLevel\<close>: \<open>process_difficulty_level\<close> of process.py (lines 164--262), the
    first ten problems judged by the containment comparator, and the summary of its
    \<open>main\<close> (\<open>run_main_legacy\<close>, level 1 only).

  \<^bold>\<open>What is proved.\<close>
  For the driver: the result is returned whenever the model raises no exception other
  than a request error (the loop is total), the number of attempts is bounded by
  \<open>max_iterations\<close>, the totals (tokens, flops, cost) are the sums of the per-iteration
  records, the records are ordered and bounded, and the completion statistics are the
  mean, maximum and minimum of the recorded tokens.  The extraction inverts rendering an
  answer between the tags and raises \<open>IndexError\<close> without an opening tag.  The
  comparator is an equivalence insensitive to blanks, the containment comparator is not
  symmetric and accepts an empty answer.  Per level, the counters are consistent (correct
  \<open>\<le>\<close> processed \<open>\<le>\<close> problems, accuracy within \<open>[0, 100]\<close>), the token total is
  the sum over problems (and, below, over every recorded model call), the averages never
  divide by zero; the run summary adds up the levels; the same holds of the single-shot levels of
  \<open>test3.py\<close>, which record \<open>flops = tokens\<^sup>2\<close> per problem.  The bins of \<open>create_bins\<close> put
  every value in its floor bin, \<open>count_frequency\<close> equals a direct count, the two
  versions agree; the iteration counts read back for the histogram lie in
  \<open>[1, 22]\<close>, the two token filters partition the completion tokens (as multisets), and
  \<open>find_max_problem\<close> returns a correct problem of maximal iteration count.  The
  response-type strings encode the four types one to one (\<open>response_type\<close> is an
  \<open>enum\<close> instance).  The report of \<open>src/getdata.py\<close> never raises and its statistics
  are ordered (min \<open>\<le>\<close> mean, median \<open>\<le>\<close> max); the counts of
  \<open>completion_tokens_analysis.py\<close> are ordered, and its \<open>main\<close> raises
  \<open>ZeroDivisionError\<close> exactly on a result file with no problem record.
  \<open>process.py\<close>'s driver is a projection (a simulation) of
  \<open>process3.py\<close>'s; \<open>test1 copy.py\<close> stops within its step limit while
  \<open>test1 copy 2.py\<close> does not stop for a model that keeps thinking, whatever the fuel;
  \<open>process.py\<close>'s levels are consistent too, but give full marks to a model whose answer
  is blank.  The summaries of the three \<open>main\<close> functions never raise and report an
  overall accuracy within \<open>[0, 100]\<close>.  The accuracy printed by \<open>test1 copy 2.py\<close> is
  the number of correct answers itself: it divides by 100 but runs at most ten problems.
  \<open>getdata.py\<close>'s \<open>main\<close> with its plot never raises; the mean and median lines lie on
  the plot and the max line inside the bar of the maximum's bin, but a statistic that
  falls in an empty bin is drawn on the last bar.  The top-10 listing is ordered by count
  and leaves out no bin with a larger count than a listed one.  The \<open>main\<close> of
  \<open>completion_tokens_analysis.py\<close> with its three analyses and plots raises nothing but
  the \<open>ZeroDivisionError\<close> above; its three histograms get one colour, because the
  display names miss the keys of the colour map, and every bar of them is labelled.  The
  helpers the scripts copy from one another agree with their originals, except
  \<open>create_bins\<close> of \<open>src/math/getdata.py\<close> on an empty list and \<open>compare_answers\<close>
  of \<open>test3.py\<close> on a missing answer (a lemma, not a property: the copies are the same
  code).  A level's processed count is the number of problems whose solver returned,
  judge failures included, and its correct count the number the judge accepted; an
  answering response that also carries a \<open><think>\<close> or \<open><summary>\<close> tag is recorded
  as a non-answer call; \<open>process.py\<close>'s level gives accuracy 100 to every model whose
  answers are blank, on every non-empty problem file.

  \<^bold>\<open>Bounds and fuel.\<close>  The driver's loop is structural recursion on
  \<open>nat max_iterations\<close> (Python's \<open>range\<close> of a negative bound is empty), 22 in
  process3.py and 50 in process.py; no fuel is needed.  Only \<open>test1 copy 2.py\<close>'s
  \<open>while True\<close> loop may not end; it is given fuel, and its divergence is stated for
  every amount of fuel.  \<open>test1 copy.py\<close>'s loop is a \<open>function\<close> with the measure
  \<open>max_steps - num_steps\<close>.

  \<^bold>\<open>Not modelled.\<close>  Console output, JSON parsing (a file is given by what it parses to)
  and dumping, the \<open>load_data\<close> functions of the analysis scripts and their
  \<open>if __name__ == "__main__"\<close> entry points (\<open>json.load\<close> yields an arbitrary JSON value:
  a non-UTF-8 file raises \<open>UnicodeDecodeError\<close>, a number or \<open>true\<close> raises
  \<open>TypeError\<close> at the first \<open>in\<close> test, and a document off the result schema raises
  wherever the \<open>main\<close> first indexes it; the \<open>main\<close> functions are modelled from the
  parsed result data on), timing
  (latencies are values returned by the model parameter), \<open>time.sleep\<close>, logging,
  the matplotlib calls (figure size, fonts, titles, legend and text box: what they draw is
  the \<open>histogram_plot\<close> record), the loading of the problem files of the drivers (a file is
  an option argument), the configuration and API-key preambles of the scripts, the
  script level of \<open>src/math/test1 copy.py\<close> (one fixed question, its loop is
  \<open>probe_loop\<close>), the Tk window of \<open>src/math/mainview.py\<close>, the text of the
  prompt templates (only the limits they state), the summary strings and result files the
  \<open>main\<close> functions write, floating point rounding (floats are
  reals) and non-ASCII letters and whitespace in \<open>lower\<close> and \<open>strip\<close>.  The probe
  script's loop is run with an explicit fuel argument in \<open>trial_script\<close>; the divergence
  theorem of \<open>Legacy\<close> shows that no amount of fuel suffices in general.
\<close>

section \<open>Properties spanning components\<close>

lemma solved_tokens_details:
  "solved_tokens api p =
     (case solve_default api (problem_text p) of
        Inl _ \<Rightarrow> 0
      | Inr r \<Rightarrow> sum_list (map info_total_tokens (res_details r)))"
proof (cases "solve_default api (problem_text p)")
  case (Inr r)
  then obtain ans st where inv: "solve_inv st" and r: "r = make_result ans st"
    unfolding solve_default_def by (rule solve_problem_inv)
  from inv have "total_usage st = usage_sum (iteration_details st)"
    by (simp add: solve_inv_def Let_def)
  with Inr r show ?thesis
    by (simp add: solved_tokens_def make_result_def Let_def usage_sum_def)
qed (simp add: solved_tokens_def)

text \<open>C23: The total tokens of a difficulty level are the sum, over its problems, of the total tokens of every model call recorded in the solver's iteration details.\<close>

theorem level_tokens_from_calls:
  "\<exists>m a. process_difficulty_level apis judges d (Some ps) = Inr (Some (m, a)) \<and>
     m_total_tokens m =
       sum_list (map (\<lambda>(j, p). case solve_default (apis j) (problem_text p) of
                                 Inl _ \<Rightarrow> 0
                               | Inr r \<Rightarrow> sum_list (map info_total_tokens (res_details r)))
                     (zip [1..<Suc (length ps)] ps))"
proof -
  obtain m a where lvl: "process_difficulty_level apis judges d (Some ps) = Inr (Some (m, a))"
    and m: "m = process_problems apis judges 1 (tier_init d (length ps)) ps"
    using process_difficulty_level_Some by blast
  from m process_problems_inv [OF tier_inv_init]
  have "m_total_tokens m = sum_list (map (\<lambda>(j, p). solved_tokens (apis j) p) (zip [1..<Suc (length ps)] ps))"
    by (simp add: tier_init_def)
  with lvl show ?thesis by (simp add: solved_tokens_details)
qed

text \<open>The helpers that several scripts copy agree with the originals: create_bins and count_frequency of completion_tokens_analysis.py are those of getdata.py, _get_user_prompt and extract_final_answer of process.py are those of process3.py, test3.py's evaluate_answers_ai (through request_llm) is process3.py's; the copies differ only where math/getdata.py's create_bins returns the pair ([], []) on an empty list (its count_frequency then raises TypeError on any value) and test3.py's compare_answers raises AttributeError on None.\<close>

theorem duplicated_helpers_agree:
  "create_bins_tokens = create_bins \<and> count_frequency_tokens = count_frequency \<and>
   (\<forall>vs w. vs \<noteq> [] \<longrightarrow> create_bins_legacy vs w = map_sum id Bin_list (create_bins vs w)) \<and>
   create_bins_legacy [] w = Inr (Bin_pair [] []) \<and> create_bins [] w = Inr [] \<and>
   (\<forall>vs. vs \<noteq> [] \<longrightarrow> count_frequency_legacy_value vs (Bin_pair [] []) = Inl TypeError) \<and>
   get_user_prompt_legacy = get_user_prompt \<and> extract_final_answer_legacy = extract_final_answer \<and>
   evaluate_answers_ai_single = evaluate_answers_ai \<and>
   (\<forall>f c. compare_answers_single (Some f) c = Inr (compare_answers (Some f) (Some c))) \<and>
   compare_answers_single None c = Inl AttributeError \<and> \<not> compare_answers None (Some c)"
  by (simp add: create_bins_legacy_eq extract_final_answer_legacy_eq compare_answers_single_Some
                count_frequency_legacy_value_def compare_answers_single_def compare_answers_def create_bins_def)

end
